(* ===== verification/Prelude.thy ===== *)
theory Prelude
  imports Main "HOL-Library.Sublist" "HOL-Library.AList"
begin

text \<open>
  Shared vocabulary of the development: the bind of the exception-as-value result type
  (\<open>'e + 'a\<close>, \<open>Inl\<close> the raised exception), the list slices and the substring test
  that Python's \<open>xs[-n:]\<close> and \<open>k in s\<close> denote, \<open>str.join\<close>, and the generic list
  and association-list lemmas the component theories share.  The collection
  \<open>py_simps\<close> gathers the evaluation equations of the Python primitives of
  \<open>PyValue\<close> that component proofs unfold together.
\<close>

named_theorems py_simps "evaluation equations of the modelled Python primitives"

section \<open>Results: exceptions as values\<close>

definition res_bind :: "'e + 'a \<Rightarrow> ('a \<Rightarrow> 'e + 'b) \<Rightarrow> 'e + 'b" where
  "res_bind r f = (case r of Inl e \<Rightarrow> Inl e | Inr a \<Rightarrow> f a)"

lemma res_bind_Inl [simp]: "res_bind (Inl e) f = Inl e"
  by (simp add: res_bind_def)

lemma res_bind_Inr [simp]: "res_bind (Inr a) f = f a"
  by (simp add: res_bind_def)

lemma res_bind_eq_Inr:
  "res_bind r f = Inr b \<longleftrightarrow> (\<exists>a. r = Inr a \<and> f a = Inr b)"
  by (cases r) simp_all

lemma res_bind_eq_Inl:
  "res_bind r f = Inl e \<longleftrightarrow> r = Inl e \<or> (\<exists>a. r = Inr a \<and> f a = Inl e)"
  by (cases r) simp_all

section \<open>Slices: \<open>xs[-n:]\<close>\<close>

text \<open>The last \<open>n\<close> elements of a list, all of it when it is shorter.\<close>

definition last_n :: "nat \<Rightarrow> 'a list \<Rightarrow> 'a list" where
  "last_n n xs = drop (length xs - n) xs"

lemma length_last_n [simp]: "length (last_n n xs) = min n (length xs)"
  by (simp add: last_n_def)

lemma last_n_short [simp]: "length xs \<le> n \<Longrightarrow> last_n n xs = xs"
  by (simp add: last_n_def)

lemma last_n_suffix: "suffix (last_n n xs) xs"
  by (simp add: last_n_def suffix_drop)

lemma take_last_n_append: "take (length xs - n) xs @ last_n n xs = xs"
  by (simp add: last_n_def)

lemma last_n_append_long:
  "n \<le> length ys \<Longrightarrow> last_n n (xs @ ys) = last_n n ys"
  by (simp add: last_n_def)

lemma last_n_last: "xs \<noteq> [] \<Longrightarrow> 0 < n \<Longrightarrow> last (last_n n xs) = last xs"
  by (simp add: last_n_def)

section \<open>Substring test: \<open>k in s\<close>\<close>

text \<open>
  A naive left-to-right scan, the reference for CPython's \<open>str.__contains__\<close>: the
  needle occurs in the haystack iff it is a prefix of some suffix.
\<close>

fun starts_with :: "'a list \<Rightarrow> 'a list \<Rightarrow> bool" where
  "starts_with [] ys = True"
| "starts_with (x # xs) [] = False"
| "starts_with (x # xs) (y # ys) = (x = y \<and> starts_with xs ys)"

fun str_contains :: "'a list \<Rightarrow> 'a list \<Rightarrow> bool" where
  "str_contains k [] = (k = [])"
| "str_contains k (c # cs) = (starts_with k (c # cs) \<or> str_contains k cs)"

lemma starts_with_prefix [simp]: "starts_with xs ys = prefix xs ys"
  by (induction xs ys rule: starts_with.induct) simp_all

lemma str_contains_sublist: "str_contains k s = sublist k s"
  by (induction s) (simp_all add: sublist_Cons_right)

lemma str_contains_append_right [intro]: "str_contains k s \<Longrightarrow> str_contains k (s @ t)"
  unfolding str_contains_sublist by (meson sublist_append_rightI sublist_order.dual_order.trans)

lemma str_contains_append_left [intro]: "str_contains k t \<Longrightarrow> str_contains k (s @ t)"
  unfolding str_contains_sublist by (meson sublist_append_leftI sublist_order.dual_order.trans)

lemma str_contains_self [simp]: "str_contains k k"
  by (simp add: str_contains_sublist)

lemma concat_map_nth_sublist:
  "i < length xs \<Longrightarrow> sublist (f (xs ! i)) (concat (map f xs))"
proof (induction xs arbitrary: i)
  case Nil then show ?case by simp
next
  case (Cons x xs)
  then show ?case
    by (cases i) (auto intro: sublist_order.order_trans [OF _ sublist_append_leftI])
qed

text \<open>
  The scan agrees with the meaning of \<open>k in s\<close>: it answers true exactly when
  \<open>s\<close> splits as \<open>ps @ k @ ss\<close>.
\<close>

theorem str_contains_iff_split: "str_contains k s \<longleftrightarrow> (\<exists>ps ss. s = ps @ k @ ss)"
  by (simp add: str_contains_sublist sublist_def)

section \<open>\<open>sep.join(parts)\<close>\<close>

fun py_join :: "'a list \<Rightarrow> 'a list list \<Rightarrow> 'a list" where
  "py_join sep [] = []"
| "py_join sep [x] = x"
| "py_join sep (x # y # zs) = x @ sep @ py_join sep (y # zs)"

section \<open>Association lists\<close>

text \<open>Inserting pairs one by one, as \<open>dict\<close> does: the last binding of a key wins.\<close>

definition alist_of_pairs :: "('k \<times> 'v) list \<Rightarrow> ('k \<times> 'v) list" where
  "alist_of_pairs kvs = foldl (\<lambda>d (k, v). AList.update k v d) [] kvs"

lemma map_of_foldl_update:
  "map_of (foldl (\<lambda>d (k, v). AList.update k v d) d0 kvs) = map_of d0 ++ map_of (rev kvs)"
  by (induction kvs arbitrary: d0) (auto simp: update_conv' map_add_def fun_eq_iff split: option.splits)

lemma distinct_foldl_update:
  "distinct (map fst d0) \<Longrightarrow> distinct (map fst (foldl (\<lambda>d (k, v). AList.update k v d) d0 kvs))"
  by (induction kvs arbitrary: d0) (auto simp: distinct_update)

lemma map_of_alist_of_pairs [simp]: "map_of (alist_of_pairs kvs) = map_of (rev kvs)"
  by (simp add: alist_of_pairs_def map_of_foldl_update)

lemma distinct_alist_of_pairs [simp]: "distinct (map fst (alist_of_pairs kvs))"
  by (simp add: alist_of_pairs_def distinct_foldl_update)

lemma set_foldl_update:
  "set (foldl (\<lambda>d (k, v). AList.update k v d) d0 kvs) \<subseteq> set d0 \<union> set kvs"
proof (induction kvs arbitrary: d0)
  case Nil then show ?case by simp
next
  case (Cons kv kvs)
  have "set (AList.update (fst kv) (snd kv) d0) \<subseteq> insert kv (set d0)"
    by (induction d0) auto
  with Cons.IH [of "AList.update (fst kv) (snd kv) d0"] show ?case by (cases kv) auto
qed

lemma set_alist_of_pairs: "set (alist_of_pairs kvs) \<subseteq> set kvs"
  using set_foldl_update [of "[]" kvs] by (simp add: alist_of_pairs_def)

lemma update_fresh: "k \<notin> fst ` set d \<Longrightarrow> AList.update k v d = d @ [(k, v)]"
  by (induction d) auto

lemma foldl_update_distinct:
  "distinct (map fst (d0 @ kvs)) \<Longrightarrow> foldl (\<lambda>d (k, v). AList.update k v d) d0 kvs = d0 @ kvs"
proof (induction kvs arbitrary: d0)
  case Nil then show ?case by simp
next
  case (Cons kv kvs)
  then have "AList.update (fst kv) (snd kv) d0 = d0 @ [kv]"
    by (simp add: update_fresh)
  with Cons show ?case by (cases kv) simp
qed

lemma alist_of_pairs_distinct: "distinct (map fst kvs) \<Longrightarrow> alist_of_pairs kvs = kvs"
  using foldl_update_distinct [of "[]" kvs] by (simp add: alist_of_pairs_def)

end
