(* ===== verification/PyValue.thy ===== *)
theory PyValue
  imports Prelude
begin

text \<open>
  The Python values the handler in \<open>src/app.py\<close> works on and the built-in operations
  it applies to them.  \<open>request.json\<close> (line 126) decodes the request body into
  \<open>None\<close>, booleans, integers, floats, strings, lists and dicts; \<open>json\<close> is the
  body as sent and \<open>decode_json\<close> is that decoding, a dict keeping the last value of a
  repeated key at the position of its first occurrence.  Every operation the handler
  applies to such a value (truth test, \<open>.get\<close>, \<open>[key]\<close>, \<open>[-1]\<close>, \<open>[-10:]\<close>,
  iteration, \<open>len\<close>, \<open>str.lower\<close>, \<open>in\<close>, f-string formatting) is a function
  here that returns the exception CPython raises, as an \<open>Inl\<close> value, where
  CPython raises one.  Characters are the code points U+0000 to U+00FF (Latin-1),
  on which \<open>str.lower\<close> and \<open>repr\<close> are modelled exactly.  A float (a JSON
  number with a fraction or an exponent, or one of the literals \<open>NaN\<close>,
  \<open>Infinity\<close>, \<open>-Infinity\<close> that \<open>json.loads\<close> accepts) is given by the \<open>repr\<close>
  of the double it is read as, which identifies the double (\<open>''1.5''\<close>, \<open>''-0.0''\<close>,
  \<open>''inf''\<close>, \<open>''nan''\<close>); the rounding of the literal to that double is not modelled.
\<close>

section \<open>Values and exceptions\<close>

datatype json =
    JNull
  | JBool bool
  | JNum int
  | JFloat string
  | JStr string
  | JArr "json list"
  | JObj "(string \<times> json) list"

datatype pyval =
    PNone
  | PBool bool
  | PInt int
  | PFloat string
  | PStr string
  | PList "pyval list"
  | PDict "(string \<times> pyval) list"

datatype exc =
    KeyError pyval
  | TypeError
  | AttributeError
  | IndexError
  | ValidationError
  | ProviderError string
  | HTTPException nat
  | ValueError
  | OverflowError
  | OpenAIError
  | TemplateNotFound string
  | UnicodeEncodeError

type_synonym 'a py = "exc + 'a"

section \<open>Decoding the request body\<close>

fun decode_json :: "json \<Rightarrow> pyval" where
  "decode_json JNull = PNone"
| "decode_json (JBool b) = PBool b"
| "decode_json (JNum i) = PInt i"
| "decode_json (JFloat r) = PFloat r"
| "decode_json (JStr s) = PStr s"
| "decode_json (JArr xs) = PList (map decode_json xs)"
| "decode_json (JObj kvs) = PDict (alist_of_pairs (map (\<lambda>(k, v). (k, decode_json v)) kvs))"

text \<open>The type invariant of decoded values: every dict has distinct keys.\<close>

fun wf_pyval :: "pyval \<Rightarrow> bool" where
  "wf_pyval (PList xs) = list_all wf_pyval xs"
| "wf_pyval (PDict kvs) = (distinct (map fst kvs) \<and> list_all (\<lambda>kv. wf_pyval (snd kv)) kvs)"
| "wf_pyval _ = True"

section \<open>Truth value, subscripts, slices, iteration, length\<close>

fun py_truthy :: "pyval \<Rightarrow> bool" where
  "py_truthy PNone = False"
| "py_truthy (PBool b) = b"
| "py_truthy (PInt i) = (i \<noteq> 0)"
| "py_truthy (PFloat r) = (r \<noteq> ''0.0'' \<and> r \<noteq> ''-0.0'')"
| "py_truthy (PStr s) = (s \<noteq> [])"
| "py_truthy (PList xs) = (xs \<noteq> [])"
| "py_truthy (PDict kvs) = (kvs \<noteq> [])"

text \<open>\<open>v.get(k, d)\<close>: only dicts have \<open>get\<close>.\<close>

fun py_get :: "pyval \<Rightarrow> string \<Rightarrow> pyval \<Rightarrow> pyval py" where
  "py_get (PDict kvs) k d = Inr (case map_of kvs k of Some v \<Rightarrow> v | None \<Rightarrow> d)"
| "py_get _ k d = Inl AttributeError"

text \<open>\<open>v[k]\<close> with a string key: a list, string or number raises \<open>TypeError\<close>.\<close>

fun py_subscript :: "pyval \<Rightarrow> string \<Rightarrow> pyval py" where
  "py_subscript (PDict kvs) k =
     (case map_of kvs k of Some v \<Rightarrow> Inr v | None \<Rightarrow> Inl (KeyError (PStr k)))"
| "py_subscript _ k = Inl TypeError"

text \<open>\<open>v[-1]\<close>: a dict looks the integer key \<open>-1\<close> up, which no decoded dict has.\<close>

fun py_index_last :: "pyval \<Rightarrow> pyval py" where
  "py_index_last (PList xs) = (if xs = [] then Inl IndexError else Inr (last xs))"
| "py_index_last (PStr s) = (if s = [] then Inl IndexError else Inr (PStr [last s]))"
| "py_index_last (PDict kvs) = Inl (KeyError (PInt (-1)))"
| "py_index_last _ = Inl TypeError"

text \<open>
  \<open>v[i:]\<close>: a negative start counts from the end and is clipped at 0, a start past
  the end gives the empty sequence.  Dicts reject a slice key.
\<close>

definition py_slice_start :: "int \<Rightarrow> nat \<Rightarrow> nat" where
  "py_slice_start i len = nat (if i < 0 then max 0 (int len + i) else min i (int len))"

fun py_slice_from :: "int \<Rightarrow> pyval \<Rightarrow> pyval py" where
  "py_slice_from i (PList xs) = Inr (PList (drop (py_slice_start i (length xs)) xs))"
| "py_slice_from i (PStr s) = Inr (PStr (drop (py_slice_start i (length s)) s))"
| "py_slice_from i _ = Inl TypeError"

fun py_iter :: "pyval \<Rightarrow> pyval list py" where
  "py_iter (PList xs) = Inr xs"
| "py_iter (PStr s) = Inr (map (\<lambda>c. PStr [c]) s)"
| "py_iter (PDict kvs) = Inr (map (\<lambda>kv. PStr (fst kv)) kvs)"
| "py_iter _ = Inl TypeError"

fun py_len :: "pyval \<Rightarrow> nat py" where
  "py_len (PList xs) = Inr (length xs)"
| "py_len (PStr s) = Inr (length s)"
| "py_len (PDict kvs) = Inr (length kvs)"
| "py_len _ = Inl TypeError"

section \<open>\<open>str.lower\<close>\<close>

text \<open>
  On Latin-1, \<open>str.lower\<close> maps A--Z and U+00C0--U+00DE except U+00D7 (the
  multiplication sign) 32 code points up and leaves every other character alone.
\<close>

definition py_lower_char :: "char \<Rightarrow> char" where
  "py_lower_char c =
     (let n = (of_char c :: nat)
      in if (65 \<le> n \<and> n \<le> 90) \<or> (192 \<le> n \<and> n \<le> 222 \<and> n \<noteq> 215) then char_of (n + 32) else c)"

definition py_lower :: "string \<Rightarrow> string" where
  "py_lower s = map py_lower_char s"

section \<open>\<open>str(v)\<close> and \<open>repr(v)\<close>\<close>

fun dec_digits :: "nat \<Rightarrow> string" where
  "dec_digits n =
     (if n < 10 then [char_of (48 + n)] else dec_digits (n div 10) @ [char_of (48 + n mod 10)])"

declare dec_digits.simps [simp del]

definition py_int_str :: "int \<Rightarrow> string" where
  "py_int_str i = (if i < 0 then CHR ''-'' # dec_digits (nat (- i)) else dec_digits (nat i))"

definition hex_digit :: "nat \<Rightarrow> char" where
  "hex_digit d = (if d < 10 then char_of (48 + d) else char_of (87 + d))"

text \<open>
  The escape of one character in a string repr quoted by \<open>q\<close>: backslash and the
  quote are escaped, tab, newline and carriage return by name, the other non-printable
  characters (controls, DEL, U+0080--U+00A0 and the soft hyphen U+00AD) as \<open>\xNN\<close>.
\<close>

definition py_char_repr :: "char \<Rightarrow> char \<Rightarrow> string" where
  "py_char_repr q c =
     (let n = (of_char c :: nat); bs = CHR 0x5C
      in if c = q \<or> c = bs then [bs, c]
         else if n = 9 then [bs, CHR ''t'']
         else if n = 10 then [bs, CHR ''n'']
         else if n = 13 then [bs, CHR ''r'']
         else if n < 32 \<or> (127 \<le> n \<and> n \<le> 160) \<or> n = 173
           then [bs, CHR ''x'', hex_digit (n div 16), hex_digit (n mod 16)]
         else [c])"

text \<open>A string's repr uses double quotes when it holds a single quote and no double quote.\<close>

definition py_str_repr :: "string \<Rightarrow> string" where
  "py_str_repr s =
     (let q = (if CHR 0x27 \<in> set s \<and> CHR 0x22 \<notin> set s then CHR 0x22 else CHR 0x27)
      in q # concat (map (py_char_repr q) s) @ [q])"

fun py_repr :: "pyval \<Rightarrow> string" where
  "py_repr PNone = ''None''"
| "py_repr (PBool b) = (if b then ''True'' else ''False'')"
| "py_repr (PInt i) = py_int_str i"
| "py_repr (PFloat r) = r"
| "py_repr (PStr s) = py_str_repr s"
| "py_repr (PList xs) = CHR ''['' # py_join '', '' (map py_repr xs) @ '']''"
| "py_repr (PDict kvs) =
     CHR ''{'' # py_join '', '' (map (\<lambda>kv. py_str_repr (fst kv) @ '': '' @ py_repr (snd kv)) kvs) @ ''}''"

text \<open>\<open>str(v)\<close>, which an f-string field \<open>{v}\<close> formats: a string is itself.\<close>

definition py_str :: "pyval \<Rightarrow> string" where
  "py_str v = (case v of PStr s \<Rightarrow> s | _ \<Rightarrow> py_repr v)"

text \<open>
  \<open>json.loads\<close> converts an integer literal with \<open>int()\<close>, which refuses more than
  4300 digits (\<open>sys.get_int_max_str_digits()\<close>, Python 3.11 and later): the whole
  decoding then raises \<open>ValueError\<close>.  A JSON integer literal is written without
  leading zeros, so its digits are those of its value.
\<close>

fun json_digits_ok :: "json \<Rightarrow> bool" where
  "json_digits_ok (JNum i) = (length (dec_digits (nat \<bar>i\<bar>)) \<le> 4300)"
| "json_digits_ok (JArr xs) = list_all json_digits_ok xs"
| "json_digits_ok (JObj kvs) = list_all (\<lambda>kv. json_digits_ok (snd kv)) kvs"
| "json_digits_ok (JFloat r) = True"
| "json_digits_ok JNull = True"
| "json_digits_ok (JBool b) = True"
| "json_digits_ok (JStr s) = True"

section \<open>\<open>int(s)\<close>\<close>

text \<open>
  \<open>int\<close> of a string in base 10: surrounding whitespace (\<open>str.isspace\<close>: the ASCII
  controls 9--13 and 28--31, space, U+0085, U+00A0) is ignored, one optional sign, then
  decimal digits in which single underscores may separate two digits.  More than 4300
  digits exceed CPython's conversion limit.  Everything else raises \<open>ValueError\<close>.
\<close>

definition py_space :: "char \<Rightarrow> bool" where
  "py_space c = (let n = (of_char c :: nat) in (9 \<le> n \<and> n \<le> 13) \<or> (28 \<le> n \<and> n \<le> 32) \<or> n = 133 \<or> n = 160)"

definition py_is_digit :: "char \<Rightarrow> bool" where
  "py_is_digit c = (let n = (of_char c :: nat) in 48 \<le> n \<and> n \<le> 57)"

fun valid_digits :: "string \<Rightarrow> bool" where
  "valid_digits [] = False"
| "valid_digits (c # cs) =
     (py_is_digit c \<and>
      (case cs of [] \<Rightarrow> True | d # ds \<Rightarrow> if d = CHR ''_'' then valid_digits ds else valid_digits cs))"

definition digits_value :: "string \<Rightarrow> nat" where
  "digits_value ds = foldl (\<lambda>acc c. if c = CHR ''_'' then acc else 10 * acc + (of_char c - 48)) 0 ds"

definition digit_count :: "string \<Rightarrow> nat" where
  "digit_count ds = length (filter (\<lambda>c. c \<noteq> CHR ''_'') ds)"

definition py_strip :: "string \<Rightarrow> string" where
  "py_strip s = rev (dropWhile py_space (rev (dropWhile py_space s)))"

definition py_int :: "string \<Rightarrow> int py" where
  "py_int s =
     (let t = py_strip s;
          (neg, ds) = (case t of
                         c # r \<Rightarrow> if c = CHR ''-'' then (True, r)
                                 else if c = CHR ''+'' then (False, r) else (False, t)
                       | [] \<Rightarrow> (False, []))
      in if valid_digits ds \<and> digit_count ds \<le> 4300
         then Inr (if neg then - int (digits_value ds) else int (digits_value ds))
         else Inl ValueError)"

section \<open>Lemmas\<close>

lemma py_lower_char_idem [simp]: "py_lower_char (py_lower_char c) = py_lower_char c"
proof -
  have "of_char c < (256::nat)" by (rule nat_of_char_less_256)
  then show ?thesis
    by (auto simp: py_lower_char_def Let_def of_char_of)
qed

lemma py_lower_idem [simp]: "py_lower (py_lower s) = py_lower s"
  by (simp add: py_lower_def comp_def)

text \<open>
  Decoding a request body yields a well-formed value: every dict in it, at any
  depth, has distinct keys.
\<close>

theorem wf_decode_json: "wf_pyval (decode_json j)"
proof (induction j rule: decode_json.induct)
  case (6 xs)
  then show ?case by (simp add: list_all_iff)
next
  case (7 kvs)
  have "set (alist_of_pairs (map (\<lambda>(k, v). (k, decode_json v)) kvs))
        \<subseteq> set (map (\<lambda>(k, v). (k, decode_json v)) kvs)"
    by (rule set_alist_of_pairs)
  with 7 show ?case by (fastforce simp: list_all_iff)
qed simp_all

lemma py_slice_start_neg: "0 < n \<Longrightarrow> py_slice_start (- int n) len = len - n"
  by (simp add: py_slice_start_def max_def) arith

lemma py_slice_from_neg_list:
  "0 < n \<Longrightarrow> py_slice_from (- int n) (PList xs) = Inr (PList (last_n n xs))"
  by (simp add: py_slice_start_neg last_n_def)

lemma py_str_PStr [simp]: "py_str (PStr s) = s"
  by (simp add: py_str_def)

lemma py_no_http_exc [simp]:
  "py_get v k d \<noteq> Inl (HTTPException c)"
  "py_index_last v \<noteq> Inl (HTTPException c)"
  by (cases v; simp)+

lemma of_char_digit: "d < 10 \<Longrightarrow> of_char (char_of (48 + d) :: char) = (48 + d :: nat)"
  by (simp add: of_char_of)

lemma digit_char_not_underscore: "d < (10::nat) \<Longrightarrow> char_of (48 + d) \<noteq> CHR ''_''"
proof
  assume "d < (10::nat)" "char_of (48 + d) = CHR ''_''"
  then have "(48 + d :: nat) = of_char CHR ''_''" by (metis of_char_digit)
  with \<open>d < 10\<close> show False by simp
qed

lemma dec_digits_digits: "c \<in> set (dec_digits n) \<Longrightarrow> py_is_digit c"
proof (induction n rule: dec_digits.induct)
  case (1 n)
  show ?case
  proof (cases "n < 10")
    case True
    with "1.prems" show ?thesis by (simp add: dec_digits.simps py_is_digit_def of_char_digit)
  next
    case False
    with "1.prems" "1.IH" show ?thesis
      by (auto simp: dec_digits.simps [of n] py_is_digit_def of_char_digit)
  qed
qed

lemma dec_digits_ne [simp]: "dec_digits n \<noteq> []"
  by (subst dec_digits.simps) simp

lemma py_is_digit_not_special [simp]:
  "py_is_digit c \<Longrightarrow> c \<noteq> CHR ''_''" "py_is_digit c \<Longrightarrow> c \<noteq> CHR ''-''"
  "py_is_digit c \<Longrightarrow> c \<noteq> CHR ''+''" "py_is_digit c \<Longrightarrow> \<not> py_space c"
  by (auto simp: py_is_digit_def py_space_def Let_def)

lemma valid_digits_all: "xs \<noteq> [] \<Longrightarrow> \<forall>c\<in>set xs. py_is_digit c \<Longrightarrow> valid_digits xs"
proof (induction xs rule: valid_digits.induct)
  case 1 then show ?case by simp
next
  case (2 c cs)
  then show ?case by (cases cs) auto
qed

lemma digits_value_snoc:
  "c \<noteq> CHR ''_'' \<Longrightarrow> digits_value (xs @ [c]) = 10 * digits_value xs + (of_char c - 48)"
  by (simp add: digits_value_def)

lemma digits_value_dec_digits: "digits_value (dec_digits n) = n"
proof (induction n rule: dec_digits.induct)
  case (1 n)
  show ?case
  proof (cases "n < 10")
    case True
    then show ?thesis
      by (simp add: dec_digits.simps digits_value_def of_char_digit digit_char_not_underscore)
  next
    case False
    have c: "char_of (48 + n mod 10) \<noteq> CHR ''_''"
      by (simp add: digit_char_not_underscore)
    from False "1.IH" c show ?thesis
      by (simp add: dec_digits.simps [of n] digits_value_snoc of_char_digit)
  qed
qed

lemma digit_count_dec_digits: "digit_count (dec_digits n) = length (dec_digits n)"
  using dec_digits_digits [of _ n] by (auto simp: digit_count_def filter_id_conv)

lemma py_strip_digits:
  "xs \<noteq> [] \<Longrightarrow> \<not> py_space (hd xs) \<Longrightarrow> \<not> py_space (last xs) \<Longrightarrow> py_strip xs = xs"
proof -
  assume ne: "xs \<noteq> []" and h: "\<not> py_space (hd xs)" and l: "\<not> py_space (last xs)"
  have "dropWhile py_space xs = xs" using ne h by (cases xs) auto
  moreover have "dropWhile py_space (rev xs) = rev xs"
    using ne l by (cases "rev xs") (auto simp: hd_rev [symmetric])
  ultimately show ?thesis by (simp add: py_strip_def)
qed

lemma py_int_unsigned:
  "py_strip t = t \<Longrightarrow> t \<noteq> [] \<Longrightarrow> hd t \<noteq> CHR ''-'' \<Longrightarrow> hd t \<noteq> CHR ''+'' \<Longrightarrow>
   py_int t = (if valid_digits t \<and> digit_count t \<le> 4300 then Inr (int (digits_value t)) else Inl ValueError)"
  by (cases t) (simp_all add: py_int_def Let_def del: valid_digits.simps)

lemma py_int_minus:
  "py_strip (CHR ''-'' # t) = CHR ''-'' # t \<Longrightarrow>
   py_int (CHR ''-'' # t) = (if valid_digits t \<and> digit_count t \<le> 4300 then Inr (- int (digits_value t)) else Inl ValueError)"
  by (simp add: py_int_def Let_def del: valid_digits.simps)

lemma valid_dec_digits: "valid_digits (dec_digits n)"
  by (rule valid_digits_all) (auto dest: dec_digits_digits)

lemma dec_digits_one_digit [simp]: "n < 10 \<Longrightarrow> dec_digits n = [char_of (48 + n)]"
  by (simp add: dec_digits.simps)

lemma length_dec_digits_bound: "n < 10 ^ k \<Longrightarrow> length (dec_digits n) \<le> max 1 k"
proof (induction n arbitrary: k rule: dec_digits.induct)
  case (1 n)
  show ?case
  proof (cases "n < 10")
    case True
    then show ?thesis by (simp add: dec_digits.simps)
  next
    case False
    with "1.prems" obtain k' where k: "k = Suc k'" and "0 < k'"
      by (cases k; cases "k - 1") auto
    with "1.prems" have "n div 10 < 10 ^ k'" by (simp add: div_less_iff_less_mult mult.commute)
    with False "1.IH" [of k'] k \<open>0 < k'\<close> show ?thesis by (simp add: dec_digits.simps [of n])
  qed
qed

lemma py_int_error: "py_int s = Inl e \<Longrightarrow> e = ValueError"
  by (auto simp: py_int_def Let_def split: prod.splits list.splits if_splits)

lemma py_int_dec_digits:
  assumes "length (dec_digits n) \<le> 4300"
  shows "py_int (dec_digits n) = Inr (int n)"
proof -
  have h: "py_is_digit (hd (dec_digits n))" by (rule dec_digits_digits [of _ n]) simp
  have l: "py_is_digit (last (dec_digits n))" by (rule dec_digits_digits [of _ n]) simp
  have "py_strip (dec_digits n) = dec_digits n" using h l by (intro py_strip_digits) auto
  with h assms show ?thesis
    by (simp add: py_int_unsigned digits_value_dec_digits digit_count_dec_digits valid_dec_digits)
qed

text \<open>
  \<open>int\<close> reads back what \<open>str\<close> prints: for every integer whose decimal form
  stays within CPython's 4300-digit conversion limit, \<open>int(str(i)) == i\<close>.
\<close>

theorem py_int_py_int_str:
  assumes "length (dec_digits (nat \<bar>i\<bar>)) \<le> 4300"
  shows "py_int (py_int_str i) = Inr i"
proof (cases "i < 0")
  case True
  let ?ds = "dec_digits (nat (- i))"
  have l: "py_is_digit (last ?ds)" by (rule dec_digits_digits [of _ "nat (- i)"]) simp
  have "py_strip (CHR ''-'' # ?ds) = CHR ''-'' # ?ds"
  proof (rule py_strip_digits)
    show "\<not> py_space (hd (CHR ''-'' # ?ds))" by (simp add: py_space_def)
    show "\<not> py_space (last (CHR ''-'' # ?ds))" using l by simp
  qed simp
  with True assms show ?thesis
    by (simp add: py_int_minus py_int_str_def digits_value_dec_digits digit_count_dec_digits
        valid_dec_digits)
next
  case False
  with assms py_int_dec_digits [of "nat i"] show ?thesis by (simp add: py_int_str_def)
qed

theorem py_int_py_int_str_witness: "py_int (py_int_str (- 1000)) = Inr (- 1000)"
  using py_int_py_int_str [of "- 1000"] by (simp add: dec_digits.simps)

lemmas [py_simps] = py_get.simps py_subscript.simps py_index_last.simps py_truthy.simps
  py_slice_from.simps py_iter.simps py_len.simps

end
