(* ===== verification/Fallback.thy ===== *)
theory Fallback
  imports PyValue
begin

text \<open>
  The keyword fallback of \<open>src/app.py\<close> (lines 91--113): the table
  \<open>FALLBACK_RESPONSES\<close> as an association list in its declaration order (the order
  in which \<open>dict.items()\<close> iterates it), the guard list
  \<open>supply_guard_keywords\<close>, and \<open>get_fallback_response\<close>, which lower-cases the
  message, answers with the redirect sentence when no guard keyword occurs in it, and
  otherwise with the response of the first table key that occurs in it, or with the
  generic help sentence when none does.  \<open>fallback_message\<close> is the body after the
  call to \<open>lower\<close>, which raises \<open>AttributeError\<close> on a value that is not a string.
\<close>

section \<open>The tables\<close>

definition tariff_response :: string where
  "tariff_response = ''The Tariff Calculator provides real-time import/export tariff calculations using government data. Enter HS codes and select countries to get accurate duty rates and trade information.''"

definition FALLBACK_RESPONSES :: "(string \<times> string) list" where
  "FALLBACK_RESPONSES = [
    (''dashboard'', ''The dashboard provides a comprehensive overview of your supply chain risks, including total suppliers, active alerts, and risk distribution charts. You can use the time range filter (7d/30d/90d) to view different periods and analyze trends.''),
    (''supplier'', ''In the Suppliers section, you can view all your suppliers with their risk scores, filter by country/category/risk level, and manage page sizes (25/50/100 results). Each supplier has a detailed risk assessment with scores and performance metrics.''),
    (''alert'', ''The Alerts system shows real-time supply chain risks categorized by severity (Critical, High, Medium, Low) and type (Financial Risk, Compliance, Cybersecurity, etc.). You can filter alerts and adjust how many to view per page.''),
    (''report'', ''The Reports section allows you to generate professional PDF reports with templates like Executive Summary, Risk Assessment, and Compliance Audits. You can customize filters and export your supply chain data.''),
    (''tariff'', tariff_response),
    (''calculator'', tariff_response)]"

definition supply_guard_keywords :: "string list" where
  "supply_guard_keywords = [''dashboard'', ''supplier'', ''alert'', ''report'', ''risk'',
     ''platform'', ''tariff'', ''calculator'', ''chart'', ''metric'']"

definition fallback_redirect :: string where
  "fallback_redirect = ''I can only help with SupplyGuard platform questions. What would you like to know about our dashboard, suppliers, alerts, reports, or other platform features?''"

definition fallback_generic :: string where
  \<open>fallback_generic = ''I\'m here to help with SupplyGuard platform features including Dashboard analytics, Suppliers management, Alerts monitoring, Reports generation, and the Tariff Calculator. What specific feature would you like to learn about?''\<close>

section \<open>The lookup\<close>

text \<open>The \<open>for keyword, response in FALLBACK_RESPONSES.items()\<close> loop.\<close>

fun first_response :: "(string \<times> string) list \<Rightarrow> string \<Rightarrow> string option" where
  "first_response [] message = None"
| "first_response ((keyword, response) # rs) message =
     (if str_contains keyword message then Some response else first_response rs message)"

definition fallback_message :: "string \<Rightarrow> string" where
  "fallback_message user_message =
     (let message = py_lower user_message
      in if \<not> list_ex (\<lambda>keyword. str_contains keyword message) supply_guard_keywords
         then fallback_redirect
         else (case first_response FALLBACK_RESPONSES message of
                 Some response \<Rightarrow> response
               | None \<Rightarrow> fallback_generic))"

definition get_fallback_response :: "pyval \<Rightarrow> string py" where
  "get_fallback_response user_message =
     (case user_message of PStr s \<Rightarrow> Inr (fallback_message s) | _ \<Rightarrow> Inl AttributeError)"

section \<open>Lemmas\<close>

lemma first_response_mem: "first_response rs m = Some r \<Longrightarrow> r \<in> snd ` set rs"
  by (induction rs m rule: first_response.induct) (auto split: if_splits)

lemma first_response_nth:
  "i < length rs \<Longrightarrow> str_contains (fst (rs ! i)) m \<Longrightarrow>
   \<forall>j<i. \<not> str_contains (fst (rs ! j)) m \<Longrightarrow> first_response rs m = Some (snd (rs ! i))"
proof (induction rs arbitrary: i)
  case Nil
  then show ?case by simp
next
  case (Cons kr rs)
  show ?case
  proof (cases i)
    case 0
    with Cons.prems show ?thesis by (cases kr) simp
  next
    case (Suc i')
    with Cons.prems(3) have "\<not> str_contains (fst kr) m" and "\<forall>j<i'. \<not> str_contains (fst (rs ! j)) m"
      by auto
    with Cons.prems(1,2) Suc Cons.IH [of i'] show ?thesis by (cases kr) simp
  qed
qed

lemma first_response_None_iff:
  "first_response rs m = None \<longleftrightarrow> (\<forall>kr\<in>set rs. \<not> sublist (fst kr) m)"
  by (induction rs m rule: first_response.induct) (simp_all add: str_contains_sublist)

lemma table_keys_guarded: "fst ` set FALLBACK_RESPONSES \<subseteq> set supply_guard_keywords"
  by (simp add: FALLBACK_RESPONSES_def supply_guard_keywords_def)

lemma fallback_texts_distinct:
  "fallback_redirect \<noteq> fallback_generic"
  "fallback_redirect \<notin> snd ` set FALLBACK_RESPONSES"
  "fallback_generic \<notin> snd ` set FALLBACK_RESPONSES"
  by (simp_all add: fallback_redirect_def fallback_generic_def FALLBACK_RESPONSES_def tariff_response_def)

lemma guard_iff: "list_ex (\<lambda>k. str_contains k m) supply_guard_keywords \<longleftrightarrow> (\<exists>k\<in>set supply_guard_keywords. sublist k m)"
  by (simp add: list_ex_iff str_contains_sublist)

lemma fallback_message_empty: "fallback_message [] = fallback_redirect"
  by (simp add: fallback_message_def py_lower_def supply_guard_keywords_def)

lemma get_fallback_response_no_http [simp]: "get_fallback_response v \<noteq> Inl (HTTPException c)"
  by (cases v) (simp_all add: get_fallback_response_def)

lemma get_fallback_response_Inr:
  "get_fallback_response u = Inr r \<longleftrightarrow> (\<exists>s. u = PStr s \<and> r = fallback_message s)"
  by (cases u) (auto simp: get_fallback_response_def)

text \<open>
  C9: the fallback answers with the redirect sentence exactly when none of the ten guard
  keywords occurs in the lower-cased message.
\<close>

theorem fallback_redirect_iff:
  "fallback_message s = fallback_redirect \<longleftrightarrow>
     (\<forall>k\<in>set supply_guard_keywords. \<not> sublist k (py_lower s))"
proof -
  have "first_response FALLBACK_RESPONSES m \<noteq> Some fallback_redirect" for m
    using fallback_texts_distinct(2) first_response_mem by blast
  then show ?thesis
    using fallback_texts_distinct(1)
    by (auto simp: fallback_message_def Let_def guard_iff split: option.splits)
qed

text \<open>
  C10: keyword precedence: when the key at position \<open>i\<close> of the table occurs in the
  lower-cased message and no earlier key does, the answer is that key's response.
\<close>

theorem fallback_first_key_wins:
  assumes "i < length FALLBACK_RESPONSES"
    and "sublist (fst (FALLBACK_RESPONSES ! i)) (py_lower s)"
    and "\<forall>j<i. \<not> sublist (fst (FALLBACK_RESPONSES ! j)) (py_lower s)"
  shows "fallback_message s = snd (FALLBACK_RESPONSES ! i)"
proof -
  have "fst (FALLBACK_RESPONSES ! i) \<in> set supply_guard_keywords"
    using assms(1) table_keys_guarded nth_mem by fastforce
  with assms(2) have guard: "list_ex (\<lambda>k. str_contains k (py_lower s)) supply_guard_keywords"
    by (auto simp: guard_iff)
  from assms have "first_response FALLBACK_RESPONSES (py_lower s) = Some (snd (FALLBACK_RESPONSES ! i))"
    by (intro first_response_nth) (simp_all add: str_contains_sublist)
  with guard show ?thesis by (simp add: fallback_message_def Let_def)
qed

text \<open>
  C11: the generic help sentence is the answer exactly when some guard keyword occurs in
  the lower-cased message but no key of the table does.
\<close>

theorem fallback_generic_iff:
  "fallback_message s = fallback_generic \<longleftrightarrow>
     (\<exists>k\<in>set supply_guard_keywords. sublist k (py_lower s))
     \<and> (\<forall>k\<in>fst ` set FALLBACK_RESPONSES. \<not> sublist k (py_lower s))"
proof (cases "first_response FALLBACK_RESPONSES (py_lower s)")
  case None
  then have "\<forall>k\<in>fst ` set FALLBACK_RESPONSES. \<not> sublist k (py_lower s)"
    by (simp add: first_response_None_iff)
  with None show ?thesis
    using fallback_texts_distinct(1)
    by (auto simp: fallback_message_def Let_def guard_iff)
next
  case (Some r)
  then have "r \<noteq> fallback_generic"
    using fallback_texts_distinct(3) first_response_mem by blast
  moreover from Some have "\<exists>k\<in>fst ` set FALLBACK_RESPONSES. sublist k (py_lower s)"
    using first_response_None_iff [of FALLBACK_RESPONSES "py_lower s"] by auto
  ultimately show ?thesis
    using Some fallback_texts_distinct(1)
    by (auto simp: fallback_message_def Let_def guard_iff)
qed

text \<open>
  Every fallback answer is the redirect sentence, the generic sentence or one of the
  table's responses.
\<close>

theorem fallback_message_range:
  "fallback_message s \<in> insert fallback_redirect (insert fallback_generic (snd ` set FALLBACK_RESPONSES))"
proof -
  show ?thesis
    by (auto simp: fallback_message_def Let_def dest: first_response_mem split: option.splits)
qed

text \<open>
  The fallback ignores case: a message and its lower-cased form get the same answer.
\<close>

theorem fallback_case_insensitive: "fallback_message (py_lower s) = fallback_message s"
  by (simp add: fallback_message_def Let_def)

subsection \<open>Witnesses\<close>

theorem fallback_redirect_iff_witness:
  "fallback_message ''What is the weather?'' = fallback_redirect"
proof -
  have h: "\<forall>k\<in>set supply_guard_keywords. \<not> sublist k (py_lower ''What is the weather?'')"
    by code_simp
  show ?thesis using h fallback_redirect_iff [of "''What is the weather?''"] by simp
qed

theorem fallback_first_key_wins_witness:
  "fallback_message ''Dashboard alerts'' = snd (FALLBACK_RESPONSES ! 0)"
  by (rule fallback_first_key_wins) code_simp+

theorem fallback_generic_iff_witness:
  "fallback_message ''Explain the risk score'' = fallback_generic"
proof -
  have h1: "\<exists>k\<in>set supply_guard_keywords. sublist k (py_lower ''Explain the risk score'')"
    by code_simp
  have h2: "\<forall>k\<in>fst ` set FALLBACK_RESPONSES. \<not> sublist k (py_lower ''Explain the risk score'')"
    by code_simp
  show ?thesis using h1 h2 fallback_generic_iff [of "''Explain the risk score''"] by simp
qed

end
