(* ===== verification/Prompt.thy ===== *)
theory Prompt
  imports PyValue
begin

text \<open>
  Prompt assembly of \<open>chat()\<close> in \<open>src/app.py\<close>: the constant \<open>SYSTEM_PROMPT\<close>
  (lines 22--89, reproduced line by line), the LangChain message classes
  \<open>SystemMessage\<close> and \<open>HumanMessage\<close> as the datatype \<open>chat_message\<close>, whose
  constructors validate their content (a string, or a list of strings and dicts, as
  \<open>langchain_core\<close> declares it), the context hint built from
  \<open>context['currentPage']\<close> (lines 150--153) and the replay of the last ten
  conversation turns (lines 155--160), composed in \<open>build_chat_messages\<close> in the
  order of lines 147--160.
\<close>

section \<open>The system prompt\<close>

definition SYSTEM_PROMPT_lines :: "string list" where
  \<open>SYSTEM_PROMPT_lines = [
    ''You are the official AI assistant for SupplyGuard, a comprehensive supply chain risk management platform. '',
    '''',
    ''**IMPORTANT RESTRICTIONS:**'',
    ''- You can ONLY answer questions about SupplyGuard platform features, functionality, and the data within the system'',
    ''- You CANNOT provide information about other companies, platforms, or general knowledge outside of SupplyGuard'',
    ''- If asked about topics outside SupplyGuard, politely redirect to platform-related questions'',
    ''- You CANNOT access external websites, provide investment advice, or discuss competitors'',
    ''- You can ONLY reference data that exists within the SupplyGuard platform'',
    '''',
    ''**SupplyGuard Platform Features You Can Help With:**'',
    '''',
    ''1. **Dashboard**: '',
    ''   - Real-time metrics showing total suppliers, risk distribution, alerts'',
    ''   - Risk trends charts and analytics'',
    ''   - Executive summary cards'',
    ''   - Time range filters (7d, 30d, 90d)'',
    ''   - Financial impact dashboard'',
    '''',
    ''2. **Suppliers Management**:'',
    ''   - Complete supplier database with risk scoring'',
    ''   - Individual supplier profiles with detailed risk assessments'',
    ''   - Supplier performance tracking and KPIs'',
    ''   - Risk categorization (Critical, High, Medium, Low)'',
    ''   - Supplier filtering and search capabilities'',
    ''   - Page size controls (25, 50, 100 results per page)'',
    '''',
    ''3. **Alerts System**:'',
    ''   - Real-time risk alerts for suppliers'',
    ''   - Critical, high, medium, low priority classifications'',
    ''   - Alert acknowledgment and resolution tracking'',
    ''   - Alert categories (Financial Risk, Compliance, Cybersecurity, etc.)'',
    ''   - Historical alert trends'',
    ''   - Page size controls for alert viewing'',
    '''',
    ''4. **Reports & Analytics**:'',
    ''   - Professional PDF report generation'',
    ''   - Multiple report templates (Executive Summary, Risk Assessment, Compliance Audit)  '',
    ''   - Custom report creation with filters'',
    ''   - Export capabilities'',
    '''',
    ''5. **Tariff Calculator**:'',
    ''   - Real-time tariff calculations for import/export'',
    ''   - HS code lookup functionality'',
    ''   - Multi-country trade calculations'',
    ''   - Government data integration'',
    '''',
    ''6. **Platform Navigation**:'',
    ''   - How to use different sections'',
    ''   - Understanding risk scores and metrics'',
    ''   - Interpreting charts and analytics'',
    ''   - Managing user preferences'',
    '''',
    ''**Response Guidelines:**'',
    ''- Only discuss SupplyGuard features and data'',
    ''- If asked about external topics, respond: "I can only help with SupplyGuard platform questions. What would you like to know about our dashboard, suppliers, alerts, or other platform features?"'',
    ''- Provide specific, actionable guidance about platform usage'',
    ''- Reference actual data when available (current supplier counts, alert numbers, etc.)'',
    ''- Keep responses concise and focused on platform functionality'',
    '''',
    ''**Forbidden Topics:**'',
    ''- Other supply chain platforms or competitors'',
    ''- General business advice unrelated to SupplyGuard'',
    ''- External company information'',
    ''- Investment or financial advice'',
    ''- Topics outside supply chain risk management'',
    ''- Personal opinions or recommendations beyond platform usage'']\<close>

text \<open>The triple-quoted literal opens and closes with a line break.\<close>

definition SYSTEM_PROMPT :: string where
  "SYSTEM_PROMPT = CHR 0x0A # concat (map (\<lambda>l. l @ [CHR 0x0A]) SYSTEM_PROMPT_lines)"

section \<open>LangChain messages\<close>

datatype chat_message = SystemMessage pyval | HumanMessage pyval

text \<open>\<open>content: Union[str, list[Union[str, dict]]]\<close>; anything else fails validation.\<close>

definition lc_content_ok :: "pyval \<Rightarrow> bool" where
  "lc_content_ok v =
     (case v of
        PStr _ \<Rightarrow> True
      | PList xs \<Rightarrow> list_all (\<lambda>x. case x of PStr _ \<Rightarrow> True | PDict _ \<Rightarrow> True | _ \<Rightarrow> False) xs
      | _ \<Rightarrow> False)"

definition new_SystemMessage :: "pyval \<Rightarrow> chat_message py" where
  "new_SystemMessage c = (if lc_content_ok c then Inr (SystemMessage c) else Inl ValidationError)"

definition new_HumanMessage :: "pyval \<Rightarrow> chat_message py" where
  "new_HumanMessage c = (if lc_content_ok c then Inr (HumanMessage c) else Inl ValidationError)"

section \<open>The context hint\<close>

definition context_message :: "string \<Rightarrow> string" where
  "context_message page =
     [CHR 0x0A, CHR 0x0A] @ ''The user is currently on the '' @ [CHR 0x27] @ page @ [CHR 0x27] @
     '' page. Provide contextually relevant help for this section.''"

section \<open>The history loop\<close>

text \<open>
  \<open>for msg in messages[-10:]\<close>: a user turn becomes a \<open>HumanMessage\<close>, an assistant
  turn a \<open>SystemMessage\<close>, any other role is skipped; \<open>msg['role']\<close> and
  \<open>msg['content']\<close> raise on a message that is not a dict or lacks the key.
\<close>

fun history_messages :: "pyval list \<Rightarrow> chat_message list py" where
  "history_messages [] = Inr []"
| "history_messages (msg # msgs) =
     res_bind (py_subscript msg ''role'') (\<lambda>role.
       if role = PStr ''user'' then
         res_bind (py_subscript msg ''content'') (\<lambda>content.
         res_bind (new_HumanMessage content) (\<lambda>m.
         res_bind (history_messages msgs) (\<lambda>ms. Inr (m # ms))))
       else if role = PStr ''assistant'' then
         res_bind (py_subscript msg ''content'') (\<lambda>content.
         res_bind (new_SystemMessage content) (\<lambda>m.
         res_bind (history_messages msgs) (\<lambda>ms. Inr (m # ms))))
       else history_messages msgs)"

section \<open>Assembling the prompt\<close>

definition context_messages :: "pyval \<Rightarrow> chat_message list py" where
  "context_messages context =
     res_bind (py_get context ''currentPage'' PNone) (\<lambda>page.
       if py_truthy page then
         res_bind (py_subscript context ''currentPage'') (\<lambda>p.
         res_bind (new_SystemMessage (PStr (context_message (py_str p)))) (\<lambda>m. Inr [m]))
       else Inr [])"

definition build_chat_messages :: "pyval \<Rightarrow> pyval \<Rightarrow> chat_message list py" where
  "build_chat_messages context messages =
     res_bind (new_SystemMessage (PStr SYSTEM_PROMPT)) (\<lambda>sys.
     res_bind (context_messages context) (\<lambda>ctx.
     res_bind (py_slice_from (-10) messages) (\<lambda>window.
     res_bind (py_iter window) (\<lambda>msgs.
     res_bind (history_messages msgs) (\<lambda>hist. Inr (sys # ctx @ hist))))))"

section \<open>Well-formed conversations\<close>

text \<open>
  The conversation the client is meant to send (spec, section 3): turns as (role,
  content) string pairs and an optional page, with the dict each becomes after decoding,
  and the prompt the spec describes for them.
\<close>

definition turn_value :: "string \<times> string \<Rightarrow> pyval" where
  "turn_value rc = PDict [(''role'', PStr (fst rc)), (''content'', PStr (snd rc))]"

definition context_value :: "string option \<Rightarrow> pyval" where
  "context_value page = (case page of None \<Rightarrow> PDict [] | Some p \<Rightarrow> PDict [(''currentPage'', PStr p)])"

definition replay_turns :: "(string \<times> string) list \<Rightarrow> chat_message list" where
  "replay_turns rcs =
     map (\<lambda>rc. if fst rc = ''user'' then HumanMessage (PStr (snd rc)) else SystemMessage (PStr (snd rc)))
       (filter (\<lambda>rc. fst rc = ''user'' \<or> fst rc = ''assistant'') rcs)"

definition context_hint :: "string option \<Rightarrow> chat_message list" where
  "context_hint page = (case page of Some p \<Rightarrow> if p = [] then [] else [SystemMessage (PStr (context_message p))] | None \<Rightarrow> [])"

section \<open>Lemmas\<close>

lemma new_messages_str [simp]:
  "new_SystemMessage (PStr s) = Inr (SystemMessage (PStr s))"
  "new_HumanMessage (PStr s) = Inr (HumanMessage (PStr s))"
  by (simp_all add: new_SystemMessage_def new_HumanMessage_def lc_content_ok_def)

lemma history_messages_turns: "history_messages (map turn_value rcs) = Inr (replay_turns rcs)"
  by (induction rcs) (auto simp: turn_value_def replay_turns_def)

lemma history_messages_length: "history_messages msgs = Inr hs \<Longrightarrow> length hs \<le> length msgs"
proof (induction msgs arbitrary: hs)
  case Nil
  then show ?case by simp
next
  case (Cons msg msgs)
  then show ?case
    by (fastforce simp: res_bind_eq_Inr split: if_splits)
qed

lemma context_messages_value: "context_messages (context_value page) = Inr (context_hint page)"
  by (auto simp: context_messages_def context_value_def context_hint_def py_str_def split: option.splits)

lemma context_messages_length: "context_messages c = Inr ctx \<Longrightarrow> length ctx \<le> 1"
  by (auto simp: context_messages_def res_bind_eq_Inr split: if_splits)

lemma window_iter_length:
  "py_slice_from (-10) v = Inr w \<Longrightarrow> py_iter w = Inr msgs \<Longrightarrow> length msgs \<le> 10"
  by (cases v) (auto simp: py_slice_start_def)

text \<open>
  C12: on a well-formed conversation (every turn a dict with a string role and a string
  content) the prompt is the system prompt, then the page hint when a non-empty page is
  given, then the last ten turns in their order, a user turn as a human message, an
  assistant turn as a system message, and turns of any other role left out.
\<close>

theorem build_chat_messages_turns:
  "build_chat_messages (context_value page) (PList (map turn_value rcs)) =
     Inr (SystemMessage (PStr SYSTEM_PROMPT) # context_hint page @ replay_turns (last_n 10 rcs))"
proof -
  have "py_slice_from (-10) (PList (map turn_value rcs)) = Inr (PList (map turn_value (last_n 10 rcs)))"
    by (simp add: py_slice_start_def last_n_def drop_map max_def) (simp add: nat_diff_distrib)
  then show ?thesis
    by (simp add: build_chat_messages_def context_messages_value history_messages_turns)
qed

text \<open>
  C13: whatever the request holds, a prompt that is assembled at all starts with the
  system prompt and has at most twelve messages.
\<close>

theorem build_chat_messages_shape:
  assumes "build_chat_messages context messages = Inr cm"
  shows "hd cm = SystemMessage (PStr SYSTEM_PROMPT) \<and> length cm \<le> 12"
proof -
  from assms obtain ctx w msgs hist where
    ctx: "context_messages context = Inr ctx" and
    w: "py_slice_from (-10) messages = Inr w" and
    it: "py_iter w = Inr msgs" and
    h: "history_messages msgs = Inr hist" and
    cm: "cm = SystemMessage (PStr SYSTEM_PROMPT) # ctx @ hist"
    by (auto simp: build_chat_messages_def res_bind_eq_Inr)
  have "length hist \<le> 10"
    using history_messages_length [OF h] window_iter_length [OF w it] by simp
  with context_messages_length [OF ctx] cm show ?thesis by simp
qed

theorem build_chat_messages_shape_witness:
  "build_chat_messages (PDict []) (PList [turn_value (''user'', ''hi'')])
     = Inr [SystemMessage (PStr SYSTEM_PROMPT), HumanMessage (PStr ''hi'')]
   \<and> hd [SystemMessage (PStr SYSTEM_PROMPT), HumanMessage (PStr ''hi'')] = SystemMessage (PStr SYSTEM_PROMPT)
   \<and> length [SystemMessage (PStr SYSTEM_PROMPT), HumanMessage (PStr ''hi'')] \<le> 12"
proof -
  have h: "build_chat_messages (PDict []) (PList [turn_value (''user'', ''hi'')])
     = Inr [SystemMessage (PStr SYSTEM_PROMPT), HumanMessage (PStr ''hi'')]"
    by (simp add: build_chat_messages_def context_messages_def py_slice_start_def turn_value_def)
  show ?thesis using h build_chat_messages_shape [OF h] by simp
qed

end
