(* ===== verification/Handler.thy ===== *)
theory Handler
  imports Fallback Prompt
begin

text \<open>
  The route \<open>POST /api/v1/chat\<close>, \<open>chat()\<close> in \<open>src/app.py\<close> (lines 123--187).
  The environment \<open>chat_env\<close> holds what the handler reads from the process: the
  value of \<open>DEEPSEEK_API_KEY\<close> and the provider behind \<open>llm.invoke\<close> (lines 15--19),
  a function from the prompt to its text or the exception the call raises, and which
  lines the standard output can print.  A run returns the HTTP response and the trace
  of observable effects in order: the lines printed and the one provider call.
  \<open>chat_try\<close> is the \<open>try\<close> block (lines 125--173), \<open>chat_except\<close> the
  \<open>except\<close> block (lines 175--187); an exception the
  \<open>except\<close> block raises leaves the handler and Flask answers it (500, or the code of
  an \<open>HTTPException\<close>).
\<close>

section \<open>Requests, replies, effects\<close>

text \<open>
  The body as Flask sees it: JSON, a JSON content type with an undecodable body, or
  another content type.  \<open>request.json\<close> raises \<open>BadRequest\<close> (400) or
  \<open>UnsupportedMediaType\<close> (415) on the last two, every time it is read, and
  \<open>BadRequest\<close> on JSON whose decoding raises \<open>ValueError\<close> (an integer beyond the
  4300-digit limit).
\<close>

datatype request_body = Json_body json | Malformed_json | Not_json_content

definition request_json :: "request_body \<Rightarrow> pyval py" where
  "request_json req =
     (case req of
        Json_body j \<Rightarrow> if json_digits_ok j then Inr (decode_json j) else Inl (HTTPException 400)
      | Malformed_json \<Rightarrow> Inl (HTTPException 400)
      | Not_json_content \<Rightarrow> Inl (HTTPException 415))"

record reply =
  success :: bool
  message :: string
  timestamp :: string
  fallback :: "bool option"

datatype http_response =
    Ok_200 reply
  | Bad_request_400 string
  | Error_response nat exc

definition status_code :: "http_response \<Rightarrow> nat" where
  "status_code r = (case r of Ok_200 _ \<Rightarrow> 200 | Bad_request_400 _ \<Rightarrow> 400 | Error_response c _ \<Rightarrow> c)"

text \<open>Flask's answer to an exception that leaves the view function.\<close>

definition flask_uncaught :: "exc \<Rightarrow> http_response" where
  "flask_uncaught e = (case e of HTTPException c \<Rightarrow> Error_response c e | _ \<Rightarrow> Error_response 500 e)"

datatype event =
    Log_no_api_key
  | Log_processing nat
  | Invoke_provider "chat_message list"
  | Log_generated string
  | Log_error exc

text \<open>
  \<open>stdout\<close> tells which lines the process's standard output can encode: every line
  the handler prints starts with an emoji, and \<open>print\<close> raises
  \<open>UnicodeEncodeError\<close> on a stream whose encoding lacks it (a pipe or file under a
  legacy code page, \<open>PYTHONIOENCODING=ascii\<close>).  A line is an event; the value for
  \<open>Invoke_provider\<close>, which is not printed, is not used.
\<close>

record chat_env =
  stdout :: "event \<Rightarrow> bool"
  api_key :: "string option"
  provider :: "chat_message list \<Rightarrow> string py"

definition py_print :: "chat_env \<Rightarrow> event \<Rightarrow> unit py" where
  "py_print env ev = (if stdout env ev then Inr () else Inl UnicodeEncodeError)"

definition prints_all :: "chat_env \<Rightarrow> bool" where
  "prints_all env = (\<forall>ev. stdout env ev)"

definition api_key_configured :: "string option \<Rightarrow> bool" where
  "api_key_configured k = (case k of None \<Rightarrow> False | Some s \<Rightarrow> s \<noteq> [])"

definition TIMESTAMP :: string where
  "TIMESTAMP = ''2024-01-01T00:00:00.000Z''"

definition fallback_reply :: "string \<Rightarrow> reply" where
  "fallback_reply r = \<lparr>success = True, message = r, timestamp = TIMESTAMP, fallback = Some True\<rparr>"

definition llm_reply :: "string \<Rightarrow> reply" where
  "llm_reply c = \<lparr>success = True, message = c, timestamp = TIMESTAMP, fallback = None\<rparr>"

section \<open>The try block\<close>

text \<open>Lines 126--134: the body, \<open>messages\<close>, \<open>context\<close> and the last message's content.\<close>

definition chat_inputs :: "request_body \<Rightarrow> (pyval \<times> pyval) py" where
  "chat_inputs req =
     res_bind (request_json req) (\<lambda>data.
     res_bind (py_get data ''messages'' (PList [])) (\<lambda>messages.
     res_bind (py_get data ''context'' (PDict [])) (\<lambda>context. Inr (messages, context))))"

definition last_content :: "pyval \<Rightarrow> pyval py" where
  "last_content messages =
     (if py_truthy messages
      then res_bind (py_index_last messages) (\<lambda>m. py_subscript m ''content'')
      else Inr (PStr ''''))"

text \<open>Lines 147--173: the prompt, the log line, the provider call and its reply.\<close>

definition chat_llm :: "chat_env \<Rightarrow> pyval \<Rightarrow> pyval \<Rightarrow> http_response py \<times> event list" where
  "chat_llm env context messages =
     (case res_bind (build_chat_messages context messages) (\<lambda>cm.
           res_bind (py_len messages) (\<lambda>n. Inr (cm, n))) of
        Inl e \<Rightarrow> (Inl e, [])
      | Inr (cm, n) \<Rightarrow>
          (case py_print env (Log_processing n) of
             Inl e \<Rightarrow> (Inl e, [])
           | Inr _ \<Rightarrow>
               (case provider env cm of
                  Inl e \<Rightarrow> (Inl e, [Log_processing n, Invoke_provider cm])
                | Inr content \<Rightarrow>
                    (case py_print env (Log_generated (take 100 content)) of
                       Inl e \<Rightarrow> (Inl e, [Log_processing n, Invoke_provider cm])
                     | Inr _ \<Rightarrow>
                         (Inr (Ok_200 (llm_reply content)),
                          [Log_processing n, Invoke_provider cm, Log_generated (take 100 content)])))))"

definition chat_try :: "chat_env \<Rightarrow> request_body \<Rightarrow> http_response py \<times> event list" where
  "chat_try env req =
     (case chat_inputs req of
        Inl e \<Rightarrow> (Inl e, [])
      | Inr (messages, context) \<Rightarrow>
          if \<not> py_truthy messages then (Inr (Bad_request_400 ''Messages are required''), [])
          else (case last_content messages of
                  Inl e \<Rightarrow> (Inl e, [])
                | Inr user_message \<Rightarrow>
                    if \<not> api_key_configured (api_key env) then
                      (case py_print env Log_no_api_key of
                         Inl e \<Rightarrow> (Inl e, [])
                       | Inr _ \<Rightarrow>
                           (res_bind (get_fallback_response user_message)
                              (\<lambda>r. Inr (Ok_200 (fallback_reply r))), [Log_no_api_key]))
                    else chat_llm env context messages))"

section \<open>The except block\<close>

text \<open>Line 179, read again from the request.\<close>

definition except_user_message :: "request_body \<Rightarrow> pyval py" where
  "except_user_message req =
     res_bind (request_json req) (\<lambda>data.
     res_bind (py_get data ''messages'' PNone) (\<lambda>ms.
       if py_truthy ms then
         res_bind (py_get data ''messages'' (PList [PDict []])) (\<lambda>ms'.
         res_bind (py_index_last ms') (\<lambda>m. py_get m ''content'' (PStr '''')))
       else Inr (PStr '''')))"

definition chat_except :: "request_body \<Rightarrow> http_response py" where
  "chat_except req =
     res_bind (except_user_message req) (\<lambda>user_message.
     res_bind (get_fallback_response user_message) (\<lambda>r. Inr (Ok_200 (fallback_reply r))))"

definition chat :: "chat_env \<Rightarrow> request_body \<Rightarrow> http_response \<times> event list" where
  "chat env req =
     (case chat_try env req of
        (Inr resp, tr) \<Rightarrow> (resp, tr)
      | (Inl e, tr) \<Rightarrow>
          (case py_print env (Log_error e) of
             Inl e' \<Rightarrow> (flask_uncaught e', tr)
           | Inr _ \<Rightarrow>
               (case chat_except req of
                  Inr resp \<Rightarrow> (resp, tr @ [Log_error e])
                | Inl e' \<Rightarrow> (flask_uncaught e', tr @ [Log_error e]))))"

section \<open>Well-formed requests\<close>

text \<open>
  The body a client is meant to send: the turns as (role, content) string pairs and an
  optional page, encoded as the JSON object \<open>{"messages": [...], "context":
  {"currentPage": ...}}\<close>, the \<open>context\<close> key left out when there is no page;
  and the prompt the spec describes for such a request.
\<close>

record chat_request =
  req_messages :: "(string \<times> string) list"
  req_page :: "string option"

definition encode_message :: "string \<times> string \<Rightarrow> json" where
  "encode_message rc = JObj [(''role'', JStr (fst rc)), (''content'', JStr (snd rc))]"

definition encode_context :: "string option \<Rightarrow> (string \<times> json) list" where
  "encode_context page = (case page of None \<Rightarrow> [] | Some p \<Rightarrow> [(''context'', JObj [(''currentPage'', JStr p)])])"

definition encode_request :: "chat_request \<Rightarrow> json" where
  "encode_request r = JObj ((''messages'', JArr (map encode_message (req_messages r))) # encode_context (req_page r))"

definition expected_prompt :: "chat_request \<Rightarrow> chat_message list" where
  "expected_prompt r =
     SystemMessage (PStr SYSTEM_PROMPT) # context_hint (req_page r) @ replay_turns (last_n 10 (req_messages r))"

definition is_invoke :: "event \<Rightarrow> bool" where
  "is_invoke ev = (case ev of Invoke_provider _ \<Rightarrow> True | _ \<Rightarrow> False)"

definition is_log_error :: "event \<Rightarrow> bool" where
  "is_log_error ev = (case ev of Log_error _ \<Rightarrow> True | _ \<Rightarrow> False)"

section \<open>Lemmas\<close>

lemma decode_encode_message [simp]: "decode_json (encode_message rc) = turn_value rc"
  by (simp add: encode_message_def turn_value_def alist_of_pairs_distinct)

lemma decode_encode_request:
  "decode_json (encode_request r) =
     PDict ((''messages'', PList (map turn_value (req_messages r))) #
            (case req_page r of None \<Rightarrow> [] | Some p \<Rightarrow> [(''context'', PDict [(''currentPage'', PStr p)])]))"
  by (cases "req_page r")
     (simp_all add: encode_request_def encode_context_def alist_of_pairs_distinct comp_def)

lemma json_digits_ok_encode_message [simp]: "json_digits_ok (encode_message rc)"
  by (simp add: encode_message_def)

lemma json_digits_ok_encode_request [simp]: "json_digits_ok (encode_request r)"
  by (cases "req_page r") (simp_all add: encode_request_def encode_context_def list_all_iff)

lemma json_digits_ok_encode_messages [simp]: "list_all json_digits_ok (map encode_message rcs)"
  by (simp add: list_all_iff)

lemma chat_inputs_encoded:
  "chat_inputs (Json_body (encode_request r)) =
     Inr (PList (map turn_value (req_messages r)), context_value (req_page r))"
  by (cases "req_page r")
     (simp_all add: chat_inputs_def request_json_def decode_encode_request context_value_def)

lemma last_content_turns:
  "rcs \<noteq> [] \<Longrightarrow> last_content (PList (map turn_value rcs)) = Inr (PStr (snd (last rcs)))"
  by (simp add: last_content_def last_map turn_value_def)

lemma py_print_Inr [simp]: "stdout env ev \<Longrightarrow> py_print env ev = Inr ()"
  by (simp add: py_print_def)

lemma py_print_Inl [simp]: "\<not> stdout env ev \<Longrightarrow> py_print env ev = Inl UnicodeEncodeError"
  by (simp add: py_print_def)

lemma prints_all_stdout [simp]: "prints_all env \<Longrightarrow> stdout env ev"
  by (simp add: prints_all_def)

lemma prints_all_literal [simp]: "prints_all \<lparr>stdout = (\<lambda>_. True), api_key = k, provider = p\<rparr>"
  by (simp add: prints_all_def)

lemma chat_llm_turns:
  "chat_llm env (context_value page) (PList (map turn_value rcs)) =
     (let cm = SystemMessage (PStr SYSTEM_PROMPT) # context_hint page @ replay_turns (last_n 10 rcs) in
      if \<not> stdout env (Log_processing (length rcs)) then (Inl UnicodeEncodeError, [])
      else case provider env cm of
        Inl e \<Rightarrow> (Inl e, [Log_processing (length rcs), Invoke_provider cm])
      | Inr c \<Rightarrow>
          if stdout env (Log_generated (take 100 c))
          then (Inr (Ok_200 (llm_reply c)),
                [Log_processing (length rcs), Invoke_provider cm, Log_generated (take 100 c)])
          else (Inl UnicodeEncodeError, [Log_processing (length rcs), Invoke_provider cm]))"
  by (simp add: chat_llm_def build_chat_messages_turns py_print_def Let_def split: sum.split)

lemma chat_except_encoded:
  "req_messages r \<noteq> [] \<Longrightarrow>
   chat_except (Json_body (encode_request r)) =
     Inr (Ok_200 (fallback_reply (fallback_message (snd (last (req_messages r))))))"
  by (cases "req_page r")
     (simp_all add: chat_except_def except_user_message_def request_json_def decode_encode_request
        last_map turn_value_def get_fallback_response_def)

text \<open>
  The handler on a well-formed request, for any standard output: a line that cannot be
  printed raises in the \<open>try\<close> block, and the \<open>except\<close> block, which prints first,
  either answers with the fallback or raises again.
\<close>

lemma chat_encoded_io:
  "chat env (Json_body (encode_request r)) =
     (let fb = Ok_200 (fallback_reply (fallback_message (snd (last (req_messages r)))));
          exc_path = (\<lambda>e tr. if stdout env (Log_error e) then (fb, tr @ [Log_error e])
                              else (Error_response 500 UnicodeEncodeError, tr));
          n = length (req_messages r); cm = expected_prompt r
      in if req_messages r = [] then (Bad_request_400 ''Messages are required'', [])
      else if \<not> api_key_configured (api_key env) then
        (if stdout env Log_no_api_key then (fb, [Log_no_api_key]) else exc_path UnicodeEncodeError [])
      else if \<not> stdout env (Log_processing n) then exc_path UnicodeEncodeError []
      else case provider env cm of
        Inl e \<Rightarrow> exc_path e [Log_processing n, Invoke_provider cm]
      | Inr c \<Rightarrow>
          if stdout env (Log_generated (take 100 c))
          then (Ok_200 (llm_reply c), [Log_processing n, Invoke_provider cm, Log_generated (take 100 c)])
          else exc_path UnicodeEncodeError [Log_processing n, Invoke_provider cm])"
  by (auto simp: chat_def chat_try_def chat_inputs_encoded last_content_turns chat_llm_turns
        chat_except_encoded expected_prompt_def get_fallback_response_def flask_uncaught_def Let_def
        split: sum.split)

lemma chat_encoded:
  assumes "prints_all env"
  shows "chat env (Json_body (encode_request r)) =
     (if req_messages r = [] then (Bad_request_400 ''Messages are required'', [])
      else if \<not> api_key_configured (api_key env) then
        (Ok_200 (fallback_reply (fallback_message (snd (last (req_messages r))))), [Log_no_api_key])
      else case provider env (expected_prompt r) of
        Inl e \<Rightarrow> (Ok_200 (fallback_reply (fallback_message (snd (last (req_messages r))))),
                  [Log_processing (length (req_messages r)), Invoke_provider (expected_prompt r), Log_error e])
      | Inr c \<Rightarrow> (Ok_200 (llm_reply c),
                  [Log_processing (length (req_messages r)), Invoke_provider (expected_prompt r),
                   Log_generated (take 100 c)]))"
  using assms by (simp add: chat_encoded_io Let_def split: sum.split)

lemma chat_llm_cases:
  assumes "chat_llm env ctx msgs = (res, tr)"
  obtains (unbuilt) "tr = []"
  | (failed) n cm e where "tr = [Log_processing n, Invoke_provider cm]"
      "build_chat_messages ctx msgs = Inr cm" "provider env cm = Inl e" "res = Inl e"
  | (answered) n cm c where "tr = [Log_processing n, Invoke_provider cm, Log_generated (take 100 c)]"
      "build_chat_messages ctx msgs = Inr cm" "provider env cm = Inr c"
      "res = Inr (Ok_200 (llm_reply c))"
  | (unlogged) n cm c where "tr = [Log_processing n, Invoke_provider cm]"
      "build_chat_messages ctx msgs = Inr cm" "provider env cm = Inr c"
      "res = Inl UnicodeEncodeError"
  using assms
  by (auto simp: chat_llm_def py_print_def res_bind_eq_Inr split: sum.splits prod.splits if_splits)

lemma chat_try_cases:
  assumes "chat_try env req = (res, tr)"
  obtains (early) "tr = []" "\<forall>r. res = Inr r \<longrightarrow> r = Bad_request_400 ''Messages are required''"
  | (nokey) u where "tr = [Log_no_api_key]" "\<not> api_key_configured (api_key env)"
      "res = res_bind (get_fallback_response u) (\<lambda>r. Inr (Ok_200 (fallback_reply r)))"
  | (failed) n cm e ctx msgs where "tr = [Log_processing n, Invoke_provider cm]"
      "api_key_configured (api_key env)"
      "build_chat_messages ctx msgs = Inr cm" "provider env cm = Inl e" "res = Inl e"
  | (answered) n cm c ctx msgs where
      "tr = [Log_processing n, Invoke_provider cm, Log_generated (take 100 c)]"
      "api_key_configured (api_key env)"
      "build_chat_messages ctx msgs = Inr cm" "provider env cm = Inr c"
      "res = Inr (Ok_200 (llm_reply c))"
  | (unlogged) n cm c ctx msgs where "tr = [Log_processing n, Invoke_provider cm]"
      "api_key_configured (api_key env)"
      "build_chat_messages ctx msgs = Inr cm" "provider env cm = Inr c"
      "res = Inl UnicodeEncodeError"
proof -
  consider (a) "tr = []" "\<forall>r. res = Inr r \<longrightarrow> r = Bad_request_400 ''Messages are required''"
    | (b) u where "tr = [Log_no_api_key]" "\<not> api_key_configured (api_key env)"
      "res = res_bind (get_fallback_response u) (\<lambda>r. Inr (Ok_200 (fallback_reply r)))"
    | (c) ctx msgs where "api_key_configured (api_key env)"
      "chat_llm env ctx msgs = (res, tr)"
    using assms by (auto simp: chat_try_def py_print_def split: sum.splits prod.splits if_splits)
  then show ?thesis
  proof cases
    case a then show ?thesis by (rule early)
  next
    case b then show ?thesis by (rule nokey)
  next
    case c
    from c(2) show ?thesis
    proof (cases rule: chat_llm_cases)
      case unbuilt
      then show ?thesis using c(2) by (intro early) (auto simp: chat_llm_def split: sum.splits prod.splits)
    next
      case (failed n cm e)
      show ?thesis by (rule that(3) [OF failed(1) c(1) failed(2,3,4)])
    next
      case (answered n cm c')
      show ?thesis by (rule that(4) [OF answered(1) c(1) answered(2,3,4)])
    next
      case (unlogged n cm c')
      show ?thesis by (rule that(5) [OF unlogged(1) c(1) unlogged(2,3,4)])
    qed
  qed
qed

lemma chat_except_Inr: "chat_except req = Inr resp \<Longrightarrow> \<exists>s. resp = Ok_200 (fallback_reply (fallback_message s))"
  by (auto simp: chat_except_def res_bind_eq_Inr get_fallback_response_Inr)

lemma get_fallback_reply_Inr:
  "res_bind (get_fallback_response u) (\<lambda>r. Inr (Ok_200 (fallback_reply r))) = Inr resp \<Longrightarrow>
   \<exists>s. resp = Ok_200 (fallback_reply (fallback_message s))"
  by (auto simp: res_bind_eq_Inr get_fallback_response_Inr)

lemma chat_trace:
  "\<exists>tr0. snd (chat env req) =
            tr0 @ (case fst (chat_try env req) of
                     Inl e \<Rightarrow> if stdout env (Log_error e) then [Log_error e] else []
                   | Inr _ \<Rightarrow> [])
          \<and> snd (chat_try env req) = tr0"
  by (auto simp: chat_def py_print_def split: sum.splits prod.splits)

lemma chat_invoke_in_try:
  "Invoke_provider cm \<in> set (snd (chat env req)) \<Longrightarrow> Invoke_provider cm \<in> set (snd (chat_try env req))"
  using chat_trace [of env req] by (auto split: sum.splits)

lemma chat_invoke_configured:
  "Invoke_provider cm \<in> set (snd (chat env req)) \<Longrightarrow> api_key_configured (api_key env)"
proof -
  assume "Invoke_provider cm \<in> set (snd (chat env req))"
  then have i: "Invoke_provider cm \<in> set (snd (chat_try env req))" by (rule chat_invoke_in_try)
  obtain res tr where ct: "chat_try env req = (res, tr)" by fastforce
  with i have "Invoke_provider cm \<in> set tr" by simp
  with ct show ?thesis by (cases rule: chat_try_cases) auto
qed

text \<open>
  C7: on every request the handler calls the provider at most once.
\<close>

theorem chat_single_invocation: "length (filter is_invoke (snd (chat env req))) \<le> 1"
proof -
  obtain res tr where ct: "chat_try env req = (res, tr)" by fastforce
  have "length (filter is_invoke tr) \<le> 1"
    using ct by (cases rule: chat_try_cases) (simp_all add: is_invoke_def)
  then show ?thesis
    using chat_trace [of env req] ct by (auto simp: is_invoke_def split: sum.splits)
qed

text \<open>
  C8: the provider is called only when a key is configured, and only with a prompt assembled by build_chat_messages.
\<close>

theorem chat_invoke_requires_key:
  assumes "Invoke_provider cm \<in> set (snd (chat env req))"
  shows "api_key_configured (api_key env) \<and> (\<exists>ctx msgs. build_chat_messages ctx msgs = Inr cm)"
proof -
  obtain res tr where ct: "chat_try env req = (res, tr)" by fastforce
  with chat_invoke_in_try [OF assms] have "Invoke_provider cm \<in> set tr" by simp
  with ct show ?thesis by (cases rule: chat_try_cases) auto
qed

text \<open>
  C14: the handler answers 200, 400, 415 or 500 and nothing else.
\<close>

theorem chat_status_codes: "status_code (fst (chat env req)) \<in> {200, 400, 415, 500}"
proof -
  have "status_code (flask_uncaught e) \<in> {400, 415, 500}" if "chat_except req = Inl e" for e
  proof -
    have "e = HTTPException 400 \<or> e = HTTPException 415 \<or> (\<forall>c. e \<noteq> HTTPException c)"
      using that
      by (auto simp: chat_except_def except_user_message_def request_json_def res_bind_eq_Inl
            split: request_body.splits if_splits)
    then show ?thesis by (auto simp: flask_uncaught_def status_code_def split: exc.splits)
  qed
  moreover obtain res tr where ct: "chat_try env req = (res, tr)" by fastforce
  moreover have "status_code r \<in> {200, 400}" if "res = Inr r" for r
    using ct that
    by (cases rule: chat_try_cases) (auto simp: status_code_def dest: get_fallback_reply_Inr)
  ultimately show ?thesis
    by (auto simp: chat_def status_code_def py_print_def flask_uncaught_def dest!: chat_except_Inr
        split: sum.splits)
qed

lemma chat_inputs_Inr:
  "chat_inputs req = Inr mc \<longleftrightarrow>
     (\<exists>d. request_json req = Inr (PDict d) \<and>
          mc = (case map_of d ''messages'' of Some v \<Rightarrow> v | None \<Rightarrow> PList [],
                case map_of d ''context'' of Some v \<Rightarrow> v | None \<Rightarrow> PDict []))"
proof (cases "request_json req")
  case (Inr data)
  then show ?thesis
    by (cases data) (auto simp: chat_inputs_def)
qed (simp add: chat_inputs_def)

text \<open>
  C2: the handler answers 400 with the body "Messages are required" exactly when the request body is a JSON object whose "messages" entry is missing or falsy (null, false, 0, an empty string, list or object).
\<close>

theorem chat_empty_messages_400:
  "fst (chat env req) = Bad_request_400 ''Messages are required'' \<longleftrightarrow>
     (\<exists>d. request_json req = Inr (PDict d) \<and>
          \<not> py_truthy (case map_of d ''messages'' of Some v \<Rightarrow> v | None \<Rightarrow> PList []))"
proof
  assume bad: "fst (chat env req) = Bad_request_400 ''Messages are required''"
  obtain res tr where ct: "chat_try env req = (res, tr)" by fastforce
  have "res = Inr (Bad_request_400 ''Messages are required'')"
    using bad ct chat_except_Inr
    by (fastforce simp: chat_def py_print_def flask_uncaught_def fallback_reply_def
        split: sum.splits exc.splits if_splits)
  with ct show "\<exists>d. request_json req = Inr (PDict d) \<and>
          \<not> py_truthy (case map_of d ''messages'' of Some v \<Rightarrow> v | None \<Rightarrow> PList [])"
    by (auto simp: chat_try_def chat_inputs_Inr chat_llm_def py_print_def res_bind_eq_Inr
        get_fallback_response_Inr fallback_reply_def split: sum.splits prod.splits if_splits)
next
  assume "\<exists>d. request_json req = Inr (PDict d) \<and>
          \<not> py_truthy (case map_of d ''messages'' of Some v \<Rightarrow> v | None \<Rightarrow> PList [])"
  then obtain d where "request_json req = Inr (PDict d)"
    and "\<not> py_truthy (case map_of d ''messages'' of Some v \<Rightarrow> v | None \<Rightarrow> PList [])" by blast
  then show "fst (chat env req) = Bad_request_400 ''Messages are required''"
    by (simp add: chat_def chat_try_def chat_inputs_def)
qed

text \<open>
  C5: on a standard output that prints the handler's lines, with no API key configured (unset or empty), a non-empty well-formed conversation gets the fallback for its last message, tagged as fallback, and the provider is never called: the only effect is the warning line.
\<close>

theorem chat_unconfigured:
  assumes "req_messages r \<noteq> []" and "\<not> api_key_configured (api_key env)" and "prints_all env"
  shows "chat env (Json_body (encode_request r)) =
     (Ok_200 (fallback_reply (fallback_message (snd (last (req_messages r))))), [Log_no_api_key])"
  using assms by (simp add: chat_encoded)

text \<open>
  C3: on a standard output that prints the handler's lines, with a key configured and a provider call that fails, a non-empty well-formed conversation gets the fallback for its last message, after exactly one provider call with the expected prompt, and the error is logged.
\<close>

theorem chat_provider_failure:
  assumes "req_messages r \<noteq> []" and "api_key_configured (api_key env)" and "prints_all env"
    and "provider env (expected_prompt r) = Inl e"
  shows "chat env (Json_body (encode_request r)) =
     (Ok_200 (fallback_reply (fallback_message (snd (last (req_messages r))))),
      [Log_processing (length (req_messages r)), Invoke_provider (expected_prompt r), Log_error e])"
  using assms by (simp add: chat_encoded)

text \<open>
  C4: on a standard output that prints the handler's lines, with a key configured and a provider call that succeeds, the reply carries the provider's text, without the fallback tag, after exactly one provider call with the expected prompt.
\<close>

theorem chat_provider_success:
  assumes "req_messages r \<noteq> []" and "api_key_configured (api_key env)" and "prints_all env"
    and "provider env (expected_prompt r) = Inr text"
  shows "chat env (Json_body (encode_request r)) =
     (Ok_200 (llm_reply text),
      [Log_processing (length (req_messages r)), Invoke_provider (expected_prompt r),
       Log_generated (take 100 text)])"
  using assms by (simp add: chat_encoded)

text \<open>
  C6: every 200 reply has success true and the fixed timestamp, and is either tagged fallback with a fallback text, or untagged with the text the provider returned for a prompt the run sent it.
\<close>

theorem chat_reply_envelope:
  assumes "chat env req = (Ok_200 rep, tr)"
  shows "success rep \<and> timestamp rep = TIMESTAMP \<and>
    ((fallback rep = Some True \<and> (\<exists>s. message rep = fallback_message s)) \<or>
     (fallback rep = None \<and> (\<exists>cm. Invoke_provider cm \<in> set tr \<and> provider env cm = Inr (message rep))))"
proof -
  obtain res tr0 where ct: "chat_try env req = (res, tr0)" by fastforce
  show ?thesis
  proof (cases res)
    case (Inl e)
    with assms ct have "chat_except req = Inr (Ok_200 rep)"
      by (auto simp: chat_def py_print_def flask_uncaught_def split: sum.splits exc.splits if_splits)
    then show ?thesis
      by (auto dest!: chat_except_Inr simp: fallback_reply_def TIMESTAMP_def)
  next
    case (Inr resp)
    with assms ct have resp: "resp = Ok_200 rep" and tr: "tr = tr0"
      by (simp_all add: chat_def)
    from ct show ?thesis
    proof (cases rule: chat_try_cases)
      case early
      with Inr resp show ?thesis by simp
    next
      case (nokey u)
      with Inr resp have "\<exists>s. Ok_200 rep = Ok_200 (fallback_reply (fallback_message s))"
        by (auto dest!: get_fallback_reply_Inr)
      then show ?thesis by (auto simp: fallback_reply_def)
    next
      case (failed n cm e ctx msgs)
      with Inr show ?thesis by simp
    next
      case (answered n cm c ctx msgs)
      with Inr resp tr show ?thesis by (auto simp: llm_reply_def)
    next
      case (unlogged n cm c ctx msgs)
      with Inr show ?thesis by simp
    qed
  qed
qed

text \<open>
  C15: on a standard output that prints the handler's lines, a non-empty string as "messages" makes the except block raise too: the handler answers 500, although the spec promises that only the 400 validation error is ever surfaced.
\<close>

theorem chat_string_messages_500:
  "s \<noteq> [] \<Longrightarrow> prints_all env \<Longrightarrow>
   chat env (Json_body (JObj [(''messages'', JStr s)])) = (Error_response 500 AttributeError, [Log_error TypeError])"
  by (simp add: chat_def chat_try_def chat_inputs_def request_json_def alist_of_pairs_def last_content_def
        chat_except_def except_user_message_def flask_uncaught_def)

text \<open>
  C16: on a standard output that prints the handler's lines, with no key configured, a last message whose content is not a string makes both blocks raise AttributeError on lower(): the handler answers 500.
\<close>

theorem chat_non_string_content_500:
  assumes "\<not> api_key_configured (api_key env)" and "\<forall>s. c \<noteq> JStr s" and "prints_all env"
    and "json_digits_ok c"
  shows "chat env (Json_body (JObj [(''messages'', JArr [JObj [(''role'', JStr rl), (''content'', c)]])])) =
     (Error_response 500 AttributeError, [Log_no_api_key, Log_error AttributeError])"
proof -
  have "\<forall>s. decode_json c \<noteq> PStr s" using assms(2) by (cases c) simp_all
  then have "get_fallback_response (decode_json c) = Inl AttributeError"
    by (cases "decode_json c") (simp_all add: get_fallback_response_def)
  with assms(1,3,4) show ?thesis
    by (simp add: chat_def chat_try_def chat_inputs_def request_json_def alist_of_pairs_def last_content_def
        chat_except_def except_user_message_def flask_uncaught_def)
qed

lemma decode_json_comp_encode [simp]: "decode_json \<circ> encode_message = turn_value"
  by (rule ext) simp

text \<open>
  C17: on a standard output that prints the handler's lines, with a key configured and "context": null, the handler never calls the provider (context.get raises first) and answers with the fallback even when the provider works.
\<close>

theorem chat_null_context_skips_provider:
  assumes "rcs \<noteq> []" and "api_key_configured (api_key env)" and "prints_all env"
  shows "chat env (Json_body (JObj [(''messages'', JArr (map encode_message rcs)), (''context'', JNull)])) =
     (Ok_200 (fallback_reply (fallback_message (snd (last rcs)))), [Log_error AttributeError])"
proof -
  let ?req = "Json_body (JObj [(''messages'', JArr (map encode_message rcs)), (''context'', JNull)])"
  have inputs: "chat_inputs ?req = Inr (PList (map turn_value rcs), PNone)"
    by (simp add: chat_inputs_def request_json_def alist_of_pairs_def)
  have "chat_try env ?req = (Inl AttributeError, [])"
    using assms
    by (simp add: chat_try_def inputs last_content_turns chat_llm_def build_chat_messages_def
        context_messages_def)
  moreover have "chat_except ?req = Inr (Ok_200 (fallback_reply (fallback_message (snd (last rcs)))))"
    using assms
    by (simp add: chat_except_def except_user_message_def request_json_def alist_of_pairs_def
        last_map turn_value_def get_fallback_response_def)
  ultimately show ?thesis using assms(3) by (simp add: chat_def)
qed

text \<open>
  The spec's example: "How do I view tariff rates?" with no key configured gets the Tariff Calculator text, tagged as fallback.
\<close>

theorem chat_tariff_example:
  "chat \<lparr>stdout = (\<lambda>_. True), api_key = None, provider = p\<rparr>
     (Json_body (JObj [(''messages'', JArr [JObj [(''role'', JStr ''user''), (''content'', JStr ''How do I view tariff rates?'')]])]))
   = (Ok_200 \<lparr>success = True,
        message = ''The Tariff Calculator provides real-time import/export tariff calculations using government data. Enter HS codes and select countries to get accurate duty rates and trade information.'',
        timestamp = ''2024-01-01T00:00:00.000Z'', fallback = Some True\<rparr>, [Log_no_api_key])"
proof -
  have "fallback_message ''How do I view tariff rates?'' = tariff_response"
    by (simp add: fallback_message_def py_lower_def py_lower_char_def FALLBACK_RESPONSES_def
        supply_guard_keywords_def)
  then show ?thesis
    using chat_encoded [of "\<lparr>stdout = (\<lambda>_. True), api_key = None, provider = p\<rparr>"
        "\<lparr>req_messages = [(''user'', ''How do I view tariff rates?'')], req_page = None\<rparr>"]
    by (simp add: encode_request_def encode_message_def encode_context_def api_key_configured_def
        fallback_reply_def TIMESTAMP_def tariff_response_def)
qed


text \<open>
  C23: the order of effects: whatever the request, the trace is the try block's events, none of them an error line, and when the try block raises e, then the line for e, printed before the except block runs: it is logged whether the except block then answers or raises, and is missing only when the output cannot print it.
\<close>

theorem chat_error_logged_last:
  "snd (chat env req) =
     snd (chat_try env req) @
       (case fst (chat_try env req) of
          Inl e \<Rightarrow> if stdout env (Log_error e) then [Log_error e] else []
        | Inr _ \<Rightarrow> []) \<and>
   list_all (\<lambda>ev. \<not> is_log_error ev) (snd (chat_try env req))"
proof -
  obtain res tr where ct: "chat_try env req = (res, tr)" by fastforce
  have "list_all (\<lambda>ev. \<not> is_log_error ev) tr"
    using ct by (cases rule: chat_try_cases) (simp_all add: is_log_error_def)
  moreover have "snd (chat env req) =
      tr @ (case res of Inl e \<Rightarrow> if stdout env (Log_error e) then [Log_error e] else [] | Inr _ \<Rightarrow> [])"
    using ct by (auto simp: chat_def py_print_def split: sum.splits)
  ultimately show ?thesis using ct by simp
qed

text \<open>
  The spec's history example: with fifteen user messages, the page "Alerts" and a key configured, the prompt sent to the provider is the system prompt, the hint for "Alerts", and messages six to fifteen in their order.
\<close>

theorem chat_history_window_example:
  "snd (chat \<lparr>stdout = (\<lambda>_. True), api_key = Some ''k'', provider = p\<rparr>
         (Json_body (encode_request \<lparr>req_messages = map (Pair ''user'')
            [''m1'', ''m2'', ''m3'', ''m4'', ''m5'', ''m6'', ''m7'', ''m8'', ''m9'', ''m10'', ''m11'', ''m12'', ''m13'', ''m14'', ''m15''],
            req_page = Some ''Alerts''\<rparr>))) ! 1
   = Invoke_provider (SystemMessage (PStr SYSTEM_PROMPT) # SystemMessage (PStr (context_message ''Alerts'')) #
       map (\<lambda>s. HumanMessage (PStr s)) [''m6'', ''m7'', ''m8'', ''m9'', ''m10'', ''m11'', ''m12'', ''m13'', ''m14'', ''m15''])"
  by (simp add: chat_encoded api_key_configured_def expected_prompt_def context_hint_def last_n_def
        replay_turns_def split: sum.split)

text \<open>
  C24: a last message without a "content" key raises KeyError in the try block before the key is checked, and the except block answers with the redirect sentence for the empty message, whatever the configuration; if the error line cannot be printed, the request ends in a 500.
\<close>

theorem chat_missing_content_redirect:
  "chat env (Json_body (JObj [(''messages'', JArr [JObj [(''role'', JStr rl)]])])) =
     (if stdout env (Log_error (KeyError (PStr ''content'')))
      then (Ok_200 (fallback_reply fallback_redirect), [Log_error (KeyError (PStr ''content''))])
      else (Error_response 500 UnicodeEncodeError, []))"
  by (simp add: chat_def py_print_def flask_uncaught_def chat_try_def chat_inputs_def request_json_def alist_of_pairs_def last_content_def
        chat_except_def except_user_message_def get_fallback_response_def fallback_message_empty)

text \<open>
  C20: every line the handler prints starts with an emoji; on a standard output that
  cannot encode its lines the handler has no effect at all and answers every request
  but the 400 validation error with 500, malformed bodies and provider failures
  included, although the spec says no provider or internal failure surfaces as a 5xx.
\<close>

theorem chat_unprintable_500:
  assumes "\<forall>ev. \<not> stdout env ev"
  shows "snd (chat env req) = [] \<and>
    (fst (chat env req) = Bad_request_400 ''Messages are required'' \<or>
     fst (chat env req) = Error_response 500 UnicodeEncodeError)"
proof -
  have "chat_try env req = (res, tr) \<Longrightarrow> tr = [] \<and> (\<forall>r. res = Inr r \<longrightarrow> r = Bad_request_400 ''Messages are required'')"
    for res tr
    using assms
    by (auto simp: chat_try_def chat_llm_def py_print_def split: sum.splits prod.splits if_splits)
  moreover obtain res tr where "chat_try env req = (res, tr)" by fastforce
  ultimately show ?thesis
    using assms by (auto simp: chat_def py_print_def flask_uncaught_def split: sum.splits)
qed

subsection \<open>Witnesses\<close>

theorem chat_empty_messages_400_witness:
  "fst (chat \<lparr>stdout = (\<lambda>_. True), api_key = Some ''k'', provider = (\<lambda>_. Inr ''x'')\<rparr> (Json_body (JObj [(''messages'', JArr [])])))
     = Bad_request_400 ''Messages are required''"
  using chat_empty_messages_400 [of "\<lparr>stdout = (\<lambda>_. True), api_key = Some ''k'', provider = (\<lambda>_. Inr ''x'')\<rparr>"
      "Json_body (JObj [(''messages'', JArr [])])"]
  by (simp add: request_json_def alist_of_pairs_def)

theorem chat_unconfigured_witness:
  "chat \<lparr>stdout = (\<lambda>_. True), api_key = Some [], provider = (\<lambda>_. Inr ''x'')\<rparr>
     (Json_body (encode_request \<lparr>req_messages = [(''user'', ''hi'')], req_page = None\<rparr>))
   = (Ok_200 (fallback_reply (fallback_message ''hi'')), [Log_no_api_key])"
  using chat_unconfigured [of "\<lparr>req_messages = [(''user'', ''hi'')], req_page = None\<rparr>"
      "\<lparr>stdout = (\<lambda>_. True), api_key = Some [], provider = (\<lambda>_. Inr ''x'')\<rparr>"]
  by (simp add: api_key_configured_def)

theorem chat_provider_failure_witness:
  "chat \<lparr>stdout = (\<lambda>_. True), api_key = Some ''k'', provider = (\<lambda>_. Inl (ProviderError ''timeout''))\<rparr>
     (Json_body (encode_request \<lparr>req_messages = [(''user'', ''hi'')], req_page = Some ''Alerts''\<rparr>))
   = (Ok_200 (fallback_reply (fallback_message ''hi'')),
      [Log_processing 1, Invoke_provider (expected_prompt \<lparr>req_messages = [(''user'', ''hi'')], req_page = Some ''Alerts''\<rparr>),
       Log_error (ProviderError ''timeout'')])"
  using chat_provider_failure [of "\<lparr>req_messages = [(''user'', ''hi'')], req_page = Some ''Alerts''\<rparr>"
      "\<lparr>stdout = (\<lambda>_. True), api_key = Some ''k'', provider = (\<lambda>_. Inl (ProviderError ''timeout''))\<rparr>"]
  by (simp add: api_key_configured_def)

theorem chat_provider_success_witness:
  "chat \<lparr>stdout = (\<lambda>_. True), api_key = Some ''k'', provider = (\<lambda>_. Inr ''Open the Alerts page.'')\<rparr>
     (Json_body (encode_request \<lparr>req_messages = [(''user'', ''hi'')], req_page = None\<rparr>))
   = (Ok_200 (llm_reply ''Open the Alerts page.''),
      [Log_processing 1, Invoke_provider (expected_prompt \<lparr>req_messages = [(''user'', ''hi'')], req_page = None\<rparr>),
       Log_generated ''Open the Alerts page.''])"
  using chat_provider_success [of "\<lparr>req_messages = [(''user'', ''hi'')], req_page = None\<rparr>"
      "\<lparr>stdout = (\<lambda>_. True), api_key = Some ''k'', provider = (\<lambda>_. Inr ''Open the Alerts page.'')\<rparr>"]
  by (simp add: api_key_configured_def)

theorem chat_reply_envelope_witness:
  "success (llm_reply ''ok'') \<and> timestamp (llm_reply ''ok'') = TIMESTAMP"
proof -
  let ?env = "\<lparr>stdout = (\<lambda>_. True), api_key = Some ''k'', provider = (\<lambda>_. Inr ''ok'')\<rparr>"
  let ?r = "\<lparr>req_messages = [(''user'', ''hi'')], req_page = None\<rparr>"
  have h: "chat ?env (Json_body (encode_request ?r)) =
     (Ok_200 (llm_reply ''ok''), [Log_processing 1, Invoke_provider (expected_prompt ?r), Log_generated ''ok''])"
    by (simp add: chat_encoded api_key_configured_def)
  show ?thesis using chat_reply_envelope [OF h] by simp
qed

theorem chat_invoke_requires_key_witness:
  "api_key_configured (api_key \<lparr>stdout = (\<lambda>_. True), api_key = Some ''k'', provider = (\<lambda>_. Inr ''ok'')\<rparr>) \<and>
   (\<exists>ctx msgs. build_chat_messages ctx msgs = Inr (expected_prompt \<lparr>req_messages = [(''user'', ''hi'')], req_page = None\<rparr>))"
proof -
  let ?env = "\<lparr>stdout = (\<lambda>_. True), api_key = Some ''k'', provider = (\<lambda>_. Inr ''ok'')\<rparr>"
  let ?r = "\<lparr>req_messages = [(''user'', ''hi'')], req_page = None\<rparr>"
  have h: "Invoke_provider (expected_prompt ?r) \<in> set (snd (chat ?env (Json_body (encode_request ?r))))"
    by (simp add: chat_encoded api_key_configured_def)
  show ?thesis by (rule chat_invoke_requires_key [OF h])
qed

theorem chat_string_messages_500_witness:
  "chat \<lparr>stdout = (\<lambda>_. True), api_key = None, provider = (\<lambda>_. Inr ''ok'')\<rparr> (Json_body (JObj [(''messages'', JStr ''hi'')]))
     = (Error_response 500 AttributeError, [Log_error TypeError])"
  by (rule chat_string_messages_500) simp_all

theorem chat_non_string_content_500_witness:
  "chat \<lparr>stdout = (\<lambda>_. True), api_key = None, provider = (\<lambda>_. Inr ''ok'')\<rparr>
     (Json_body (JObj [(''messages'', JArr [JObj [(''role'', JStr ''user''), (''content'', JNum 5)]])]))
   = (Error_response 500 AttributeError, [Log_no_api_key, Log_error AttributeError])"
  by (rule chat_non_string_content_500) (simp_all add: api_key_configured_def)

theorem chat_null_context_skips_provider_witness:
  "chat \<lparr>stdout = (\<lambda>_. True), api_key = Some ''k'', provider = (\<lambda>_. Inr ''ok'')\<rparr>
     (Json_body (JObj [(''messages'', JArr (map encode_message [(''user'', ''hi'')])), (''context'', JNull)]))
   = (Ok_200 (fallback_reply (fallback_message (snd (last [(''user'', ''hi'')])))), [Log_error AttributeError])"
  by (rule chat_null_context_skips_provider) (simp_all add: api_key_configured_def)

theorem chat_unprintable_500_witness:
  "snd (chat \<lparr>stdout = (\<lambda>_. False), api_key = Some ''k'', provider = (\<lambda>_. Inr ''ok'')\<rparr>
         (Json_body (encode_request \<lparr>req_messages = [(''user'', ''hi'')], req_page = None\<rparr>))) = [] \<and>
   (fst (chat \<lparr>stdout = (\<lambda>_. False), api_key = Some ''k'', provider = (\<lambda>_. Inr ''ok'')\<rparr>
         (Json_body (encode_request \<lparr>req_messages = [(''user'', ''hi'')], req_page = None\<rparr>)))
      = Bad_request_400 ''Messages are required'' \<or>
    fst (chat \<lparr>stdout = (\<lambda>_. False), api_key = Some ''k'', provider = (\<lambda>_. Inr ''ok'')\<rparr>
         (Json_body (encode_request \<lparr>req_messages = [(''user'', ''hi'')], req_page = None\<rparr>)))
      = Error_response 500 UnicodeEncodeError)"
  by (rule chat_unprintable_500) simp

end
