(* ===== verification/Startup.thy ===== *)
theory Startup
  imports Handler
begin

text \<open>
  Module import and the \<open>__main__\<close> block of \<open>src/app.py\<close> (lines 9--19 and
  189--193).  The process environment is a map from variable names to values.
  \<open>load_dotenv()\<close> (line 9) looks for a file \<open>.env\<close> in the directory of
  \<open>app.py\<close> and its ancestors, nearest first (\<open>find_dotenv\<close>, the loop
  \<open>while last_dir != current_dir\<close> of python-dotenv), and copies its entries into
  the environment without overriding variables already set.  \<open>ChatOpenAI(...)\<close>
  (lines 15--19) builds the client that \<open>llm.invoke\<close> uses: its key is the value of
  \<open>DEEPSEEK_API_KEY\<close> when that is a non-empty string and otherwise the OpenAI client
  falls back to \<open>OPENAI_API_KEY\<close>, raising \<open>OpenAIError\<close> when that is unset too,
  which aborts the import.  \<open>main\<close> reads \<open>PORT\<close> with \<open>int()\<close> (default 3001),
  prints two lines and binds the port; \<open>served_env\<close> is the environment the chat
  handler of \<open>Handler\<close> then runs in.
\<close>

section \<open>The process environment and \<open>load_dotenv()\<close>\<close>

type_synonym environ = "string \<Rightarrow> string option"

text \<open>
  A directory is its absolute path as a list of components, \<open>[]\<close> the root, whose
  parent is itself.  A file system maps a directory to the entries of the
  \<open>.env\<close> file in it, if there is one: the pairs \<open>(name, value)\<close> in file order,
  with the value after interpolation and \<open>None\<close> for a line with a name and no
  \<open>=\<close>.
\<close>

type_synonym dir = "string list"
type_synonym dotenv_fs = "dir \<Rightarrow> (string \<times> string option) list option"

definition parent_dir :: "dir \<Rightarrow> dir" where
  "parent_dir d = butlast d"

partial_function (option) find_dotenv_from ::
  "(dir \<Rightarrow> bool) \<Rightarrow> dir option \<Rightarrow> dir \<Rightarrow> dir option option" where
  "find_dotenv_from has_env last_dir current_dir =
     (if last_dir = Some current_dir then Some None
      else if has_env current_dir then Some (Some current_dir)
      else find_dotenv_from has_env (Some current_dir) (parent_dir current_dir))"

declare find_dotenv_from.simps [code]

text \<open>
  \<open>set_as_environment_variables\<close>: every entry of the dict of the file (the last
  value of a repeated name, at its first position) whose name is not yet in
  \<open>os.environ\<close> and whose value is not \<open>None\<close> is set.
\<close>

definition set_env_entries :: "(string \<times> string option) list \<Rightarrow> environ \<Rightarrow> environ" where
  "set_env_entries entries env =
     foldl (\<lambda>e (k, v). if e k \<noteq> None then e else (case v of None \<Rightarrow> e | Some s \<Rightarrow> e(k \<mapsto> s)))
       env (alist_of_pairs entries)"

definition load_dotenv :: "dotenv_fs \<Rightarrow> dir \<Rightarrow> environ \<Rightarrow> environ" where
  "load_dotenv fs app_dir env =
     (case find_dotenv_from (\<lambda>d. fs d \<noteq> None) None app_dir of
        Some (Some d) \<Rightarrow> (case fs d of Some entries \<Rightarrow> set_env_entries entries env | None \<Rightarrow> env)
      | _ \<Rightarrow> env)"

section \<open>The client: \<open>ChatOpenAI(...)\<close>\<close>

record llm_client =
  llm_model :: string
  llm_api_key :: string
  llm_base_url :: string

text \<open>
  \<open>openai_api_key\<close> is a \<open>SecretStr\<close>; the client is given
  \<open>key.get_secret_value() if key else None\<close>, and an empty secret is false.
  \<open>openai.OpenAI(api_key=None)\<close> reads \<open>OPENAI_API_KEY\<close> and raises
  \<open>OpenAIError\<close> when it is unset.
\<close>

definition secret_key :: "string option \<Rightarrow> string option" where
  "secret_key k = (case k of Some s \<Rightarrow> if s = [] then None else Some s | None \<Rightarrow> None)"

definition openai_client_key :: "environ \<Rightarrow> string option \<Rightarrow> string py" where
  "openai_client_key env k =
     (case k of Some s \<Rightarrow> Inr s
      | None \<Rightarrow> (case env ''OPENAI_API_KEY'' of Some s \<Rightarrow> Inr s | None \<Rightarrow> Inl OpenAIError))"

definition init_llm :: "environ \<Rightarrow> llm_client py" where
  "init_llm env =
     res_bind (openai_client_key env (secret_key (env ''DEEPSEEK_API_KEY'')))
       (\<lambda>key. Inr \<lparr>llm_model = ''deepseek-chat'', llm_api_key = key,
                   llm_base_url = ''https://api.deepseek.com''\<rparr>)"

text \<open>Importing the module: \<open>load_dotenv()\<close>, then the client (lines 9--19).\<close>

definition import_app :: "dotenv_fs \<Rightarrow> dir \<Rightarrow> environ \<Rightarrow> (environ \<times> llm_client) py" where
  "import_app fs app_dir env0 =
     (let env = load_dotenv fs app_dir env0 in res_bind (init_llm env) (\<lambda>llm. Inr (env, llm)))"

text \<open>
  The handler's view of a served process: \<open>os.getenv("DEEPSEEK_API_KEY")\<close> at line
  137 reads the environment after import, \<open>so\<close> is what the process's standard
  output can print, and \<open>llm.invoke\<close> is the transport \<open>call\<close> applied to the
  client built at import.
\<close>

definition served_env ::
  "environ \<Rightarrow> (event \<Rightarrow> bool) \<Rightarrow> (llm_client \<Rightarrow> chat_message list \<Rightarrow> string py) \<Rightarrow> llm_client \<Rightarrow> chat_env" where
  "served_env env so call llm = \<lparr>stdout = so, api_key = env ''DEEPSEEK_API_KEY'', provider = call llm\<rparr>"

section \<open>\<open>__main__\<close>\<close>

datatype startup_event = Print_server_running int | Print_chat_api int

text \<open>\<open>int(os.getenv('PORT', 3001))\<close>: the default is the integer 3001 itself.\<close>

definition main_port :: "environ \<Rightarrow> int py" where
  "main_port env = (case env ''PORT'' of None \<Rightarrow> Inr 3001 | Some s \<Rightarrow> py_int s)"

text \<open>\<open>app.run(port=port)\<close> binds the port; \<open>socket.bind\<close> raises \<open>OverflowError\<close> outside 0--65535.\<close>

definition app_run :: "int \<Rightarrow> int py" where
  "app_run port = (if 0 \<le> port \<and> port \<le> 65535 then Inr port else Inl OverflowError)"

text \<open>
  The two start-up lines begin with an emoji; \<open>so\<close> tells which of them the standard
  output can encode, and \<open>print\<close> raises \<open>UnicodeEncodeError\<close> on the others.
\<close>

definition main :: "(startup_event \<Rightarrow> bool) \<Rightarrow> environ \<Rightarrow> int py \<times> startup_event list" where
  "main so env =
     (case main_port env of
        Inl e \<Rightarrow> (Inl e, [])
      | Inr port \<Rightarrow>
          if \<not> so (Print_server_running port) then (Inl UnicodeEncodeError, [])
          else if \<not> so (Print_chat_api port) then (Inl UnicodeEncodeError, [Print_server_running port])
          else (app_run port, [Print_server_running port, Print_chat_api port]))"

record server =
  srv_env :: environ
  srv_llm :: llm_client
  srv_port :: int

text \<open>\<open>python app.py\<close>: import, then the \<open>__main__\<close> block.\<close>

definition run_app ::
  "dotenv_fs \<Rightarrow> dir \<Rightarrow> environ \<Rightarrow> (startup_event \<Rightarrow> bool) \<Rightarrow> server py \<times> startup_event list" where
  "run_app fs app_dir env0 so =
     (case import_app fs app_dir env0 of
        Inl e \<Rightarrow> (Inl e, [])
      | Inr (env, llm) \<Rightarrow>
          (let (r, tr) = main so env
           in (res_bind r (\<lambda>port. Inr \<lparr>srv_env = env, srv_llm = llm, srv_port = port\<rparr>), tr)))"

lemma find_dotenv_from_prefixes:
  "last_dir \<noteq> Some d \<Longrightarrow> find_dotenv_from has_env last_dir d = Some (find has_env (rev (prefixes d)))"
proof (induction d arbitrary: last_dir rule: rev_induct)
  case Nil
  then show ?case
    by (subst find_dotenv_from.simps) (simp add: find_dotenv_from.simps [of _ "Some []"] parent_dir_def)
next
  case (snoc x xs)
  have "Some (xs @ [x]) \<noteq> Some xs" by simp
  note ih = snoc.IH [OF this]
  from snoc.prems show ?case
    by (subst find_dotenv_from.simps) (simp add: ih parent_dir_def)
qed

lemma foldl_set_env:
  "distinct (map fst xs) \<Longrightarrow>
   foldl (\<lambda>e (k, v). if e k \<noteq> None then e else (case v of None \<Rightarrow> e | Some s \<Rightarrow> e(k \<mapsto> s))) e0 xs k =
   (case e0 k of Some v \<Rightarrow> Some v | None \<Rightarrow> (case map_of xs k of Some (Some s) \<Rightarrow> Some s | _ \<Rightarrow> None))"
proof (induction xs arbitrary: e0)
  case Nil
  then show ?case by (simp split: option.split)
next
  case (Cons kv xs)
  obtain k' v where kv: "kv = (k', v)" by fastforce
  with Cons.prems have "map_of xs k' = None" "distinct (map fst xs)" by (auto simp: map_of_eq_None_iff)
  with Cons.IH kv show ?case
    by (cases "k = k'") (simp_all split: option.split)
qed

lemma set_env_entries_apply:
  "set_env_entries entries env k =
     (case env k of Some v \<Rightarrow> Some v | None \<Rightarrow> (case map_of (rev entries) k of Some (Some s) \<Rightarrow> Some s | _ \<Rightarrow> None))"
  by (simp only: set_env_entries_def foldl_set_env [OF distinct_alist_of_pairs] map_of_alist_of_pairs)

lemma load_dotenv_found:
  "find (\<lambda>d. fs d \<noteq> None) (rev (prefixes app_dir)) = Some d \<Longrightarrow> fs d = Some entries \<Longrightarrow>
   load_dotenv fs app_dir env = set_env_entries entries env"
  by (simp add: load_dotenv_def find_dotenv_from_prefixes)

lemma load_dotenv_none:
  "find (\<lambda>d. fs d \<noteq> None) (rev (prefixes app_dir)) = None \<Longrightarrow> load_dotenv fs app_dir env = env"
  by (simp add: load_dotenv_def find_dotenv_from_prefixes)

section \<open>Lemmas\<close>

lemma init_llm_Inr:
  "init_llm env = Inr llm \<longleftrightarrow>
     llm = \<lparr>llm_model = ''deepseek-chat'', llm_api_key = llm_api_key llm, llm_base_url = ''https://api.deepseek.com''\<rparr>
     \<and> (if api_key_configured (env ''DEEPSEEK_API_KEY'') then env ''DEEPSEEK_API_KEY'' = Some (llm_api_key llm)
        else env ''OPENAI_API_KEY'' = Some (llm_api_key llm))"
  by (auto simp: init_llm_def openai_client_key_def secret_key_def api_key_configured_def res_bind_eq_Inr
      split: option.splits if_splits)

lemma import_app_Inr:
  "import_app fs d e0 = Inr (env, llm) \<longleftrightarrow> env = load_dotenv fs d e0 \<and> init_llm env = Inr llm"
  by (auto simp: import_app_def res_bind_eq_Inr Let_def)

lemma run_app_Inr:
  "run_app fs d e0 so = (Inr srv, tr) \<Longrightarrow>
   import_app fs d e0 = Inr (srv_env srv, srv_llm srv) \<and> main so (srv_env srv) = (Inr (srv_port srv), tr)"
  by (auto simp: run_app_def res_bind_eq_Inr split: sum.splits prod.splits)

lemma run_app_init:
  "run_app fs d e0 so = (Inr srv, tr) \<Longrightarrow> init_llm (srv_env srv) = Inr (srv_llm srv)"
  using run_app_Inr [of fs d e0 so srv tr] by (auto simp: import_app_Inr)

text \<open>
  C25: in a process started with \<open>python app.py\<close>, every provider call the chat
  handler makes goes out through the client built at import, and that client holds the
  non-empty value of \<open>DEEPSEEK_API_KEY\<close>, the variable the handler checked.
\<close>

theorem served_provider_key:
  assumes "run_app fs d e0 so = (Inr srv, tr)"
    and "Invoke_provider cm \<in> set (snd (chat (served_env (srv_env srv) out call (srv_llm srv)) req))"
  shows "srv_env srv ''DEEPSEEK_API_KEY'' = Some (llm_api_key (srv_llm srv)) \<and> llm_api_key (srv_llm srv) \<noteq> []"
proof -
  have "api_key_configured (srv_env srv ''DEEPSEEK_API_KEY'')"
    using chat_invoke_configured [OF assms(2)] by (simp add: served_env_def)
  moreover have "init_llm (srv_env srv) = Inr (srv_llm srv)"
    using assms(1) by (rule run_app_init)
  ultimately show ?thesis by (auto simp: init_llm_Inr api_key_configured_def)
qed

text \<open>
  C26: in a started process, the handler's no-key branch (line 137) runs only when the
  client was built from \<open>OPENAI_API_KEY\<close>: without a DeepSeek key and without that
  variable the import raises and no request is ever served.
\<close>

theorem served_fallback_needs_openai_key:
  assumes "run_app fs d e0 so = (Inr srv, tr)"
    and "\<not> api_key_configured (api_key (served_env (srv_env srv) out call (srv_llm srv)))"
  shows "srv_env srv ''OPENAI_API_KEY'' = Some (llm_api_key (srv_llm srv))"
proof -
  have "init_llm (srv_env srv) = Inr (srv_llm srv)"
    using assms(1) by (rule run_app_init)
  with assms(2) show ?thesis by (simp add: init_llm_Inr served_env_def)
qed

text \<open>
  C27: importing the module raises \<open>OpenAIError\<close> exactly when, after
  \<open>load_dotenv()\<close>, \<open>DEEPSEEK_API_KEY\<close> is unset or empty and \<open>OPENAI_API_KEY\<close>
  is unset.
\<close>

theorem import_app_error_iff:
  "import_app fs d e0 = Inl OpenAIError \<longleftrightarrow>
     (let env = load_dotenv fs d e0
      in \<not> api_key_configured (env ''DEEPSEEK_API_KEY'') \<and> env ''OPENAI_API_KEY'' = None)"
  by (auto simp: import_app_def init_llm_def openai_client_key_def secret_key_def api_key_configured_def
      Let_def split: option.splits if_splits)

text \<open>
  C28: the search for \<open>.env\<close> terminates on every directory and returns the nearest
  directory, from the start directory up to the root, that holds one.
\<close>

theorem find_dotenv_nearest:
  "find_dotenv_from has_env None d = Some (find has_env (rev (prefixes d)))"
  by (simp add: find_dotenv_from_prefixes)

text \<open>
  C29: \<open>load_dotenv()\<close> reads the nearest \<open>.env\<close>; a variable already set keeps
  its value, and otherwise it takes the value of its last line in the file, a line
  without a value setting nothing.
\<close>

theorem load_dotenv_entries:
  assumes "find (\<lambda>d. fs d \<noteq> None) (rev (prefixes app_dir)) = Some d" and "fs d = Some entries"
  shows "load_dotenv fs app_dir env k =
     (case env k of Some v \<Rightarrow> Some v | None \<Rightarrow> (case map_of (rev entries) k of Some (Some s) \<Rightarrow> Some s | _ \<Rightarrow> None))"
  using assms by (simp add: load_dotenv_found set_env_entries_apply)

text \<open>
  C30: with \<open>PORT\<close> set to the decimal form of a port number, \<open>python app.py\<close>
  prints the two start-up lines, on an output that can encode them, and serves on that
  port.
\<close>

theorem main_port_str:
  assumes "0 \<le> p" and "p \<le> 65535" and "so (Print_server_running p)" and "so (Print_chat_api p)"
  shows "main so (env(''PORT'' \<mapsto> py_int_str p)) = (Inr p, [Print_server_running p, Print_chat_api p])"
proof -
  have "nat p < 10 ^ 5" using assms(2) by simp
  then have "length (dec_digits (nat p)) \<le> 4300"
    using length_dec_digits_bound [of "nat p" 5] by simp
  with assms show ?thesis
    by (simp add: main_def main_port_def app_run_def py_int_str_def py_int_dec_digits)
qed

text \<open>
  C31: the \<open>__main__\<close> block either serves on a port in 0--65535 or stops with
  \<open>ValueError\<close> (\<open>PORT\<close> is not an integer), \<open>OverflowError\<close> (it is out of
  range) or \<open>UnicodeEncodeError\<close> (a start-up line the output cannot print).
\<close>

theorem main_outcome:
  "fst (main so env) \<in> {Inl ValueError, Inl OverflowError, Inl UnicodeEncodeError} \<union> Inr ` {0..65535}"
  by (auto simp: main_def main_port_def app_run_def dest: py_int_error split: sum.split option.split)

subsection \<open>Witnesses\<close>

theorem served_provider_key_witness:
  "Some ''k'' = Some (llm_api_key \<lparr>llm_model = ''deepseek-chat'', llm_api_key = ''k'',
     llm_base_url = ''https://api.deepseek.com''\<rparr>) \<and> ''k'' \<noteq> []"
proof -
  let ?e0 = "Map.empty(''DEEPSEEK_API_KEY'' \<mapsto> ''k'')"
  let ?llm = "\<lparr>llm_model = ''deepseek-chat'', llm_api_key = ''k'', llm_base_url = ''https://api.deepseek.com''\<rparr>"
  let ?srv = "\<lparr>srv_env = ?e0, srv_llm = ?llm, srv_port = 3001\<rparr>"
  let ?r = "\<lparr>req_messages = [(''user'', ''hi'')], req_page = None\<rparr>"
  have run: "run_app (\<lambda>_. None) [] ?e0 (\<lambda>_. True) = (Inr ?srv, [Print_server_running 3001, Print_chat_api 3001])"
    by (simp add: run_app_def import_app_def load_dotenv_none init_llm_def openai_client_key_def
        secret_key_def main_def main_port_def app_run_def)
  have inv: "Invoke_provider (expected_prompt ?r) \<in>
      set (snd (chat (served_env (srv_env ?srv) (\<lambda>_. True) (\<lambda>_ _. Inr ''ok'') (srv_llm ?srv)) (Json_body (encode_request ?r))))"
    by (simp add: served_env_def chat_encoded api_key_configured_def)
  show ?thesis using served_provider_key [OF run inv] by simp
qed

theorem served_fallback_needs_openai_key_witness:
  "Some ''sk'' = Some (llm_api_key \<lparr>llm_model = ''deepseek-chat'', llm_api_key = ''sk'',
     llm_base_url = ''https://api.deepseek.com''\<rparr>)"
proof -
  let ?e0 = "Map.empty(''DEEPSEEK_API_KEY'' \<mapsto> [], ''OPENAI_API_KEY'' \<mapsto> ''sk'')"
  let ?llm = "\<lparr>llm_model = ''deepseek-chat'', llm_api_key = ''sk'', llm_base_url = ''https://api.deepseek.com''\<rparr>"
  let ?srv = "\<lparr>srv_env = ?e0, srv_llm = ?llm, srv_port = 3001\<rparr>"
  have run: "run_app (\<lambda>_. None) [] ?e0 (\<lambda>_. True) = (Inr ?srv, [Print_server_running 3001, Print_chat_api 3001])"
    by (simp add: run_app_def import_app_def load_dotenv_none init_llm_def openai_client_key_def
        secret_key_def main_def main_port_def app_run_def)
  have "\<not> api_key_configured (api_key (served_env (srv_env ?srv) (\<lambda>_. True) (\<lambda>_ _. Inr ''ok'') (srv_llm ?srv)))"
    by (simp add: served_env_def api_key_configured_def)
  from served_fallback_needs_openai_key [OF run this] show ?thesis by simp
qed

theorem load_dotenv_entries_witness:
  "load_dotenv (\<lambda>d. if d = [''app''] then Some [(''PORT'', Some ''80''), (''PORT'', Some ''81''), (''X'', None)] else None)
     [''app'', ''src''] Map.empty ''PORT'' = Some ''81''"
  using load_dotenv_entries [of "\<lambda>d. if d = [''app''] then Some [(''PORT'', Some ''80''), (''PORT'', Some ''81''), (''X'', None)] else None"
      "[''app'', ''src'']" "[''app'']" "[(''PORT'', Some ''80''), (''PORT'', Some ''81''), (''X'', None)]" Map.empty "''PORT''"]
  by simp

theorem main_port_str_witness:
  "main (\<lambda>_. True) (Map.empty(''PORT'' \<mapsto> py_int_str 8080)) = (Inr 8080, [Print_server_running 8080, Print_chat_api 8080])"
  using main_port_str [of 8080 "\<lambda>_. True" Map.empty] by simp

end
