(* ===== verification/App.thy ===== *)
theory App
  imports Handler
begin

text \<open>
  The web layer of \<open>src/app.py\<close> around the chat handler: the URL map the three
  \<open>@app.route\<close> decorators build (lines 115--123), Flask's dispatch of a request
  to a view (404 for an unknown path, 405 for a method the rule does not allow,
  the automatic \<open>HEAD\<close> of a \<open>GET\<close> rule and the automatic \<open>OPTIONS\<close> answer),
  the two page views (\<open>render_template\<close>, lines 115--121) and the JSON bodies
  \<open>jsonify\<close> writes for the handler's replies (lines 131, 140--145, 169--173,
  182--187).  The interface the spec gives for these bodies is a JSON type, and
  \<open>has_type\<close> is the typing judgment of JSON values, with the executable checker
  \<open>type_check\<close> proved equivalent to it.
\<close>

section \<open>JSON types\<close>

text \<open>
  A JSON type: the four scalar types, a choice among literal values (\<open>TEnum\<close>, the
  spec's \<open>"user" | "assistant"\<close> or a constant such as \<open>success: true\<close>), arrays, and
  objects given by their fields (name, type, required).  An object may carry keys
  its type does not name, and its own keys are distinct.
\<close>

datatype jtype =
    TNull | TBool | TInt | TStr
  | TEnum "json list"
  | TArr jtype
  | TObj "(string \<times> jtype \<times> bool) list"

inductive has_type :: "json \<Rightarrow> jtype \<Rightarrow> bool" where
  ty_null: "has_type JNull TNull"
| ty_bool: "has_type (JBool b) TBool"
| ty_int: "has_type (JNum i) TInt"
| ty_str: "has_type (JStr s) TStr"
| ty_enum: "v \<in> set vs \<Longrightarrow> has_type v (TEnum vs)"
| ty_arr: "(\<forall>v\<in>set vs. has_type v t) \<Longrightarrow> has_type (JArr vs) (TArr t)"
| ty_obj: "distinct (map fst fs) \<Longrightarrow>
    (\<forall>kv\<in>set fs. \<forall>f\<in>set fts. fst f = fst kv \<longrightarrow> has_type (snd kv) (fst (snd f))) \<Longrightarrow>
    (\<forall>f\<in>set fts. snd (snd f) \<longrightarrow> fst f \<in> fst ` set fs) \<Longrightarrow>
    has_type (JObj fs) (TObj fts)"

fun type_check :: "jtype \<Rightarrow> json \<Rightarrow> bool"
  and fields_check :: "(string \<times> jtype \<times> bool) list \<Rightarrow> string \<Rightarrow> json \<Rightarrow> bool" where
  "type_check TNull v = (v = JNull)"
| "type_check TBool v = (case v of JBool _ \<Rightarrow> True | _ \<Rightarrow> False)"
| "type_check TInt v = (case v of JNum _ \<Rightarrow> True | _ \<Rightarrow> False)"
| "type_check TStr v = (case v of JStr _ \<Rightarrow> True | _ \<Rightarrow> False)"
| "type_check (TEnum vs) v = (v \<in> set vs)"
| "type_check (TArr t) v = (case v of JArr vs \<Rightarrow> list_all (\<lambda>x. type_check t x) vs | _ \<Rightarrow> False)"
| "type_check (TObj fts) v =
     (case v of
        JObj fs \<Rightarrow> distinct (map fst fs) \<and> list_all (\<lambda>kv. fields_check fts (fst kv) (snd kv)) fs
                   \<and> list_all (\<lambda>f. snd (snd f) \<longrightarrow> fst f \<in> set (map fst fs)) fts
      | _ \<Rightarrow> False)"
| "fields_check [] k x = True"
| "fields_check ((k', t, r) # fts) k x = ((k' = k \<longrightarrow> type_check t x) \<and> fields_check fts k x)"

section \<open>The bodies \<open>jsonify\<close> writes\<close>

text \<open>
  \<open>jsonify\<close> serialises with Flask's default \<open>sort_keys = True\<close>, so the keys of a
  reply appear in alphabetical order: \<open>fallback\<close> (when present), \<open>message\<close>,
  \<open>success\<close>, \<open>timestamp\<close>.  A response Flask produces for an uncaught exception is
  an HTML error page, not JSON.
\<close>

definition reply_json :: "reply \<Rightarrow> json" where
  "reply_json r =
     JObj ((case fallback r of Some b \<Rightarrow> [(''fallback'', JBool b)] | None \<Rightarrow> []) @
           [(''message'', JStr (message r)), (''success'', JBool (success r)),
            (''timestamp'', JStr (timestamp r))])"

definition response_json :: "http_response \<Rightarrow> json option" where
  "response_json resp =
     (case resp of
        Ok_200 r \<Rightarrow> Some (reply_json r)
      | Bad_request_400 m \<Rightarrow> Some (JObj [(''error'', JStr m)])
      | Error_response _ _ \<Rightarrow> None)"

text \<open>The spec's types of the two JSON bodies (section 6 of the spec).\<close>

definition chat_reply_type :: jtype where
  "chat_reply_type = TObj [(''success'', TEnum [JBool True], True), (''message'', TStr, True),
     (''timestamp'', TStr, True), (''fallback'', TEnum [JBool True], False)]"

definition error_body_type :: jtype where
  "error_body_type = TObj [(''error'', TEnum [JStr ''Messages are required''], True)]"

text \<open>The request body: \<open>{messages: [{role, content}, ...], context?: {currentPage?: string}}\<close>.\<close>

definition chat_turn_type :: jtype where
  "chat_turn_type = TObj [(''role'', TEnum [JStr ''user'', JStr ''assistant''], True), (''content'', TStr, True)]"

definition chat_context_type :: jtype where
  "chat_context_type = TObj [(''currentPage'', TStr, False)]"

definition chat_request_type :: jtype where
  "chat_request_type = TObj [(''messages'', TArr chat_turn_type, True), (''context'', chat_context_type, False)]"

section \<open>Routing\<close>

datatype http_method = GET | HEAD | POST | PUT | DELETE | PATCH | OPTIONS

datatype endpoint = Index_page | Demo_page | Chat_api

text \<open>
  The rules of \<open>app.url_map\<close> in registration order, with the methods each
  decorator names (\<open>GET\<close> by default).  Paths are compared as Werkzeug compares
  them after merging repeated slashes (a path with repeated slashes is redirected
  before it reaches a rule); a path with a trailing slash does not match these rules.
\<close>

definition url_map :: "(string \<times> endpoint \<times> http_method list) list" where
  "url_map = [(''/'', Index_page, [GET]), (''/demo'', Demo_page, [GET]), (''/api/v1/chat'', Chat_api, [POST])]"

text \<open>
  The methods a rule answers: Werkzeug adds \<open>HEAD\<close> to a rule with \<open>GET\<close>, and
  \<open>add_url_rule\<close> adds \<open>OPTIONS\<close>, answered by Flask itself, when the view does not
  name it.
\<close>

definition rule_methods :: "http_method list \<Rightarrow> http_method list" where
  "rule_methods ms =
     ms @ (if GET \<in> set ms \<and> HEAD \<notin> set ms then [HEAD] else [])
        @ (if OPTIONS \<in> set ms then [] else [OPTIONS])"

type_synonym template_store = "string \<Rightarrow> string option"

text \<open>\<open>render_template(name)\<close>: the rendered page, or \<open>TemplateNotFound\<close>.\<close>

definition render_template :: "template_store \<Rightarrow> string \<Rightarrow> string py" where
  "render_template tpl name = (case tpl name of Some html \<Rightarrow> Inr html | None \<Rightarrow> Inl (TemplateNotFound name))"

record http_request =
  rq_method :: http_method
  rq_path :: string
  rq_body :: request_body

datatype app_response =
    Http http_response
  | Page_200 string
  | Options_200 "http_method list"
  | Not_found_404
  | Method_not_allowed_405 "http_method list"

definition page_view :: "template_store \<Rightarrow> string \<Rightarrow> app_response" where
  "page_view tpl name =
     (case render_template tpl name of Inr html \<Rightarrow> Page_200 html | Inl e \<Rightarrow> Http (flask_uncaught e))"

text \<open>
  \<open>Flask.dispatch_request\<close> after \<open>url_map\<close> matching: the response and the
  effects of the view.  A \<open>HEAD\<close> request runs the \<open>GET\<close> view (the body is dropped
  on the wire).
\<close>

definition dispatch :: "template_store \<Rightarrow> chat_env \<Rightarrow> http_request \<Rightarrow> app_response \<times> event list" where
  "dispatch tpl env rq =
     (case map_of url_map (rq_path rq) of
        None \<Rightarrow> (Not_found_404, [])
      | Some (ep, ms) \<Rightarrow>
          (let allowed = rule_methods ms in
           if rq_method rq \<notin> set allowed then (Method_not_allowed_405 allowed, [])
           else if rq_method rq = OPTIONS \<and> OPTIONS \<notin> set ms then (Options_200 allowed, [])
           else (case ep of
                   Index_page \<Rightarrow> (page_view tpl ''index.html'', [])
                 | Demo_page \<Rightarrow> (page_view tpl ''demo.html'', [])
                 | Chat_api \<Rightarrow> (let (resp, tr) = chat env (rq_body rq) in (Http resp, tr)))))"

section \<open>Lemmas\<close>

inductive_cases has_type_TObjE: "has_type v (TObj fts)"
inductive_cases has_type_TArrE: "has_type v (TArr t)"
inductive_cases has_type_TEnumE: "has_type v (TEnum vs)"
inductive_cases has_type_TStrE: "has_type v TStr"
inductive_simps has_type_JObj_TObj: "has_type (JObj fs) (TObj fts)"

lemma fields_check_iff:
  "fields_check fts k x \<longleftrightarrow> (\<forall>f\<in>set fts. fst f = k \<longrightarrow> type_check (fst (snd f)) x)"
  by (induction fts) auto

lemma has_type_type_check: "has_type v t \<Longrightarrow> type_check t v"
proof (induction rule: has_type.induct)
  case (ty_arr vs t)
  then show ?case by (simp add: list_all_iff)
next
  case (ty_obj fs fts)
  then show ?case by (fastforce simp: list_all_iff fields_check_iff)
qed simp_all

lemma type_check_has_type: "type_check t v \<Longrightarrow> has_type v t"
proof (induction t arbitrary: v)
  case (TArr t)
  then show ?case by (auto intro!: has_type.intros simp: list_all_iff split: json.splits)
next
  case (TObj fts)
  from TObj.prems obtain fs where v: "v = JObj fs" by (cases v) auto
  show ?case unfolding v
  proof (rule ty_obj)
    show "distinct (map fst fs)" using TObj.prems v by simp
    show "\<forall>f\<in>set fts. snd (snd f) \<longrightarrow> fst f \<in> fst ` set fs" using TObj.prems v by (auto simp: list_all_iff)
    show "\<forall>kv\<in>set fs. \<forall>f\<in>set fts. fst f = fst kv \<longrightarrow> has_type (snd kv) (fst (snd f))"
    proof (intro ballI impI)
      fix kv f assume kv: "kv \<in> set fs" and f: "f \<in> set fts" and k: "fst f = fst kv"
      from TObj.prems v kv have "fields_check fts (fst kv) (snd kv)" by (simp add: list_all_iff)
      with f k have tc: "type_check (fst (snd f)) (snd kv)" by (simp add: fields_check_iff)
      obtain n t r where fe: "f = (n, t, r)" by (cases f) auto
      have "t \<in> Basic_BNFs.fsts (t, r)" by simp
      with f fe TObj.IH [of f "(t, r)" t] tc show "has_type (snd kv) (fst (snd f))" by auto
    qed
  qed
qed (auto intro: has_type.intros split: json.splits)

lemma has_type_iff: "has_type v t \<longleftrightarrow> type_check t v"
  using has_type_type_check type_check_has_type by blast

lemma chat_json_responses:
  "(fst (chat env req) = Ok_200 rep \<longrightarrow> (\<exists>s. rep = fallback_reply s) \<or> (\<exists>c. rep = llm_reply c)) \<and>
   (fst (chat env req) = Bad_request_400 m \<longrightarrow> m = ''Messages are required'')"
proof -
  obtain res tr where ct: "chat_try env req = (res, tr)" by fastforce
  show ?thesis
  proof (cases res)
    case (Inl e)
    with ct show ?thesis
      by (auto simp: chat_def py_print_def flask_uncaught_def dest!: chat_except_Inr
          split: sum.splits exc.splits if_splits)
  next
    case (Inr resp)
    with ct have r: "fst (chat env req) = resp" by (simp add: chat_def)
    from ct show ?thesis
    proof (cases rule: chat_try_cases)
      case early with Inr r show ?thesis by simp
    next
      case (nokey u) with Inr r show ?thesis by (auto dest!: get_fallback_reply_Inr)
    next
      case (failed n cm e ctx msgs) with Inr show ?thesis by simp
    next
      case (answered n cm c ctx msgs) with Inr r show ?thesis by auto
    next
      case (unlogged n cm c ctx msgs) with Inr show ?thesis by simp
    qed
  qed
qed

lemma has_type_field_required:
  assumes "has_type (JObj fs) (TObj fts)" and "(k, t, True) \<in> set fts"
  shows "\<exists>v. map_of fs k = Some v \<and> has_type v t"
proof -
  note h = assms(1) [unfolded has_type_JObj_TObj]
  from h have req: "\<forall>f\<in>set fts. snd (snd f) \<longrightarrow> fst f \<in> fst ` set fs" by blast
  from bspec [OF req assms(2)] have "k \<in> fst ` set fs" by simp
  then obtain v where kv: "(k, v) \<in> set fs" by auto
  from h have all: "\<forall>kv\<in>set fs. \<forall>f\<in>set fts. fst f = fst kv \<longrightarrow> has_type (snd kv) (fst (snd f))" by blast
  from bspec [OF bspec [OF all kv] assms(2)] have "has_type v t" by simp
  moreover from h kv have "map_of fs k = Some v" by (intro map_of_is_SomeI) simp_all
  ultimately show ?thesis by blast
qed

lemma has_type_field:
  assumes "has_type (JObj fs) (TObj fts)" and "(k, t, r) \<in> set fts" and "map_of fs k = Some v"
  shows "has_type v t"
proof -
  from assms(1) have all: "\<forall>kv\<in>set fs. \<forall>f\<in>set fts. fst f = fst kv \<longrightarrow> has_type (snd kv) (fst (snd f))"
    unfolding has_type_JObj_TObj by blast
  from assms(3) have kv: "(k, v) \<in> set fs" by (rule map_of_SomeD)
  from bspec [OF bspec [OF all kv] assms(2)] show ?thesis by simp
qed

lemma has_type_JObj_distinct: "has_type (JObj fs) (TObj fts) \<Longrightarrow> distinct (map fst fs)"
  unfolding has_type_JObj_TObj by blast

lemma decode_json_obj_distinct:
  "distinct (map fst fs) \<Longrightarrow> decode_json (JObj fs) = PDict (map (\<lambda>(k, v). (k, decode_json v)) fs)"
  by (simp add: alist_of_pairs_distinct case_prod_beta comp_def)

lemma map_of_decoded: "map_of (map (\<lambda>(k, v). (k, decode_json v)) fs) k = map_option decode_json (map_of fs k)"
  by (simp add: map_of_map)

lemma reply_json_typed:
  "has_type (reply_json (fallback_reply s)) chat_reply_type"
  "has_type (reply_json (llm_reply c)) chat_reply_type"
  by (simp_all add: has_type_iff reply_json_def fallback_reply_def llm_reply_def chat_reply_type_def)

lemma dispatch_effects:
  "snd (dispatch tpl env rq) \<noteq> [] \<Longrightarrow>
   rq_method rq = POST \<and> rq_path rq = ''/api/v1/chat'' \<and>
   snd (dispatch tpl env rq) = snd (chat env (rq_body rq))"
  by (auto simp: dispatch_def url_map_def rule_methods_def Let_def split: if_splits prod.splits endpoint.splits)

text \<open>
  C32: every JSON body the chat handler writes has the spec's type for its status: a 200
  body is a \<open>ChatReply\<close> with \<open>success\<close> true and \<open>fallback\<close> absent or true, a
  400 body is \<open>{"error": "Messages are required"}\<close>.
\<close>

theorem chat_bodies_typed:
  assumes "response_json (fst (chat env req)) = Some b"
  shows "(status_code (fst (chat env req)) = 200 \<and> has_type b chat_reply_type) \<or>
         (status_code (fst (chat env req)) = 400 \<and> has_type b error_body_type)"
proof (cases "fst (chat env req)")
  case (Ok_200 rep)
  with assms chat_json_responses [of env req rep] show ?thesis
    by (auto simp: response_json_def status_code_def reply_json_typed)
next
  case (Bad_request_400 m)
  with assms chat_json_responses [of env req _ m] show ?thesis
    by (auto simp: response_json_def status_code_def has_type_iff error_body_type_def)
next
  case (Error_response c e)
  with assms show ?thesis by (simp add: response_json_def)
qed

text \<open>
  C33: the provider is reached only through \<open>POST /api/v1/chat\<close>: a request whose
  dispatch calls it has that method and path and runs with a key configured; no other
  route has any effect.
\<close>

theorem dispatch_invoke_only_chat:
  assumes "Invoke_provider cm \<in> set (snd (dispatch tpl env rq))"
  shows "rq_method rq = POST \<and> rq_path rq = ''/api/v1/chat'' \<and> api_key_configured (api_key env)"
proof -
  from assms have "snd (dispatch tpl env rq) \<noteq> []" by auto
  note d = dispatch_effects [OF this]
  with assms have "Invoke_provider cm \<in> set (snd (chat env (rq_body rq)))" by simp
  with d show ?thesis by (simp add: chat_invoke_configured)
qed

text \<open>
  C34: the chat endpoint accepts \<open>POST\<close> only: any other method but \<open>OPTIONS\<close> gets
  405 with \<open>POST, OPTIONS\<close> allowed, and the handler does not run.
\<close>

theorem dispatch_chat_405:
  assumes "rq_path rq = ''/api/v1/chat''" and "rq_method rq \<noteq> POST" and "rq_method rq \<noteq> OPTIONS"
  shows "dispatch tpl env rq = (Method_not_allowed_405 [POST, OPTIONS], [])"
  using assms by (simp add: dispatch_def url_map_def rule_methods_def)

text \<open>
  C35: the page routes: \<open>GET\<close> or \<open>HEAD\<close> on \<open>/\<close> or \<open>/demo\<close> renders
  \<open>index.html\<close> or \<open>demo.html\<close>, and answers 500 when the template is missing; a
  path that is not one of the three rules gets 404.
\<close>

theorem dispatch_pages:
  assumes "rq_method rq \<in> {GET, HEAD}"
  shows "dispatch tpl env (rq\<lparr>rq_path := ''/''\<rparr>) =
           ((case tpl ''index.html'' of Some h \<Rightarrow> Page_200 h
             | None \<Rightarrow> Http (Error_response 500 (TemplateNotFound ''index.html''))), [])
       \<and> dispatch tpl env (rq\<lparr>rq_path := ''/demo''\<rparr>) =
           ((case tpl ''demo.html'' of Some h \<Rightarrow> Page_200 h
             | None \<Rightarrow> Http (Error_response 500 (TemplateNotFound ''demo.html''))), [])
       \<and> (rq_path rq \<notin> {''/'', ''/demo'', ''/api/v1/chat''} \<longrightarrow> dispatch tpl env rq = (Not_found_404, []))"
  using assms
  by (auto simp: dispatch_def url_map_def rule_methods_def page_view_def render_template_def
      flask_uncaught_def split: option.split)

subsection \<open>Witnesses\<close>

theorem chat_bodies_typed_witness:
  "has_type (reply_json (fallback_reply (fallback_message []))) chat_reply_type"
proof -
  let ?env = "\<lparr>stdout = (\<lambda>_. True), api_key = None, provider = (\<lambda>_. Inr ''ok'')\<rparr>"
  let ?req = "Json_body (JObj [(''messages'', JArr [JObj [(''role'', JStr ''user''), (''content'', JStr [])]])])"
  have c: "fst (chat ?env ?req) = Ok_200 (fallback_reply (fallback_message []))"
    using chat_encoded [of ?env "\<lparr>req_messages = [(''user'', [])], req_page = None\<rparr>"]
    by (simp add: encode_request_def encode_message_def encode_context_def api_key_configured_def)
  have "response_json (fst (chat ?env ?req)) = Some (reply_json (fallback_reply (fallback_message [])))"
    by (simp only: c response_json_def sum.case http_response.case)
  from chat_bodies_typed [OF this] show ?thesis by (simp add: c status_code_def)
qed

theorem dispatch_invoke_only_chat_witness:
  "POST = POST \<and> ''/api/v1/chat'' = ''/api/v1/chat'' \<and> api_key_configured (Some ''k'')"
proof -
  let ?env = "\<lparr>stdout = (\<lambda>_. True), api_key = Some ''k'', provider = (\<lambda>_. Inr ''ok'')\<rparr>"
  let ?r = "\<lparr>req_messages = [(''user'', ''hi'')], req_page = None\<rparr>"
  let ?rq = "\<lparr>rq_method = POST, rq_path = ''/api/v1/chat'', rq_body = Json_body (encode_request ?r)\<rparr>"
  have "Invoke_provider (expected_prompt ?r) \<in> set (snd (dispatch (\<lambda>_. None) ?env ?rq))"
    by (simp add: dispatch_def url_map_def rule_methods_def chat_encoded api_key_configured_def)
  from dispatch_invoke_only_chat [OF this] show ?thesis by simp
qed

theorem dispatch_chat_405_witness:
  "dispatch (\<lambda>_. None) \<lparr>stdout = (\<lambda>_. True), api_key = None, provider = (\<lambda>_. Inr ''ok'')\<rparr>
     \<lparr>rq_method = GET, rq_path = ''/api/v1/chat'', rq_body = Not_json_content\<rparr>
   = (Method_not_allowed_405 [POST, OPTIONS], [])"
  by (rule dispatch_chat_405) simp_all

theorem dispatch_pages_witness:
  "dispatch (\<lambda>_. None) \<lparr>stdout = (\<lambda>_. True), api_key = None, provider = (\<lambda>_. Inr ''ok'')\<rparr>
     \<lparr>rq_method = GET, rq_path = ''/'', rq_body = Not_json_content\<rparr>
   = (Http (Error_response 500 (TemplateNotFound ''index.html'')), [])"
  using dispatch_pages [of "\<lparr>rq_method = GET, rq_path = ''/'', rq_body = Not_json_content\<rparr>" "\<lambda>_. None"
      "\<lparr>stdout = (\<lambda>_. True), api_key = None, provider = (\<lambda>_. Inr ''ok'')\<rparr>"]
  by simp

end
