(* ===== verification/Cors.thy ===== *)
theory Cors
  imports App "HOL-Library.Char_ord" "HOL-Library.List_Lexorder"
begin

text \<open>
  The application object of \<open>src/app.py\<close> (lines 11--12): \<open>app = Flask(__name__)\<close>
  dispatches through the URL map of \<open>App\<close>, and \<open>CORS(app)\<close> (flask-cors, 5.x and
  6.x) registers an \<open>after_request\<close> hook and wraps Flask's exception handlers so
  that every response Flask produces, error responses included, gets the CORS
  headers of the default options (a response of Werkzeug's debugger gets none): the resource pattern \<open>r'/*'\<close> (every path), origins \<open>'*'\<close>
  (kept as the regular expression \<open>'.*'\<close>), all seven methods, allowed headers
  \<open>'*'\<close>, no credentials, \<open>send_wildcard=False\<close>, \<open>always_send=True\<close>,
  \<open>vary_header=True\<close>, \<open>allow_private_network=False\<close>.  The definitions below are
  the functions of \<open>flask_cors.core\<close> (\<open>get_cors_origins\<close>, \<open>get_allow_headers\<close>,
  \<open>get_cors_headers\<close>) with those options, over the request headers as Werkzeug
  presents them (Latin-1 decoded values, looked up by header name).
\<close>

section \<open>String operations of the header code\<close>

text \<open>
  \<open>str.strip\<close> is \<open>py_strip\<close> of \<open>PyValue\<close>; \<open>s.split(c)\<close> for a one-character
  separator gives the pieces between separators.
\<close>

fun py_split :: "char \<Rightarrow> string \<Rightarrow> string list" where
  "py_split c [] = [[]]"
| "py_split c (x # xs) =
     (let ps = py_split c xs in if x = c then [] # ps else (x # hd ps) # tl ps)"

text \<open>
  \<open>str.upper\<close> on a Latin-1 string, as the code points of the result: a--z and
  U+00E0--U+00FE except U+00F7 move 32 down, U+00DF becomes \<open>SS\<close>, U+00B5 and
  U+00FF become U+039C and U+0178, which are not Latin-1.
\<close>

definition py_upper_char :: "char \<Rightarrow> nat list" where
  "py_upper_char c =
     (let n = (of_char c :: nat) in
      if (97 \<le> n \<and> n \<le> 122) \<or> (224 \<le> n \<and> n \<le> 254 \<and> n \<noteq> 247) then [n - 32]
      else if n = 223 then [83, 83]
      else if n = 181 then [924]
      else if n = 255 then [376]
      else [n])"

definition py_upper :: "string \<Rightarrow> nat list" where
  "py_upper s = concat (map py_upper_char s)"

section \<open>The CORS headers\<close>

type_synonym headers = "string \<Rightarrow> string option"

text \<open>
  \<open>ALL_METHODS\<close> serialised by \<open>serialize_option(options, 'methods', upper=True)\<close>:
  sorted, joined with \<open>", "\<close>, upper-cased.  The option is this one string.
\<close>

definition cors_methods :: string where
  "cors_methods = py_join '', '' (sort [''GET'', ''HEAD'', ''POST'', ''OPTIONS'', ''PUT'', ''PATCH'', ''DELETE''])"

text \<open>
  \<open>get_cors_origins\<close>: a non-empty \<open>Origin\<close> matches \<open>'.*'\<close> and is echoed
  (\<open>send_wildcard\<close> is off); without one, \<open>always_send\<close> with the wildcard origin
  and no credentials sends \<open>'*'\<close>.  The list of origins has one element.
\<close>

definition cors_origin :: "string option \<Rightarrow> string" where
  "cors_origin origin = (case origin of Some s \<Rightarrow> if s \<noteq> [] then s else ''*'' | None \<Rightarrow> ''*'')"

text \<open>
  \<open>get_allow_headers\<close>: the requested names split at commas, stripped, all
  matching \<open>'.*'\<close>, sorted and joined; nothing without the request header.
\<close>

definition allow_headers_value :: "string option \<Rightarrow> string option" where
  "allow_headers_value acrh =
     (case acrh of
        Some s \<Rightarrow> if s \<noteq> [] then Some (py_join '', '' (sort (map py_strip (py_split (CHR '','') s)))) else None
      | None \<Rightarrow> None)"

text \<open>
  The preflight test \<open>acl_request_method and acl_request_method in
  options.get('methods')\<close>: \<open>in\<close> on the serialised option is a substring test.
\<close>

definition preflight_method_ok :: "string option \<Rightarrow> bool" where
  "preflight_method_ok acrm =
     (let m = py_upper (case acrm of Some s \<Rightarrow> s | None \<Rightarrow> [])
      in m \<noteq> [] \<and> str_contains m (map of_char cors_methods))"

text \<open>
  \<open>get_cors_headers\<close>: the headers in the order they are put into the
  \<open>MultiDict\<close>, without those whose value is \<open>None\<close> or empty (\<open>if v\<close>):
  \<open>Access-Control-Allow-Origin\<close>, \<open>Access-Control-Expose-Headers\<close> (\<open>None\<close>),
  \<open>Access-Control-Allow-Private-Network\<close> when the request asks with \<open>'true'\<close>,
  for an accepted preflight \<open>Access-Control-Allow-Headers\<close>,
  \<open>Access-Control-Max-Age\<close> (\<open>None\<close>) and \<open>Access-Control-Allow-Methods\<close>, and
  \<open>Vary: Origin\<close> unless the origin sent is \<open>'*'\<close> (the pattern \<open>'.*'\<close> is a regex).
\<close>

definition cors_headers :: "headers \<Rightarrow> http_method \<Rightarrow> (string \<times> string) list" where
  "cors_headers h m =
     (let origin = cors_origin (h ''Origin'');
          pna = (if h ''Access-Control-Request-Private-Network'' = Some ''true''
                 then [(''Access-Control-Allow-Private-Network'', ''false'')] else []);
          pre = (if m = OPTIONS \<and> preflight_method_ok (h ''Access-Control-Request-Method'')
                 then (case allow_headers_value (h ''Access-Control-Request-Headers'') of
                         Some v \<Rightarrow> [(''Access-Control-Allow-Headers'', v)] | None \<Rightarrow> [])
                      @ [(''Access-Control-Allow-Methods'', cors_methods)]
                 else []);
          vary = (if origin = ''*'' then [] else [(''Vary'', ''Origin'')])
      in filter (\<lambda>kv. snd kv \<noteq> []) ([(''Access-Control-Allow-Origin'', origin)] @ pna @ pre @ vary))"

section \<open>The application\<close>

text \<open>
  How Flask reaches a response (\<open>Flask.full_dispatch_request\<close> and
  \<open>Flask.wsgi_app\<close>): the view returns one, or it raises an \<open>HTTPException\<close>
  (routing's 404 and 405, the 400 or 415 of \<open>request.json\<close>), or it raises any
  other exception, which \<open>handle_user_exception\<close> re-raises to \<open>handle_exception\<close>.
\<close>

datatype flask_outcome = View_response | Http_exception | Other_exception

definition outcome_of :: "app_response \<Rightarrow> flask_outcome" where
  "outcome_of resp =
     (case resp of
        Not_found_404 \<Rightarrow> Http_exception
      | Method_not_allowed_405 _ \<Rightarrow> Http_exception
      | Http (Error_response _ e) \<Rightarrow> (case e of HTTPException _ \<Rightarrow> Http_exception | _ \<Rightarrow> Other_exception)
      | _ \<Rightarrow> View_response)"

text \<open>
  The hook \<open>cors_after_request\<close> of \<open>make_after_request_function\<close>: a response whose
  \<open>headers.get('Access-Control-Allow-Origin')\<close> is true (its first such header is
  non-empty) is left alone ("CORS have been already evaluated"); otherwise the
  resource \<open>r'/*'\<close> matches every path and \<open>set_cors_headers\<close> appends the headers
  of \<open>get_cors_headers\<close>.
\<close>

definition cors_after_request :: "headers \<Rightarrow> http_method \<Rightarrow> (string \<times> string) list \<Rightarrow> (string \<times> string) list" where
  "cors_after_request h m hs =
     (case map_of hs ''Access-Control-Allow-Origin'' of
        Some v \<Rightarrow> if v \<noteq> [] then hs else hs @ cors_headers h m
      | None \<Rightarrow> hs @ cors_headers h m)"

text \<open>
  \<open>app.wsgi_app\<close> with the hook of \<open>CORS(app)\<close>, which is registered with
  \<open>app.after_request\<close> and also wraps \<open>handle_user_exception\<close> and
  \<open>handle_exception\<close> (\<open>intercept_exceptions\<close>).  A view's response passes the hook
  once, in \<open>finalize_request\<close>.  For an \<open>HTTPException\<close> the wrapped
  \<open>handle_user_exception\<close> passes the response of \<open>handle_http_exception\<close> to the
  hook, and \<open>finalize_request\<close> passes it again.  Any other exception: with
  \<open>debug=True\<close> (\<open>app.run(..., debug=True)\<close>, line 193) \<open>PROPAGATE_EXCEPTIONS\<close>
  defaults to true, so \<open>handle_exception\<close> re-raises it through its wrapper and
  Werkzeug's debugger (\<open>DebuggedApplication\<close>, installed by \<open>run_simple\<close> with
  \<open>use_debugger\<close>) answers 500 with its traceback page and no CORS header; without
  debug, \<open>handle_exception\<close> finalises the 500 (a first pass of the hook) and its
  wrapper passes the result to the hook again.  The list holds the headers CORS adds
  to a response that has none of its own.
\<close>

definition wsgi_app ::
  "bool \<Rightarrow> template_store \<Rightarrow> chat_env \<Rightarrow> headers \<Rightarrow> http_request \<Rightarrow>
     (app_response \<times> (string \<times> string) list) \<times> event list" where
  "wsgi_app debug tpl env h rq =
     (let (resp, tr) = dispatch tpl env rq;
          after = cors_after_request h (rq_method rq)
      in ((resp, case outcome_of resp of
                   View_response \<Rightarrow> after []
                 | Http_exception \<Rightarrow> after (after [])
                 | Other_exception \<Rightarrow> if debug then [] else after (after [])), tr))"

section \<open>A reference for the preflight test\<close>

text \<open>Upper-casing of ASCII letters, the reading of the method test one would expect.\<close>
definition ascii_upper :: "char \<Rightarrow> char" where
  "ascii_upper c = (if CHR ''a'' \<le> c \<and> c \<le> CHR ''z'' then char_of (of_char c - (32::nat)) else c)"

section \<open>Lemmas\<close>

lemma cors_methods_lit: "cors_methods = ''DELETE, GET, HEAD, OPTIONS, PATCH, POST, PUT''"
  by code_simp

lemma py_upper_Nil_iff [simp]: "py_upper s = [] \<longleftrightarrow> s = []"
  by (induction s) (simp_all add: py_upper_def py_upper_char_def Let_def)

lemma py_upper_append [simp]: "py_upper (s @ t) = py_upper s @ py_upper t"
  by (simp add: py_upper_def)

lemma py_upper_char_ascii:
  "of_char c < (128::nat) \<Longrightarrow> py_upper_char c = [of_char (ascii_upper c)]"
  by (simp add: py_upper_char_def ascii_upper_def Let_def less_eq_char_def)

lemma py_upper_ascii:
  "list_all (\<lambda>c. of_char c < (128::nat)) s \<Longrightarrow> py_upper s = map (\<lambda>c. of_char (ascii_upper c)) s"
  by (induction s) (simp_all add: py_upper_def py_upper_char_ascii)

lemma py_upper_char_high:
  "128 \<le> (of_char c :: nat) \<Longrightarrow> py_upper_char c = [83, 83] \<or> (\<exists>n\<ge>128. py_upper_char c = [n])"
  by (auto simp: py_upper_char_def Let_def)

lemma sublist_py_upper_char:
  "c \<in> set s \<Longrightarrow> sublist (py_upper_char c) (py_upper s)"
proof (induction s)
  case (Cons a s)
  then show ?case
    by (auto simp: py_upper_def intro: sublist_append_rightI sublist_append_leftI sublist_order.order_trans)
qed simp

lemma methods_codes: "map of_char cors_methods = [68,69,76,69,84,69,44,32,71,69,84,44,32,72,69,65,68,44,32,79,80,84,73,79,78,83,44,32,80,65,84,67,72,44,32,80,79,83,84,44,32,80,85,84::nat]"
  by (simp add: cors_methods_lit)

lemma methods_no_SS: "\<not> sublist [83, 83::nat] (map of_char cors_methods)"
  unfolding methods_codes by code_simp

lemma methods_ascii: "x \<in> set (map of_char cors_methods) \<Longrightarrow> x < (128::nat)"
  unfolding methods_codes by auto

lemma preflight_ascii:
  assumes "sublist (py_upper s) (map of_char cors_methods)"
  shows "list_all (\<lambda>c. of_char c < (128::nat)) s"
  unfolding list_all_iff
proof
  fix c assume c: "c \<in> set s"
  show "of_char c < (128::nat)"
  proof (rule ccontr)
    assume "\<not> of_char c < (128::nat)"
    then have hi: "128 \<le> (of_char c :: nat)" by simp
    have sub: "sublist (py_upper_char c) (map of_char cors_methods)"
      using sublist_py_upper_char [OF c] assms by (rule sublist_order.order_trans)
    from py_upper_char_high [OF hi] show False
    proof
      assume "py_upper_char c = [83, 83]"
      with sub methods_no_SS show False by simp
    next
      assume "\<exists>n\<ge>128. py_upper_char c = [n]"
      then obtain n where n: "128 \<le> n" "py_upper_char c = [n]" by blast
      with sub have "sublist [n] (map of_char cors_methods)" by simp
      then have "n \<in> set (map of_char cors_methods)" by (auto dest: set_mono_sublist)
      with n(1) methods_ascii show False by fastforce
    qed
  qed
qed

lemma inj_of_char_nat: "inj (of_char :: char \<Rightarrow> nat)"
  by (rule injI) simp

lemma sublist_map_inj:
  assumes "inj f" shows "sublist (map f xs) (map f ys) \<longleftrightarrow> sublist xs ys"
proof
  assume "sublist (map f xs) (map f ys)"
  then obtain xs' where "sublist xs' ys" "map f xs = map f xs'" by (blast dest: sublist_map_rightE)
  with assms show "sublist xs ys" by (metis list.inj_map inj_eq)
qed (rule map_mono_sublist)

lemma preflight_method_ok_iff:
  "preflight_method_ok (Some s) \<longleftrightarrow>
     s \<noteq> [] \<and> list_all (\<lambda>c. of_char c < (128::nat)) s \<and> sublist (map ascii_upper s) cors_methods"
proof -
  have eq: "list_all (\<lambda>c. of_char c < (128::nat)) s \<Longrightarrow>
      sublist (py_upper s) (map of_char cors_methods) \<longleftrightarrow> sublist (map ascii_upper s) cors_methods"
    using sublist_map_inj [OF inj_of_char_nat, of "map ascii_upper s" cors_methods]
    by (simp add: py_upper_ascii comp_def)
  show ?thesis
    unfolding preflight_method_ok_def Let_def str_contains_sublist option.case
    using preflight_ascii eq by auto
qed


lemma cors_origin_nonempty [simp]: "cors_origin v \<noteq> []"
  by (simp add: cors_origin_def split: option.split)

lemma cors_headers_origin:
  "[v. (k, v) \<leftarrow> cors_headers h m, k = ''Access-Control-Allow-Origin''] = [cors_origin (h ''Origin'')]"
  by (auto simp: cors_headers_def Let_def split: option.split)

lemma cors_headers_vary:
  "(''Vary'', ''Origin'') \<in> set (cors_headers h m) \<longleftrightarrow> cors_origin (h ''Origin'') \<noteq> ''*''"
  by (auto simp: cors_headers_def Let_def split: option.split)

lemma cors_headers_methods:
  "map snd (filter (\<lambda>kv. fst kv = ''Access-Control-Allow-Methods'') (cors_headers h m)) =
     (if m = OPTIONS \<and> preflight_method_ok (h ''Access-Control-Request-Method'') then [cors_methods] else [])"
  by (auto simp: cors_headers_def Let_def cors_methods_lit split: option.split)

lemma map_of_cors_headers_origin:
  "map_of (cors_headers h m) ''Access-Control-Allow-Origin'' = Some (cors_origin (h ''Origin''))"
  by (simp add: cors_headers_def Let_def)

lemma cors_after_request_Nil [simp]: "cors_after_request h m [] = cors_headers h m"
  by (simp add: cors_after_request_def)

lemma cors_after_request_evaluated [simp]:
  "cors_after_request h m (cors_headers h m) = cors_headers h m"
  by (simp add: cors_after_request_def map_of_cors_headers_origin)

lemma wsgi_app_dispatch:
  "wsgi_app debug tpl env h rq =
     ((fst (dispatch tpl env rq),
       if debug \<and> outcome_of (fst (dispatch tpl env rq)) = Other_exception then [] else cors_headers h (rq_method rq)),
      snd (dispatch tpl env rq))"
  by (simp add: wsgi_app_def Let_def split: prod.split flask_outcome.split)

lemma preflight_method_ok_None [simp]: "\<not> preflight_method_ok None"
  by (simp add: preflight_method_ok_def)

text \<open>
  C19: CORS on the responses Flask produces: whatever the path, method and status,
  the response and effects are those of Flask's dispatch, and the headers are those
  of one pass of \<open>get_cors_headers\<close>, although an error response (404, 405, the
  400 or 415 of \<open>request.json\<close>, a 500 without debug) passes the hook twice: the
  second pass sees the origin header of the first and adds nothing.  So exactly one
  \<open>Access-Control-Allow-Origin\<close> is sent: the request's \<open>Origin\<close> when it is
  non-empty, so that any site may read the replies, and \<open>*\<close> otherwise, with one
  \<open>Vary: Origin\<close> exactly when a non-empty origin other than \<open>*\<close> is echoed.  Under
  \<open>debug=True\<close> a 500 for an exception the handler lets escape is the debugger's
  page, with no CORS header at all.
\<close>

theorem cors_allow_origin:
  "fst (fst (wsgi_app debug tpl env h rq)) = fst (dispatch tpl env rq) \<and>
   snd (wsgi_app debug tpl env h rq) = snd (dispatch tpl env rq) \<and>
   snd (fst (wsgi_app debug tpl env h rq)) =
     (if debug \<and> outcome_of (fst (dispatch tpl env rq)) = Other_exception then []
      else cors_headers h (rq_method rq)) \<and>
   [v. (k, v) \<leftarrow> snd (fst (wsgi_app debug tpl env h rq)), k = ''Access-Control-Allow-Origin''] =
     (if debug \<and> outcome_of (fst (dispatch tpl env rq)) = Other_exception then []
      else [case h ''Origin'' of Some s \<Rightarrow> if s = [] then ''*'' else s | None \<Rightarrow> ''*'']) \<and>
   [v. (k, v) \<leftarrow> snd (fst (wsgi_app debug tpl env h rq)), k = ''Vary''] =
     (if \<not> (debug \<and> outcome_of (fst (dispatch tpl env rq)) = Other_exception) \<and>
         (\<exists>s. h ''Origin'' = Some s \<and> s \<noteq> [] \<and> s \<noteq> ''*'') then [''Origin''] else [])"
proof -
  have hd: "snd (fst (wsgi_app debug tpl env h rq)) =
      (if debug \<and> outcome_of (fst (dispatch tpl env rq)) = Other_exception then [] else cors_headers h (rq_method rq))"
    by (simp del: cors_after_request_Nil cors_after_request_evaluated
        add: wsgi_app_def Let_def cors_after_request_def map_of_cors_headers_origin
        split: prod.split flask_outcome.split)
  have star: "cors_origin v \<noteq> ''*'' \<longleftrightarrow> (\<exists>s. v = Some s \<and> s \<noteq> [] \<and> s \<noteq> ''*'')" for v
    by (auto simp: cors_origin_def split: option.split)
  have vary: "[v. (k, v) \<leftarrow> cors_headers h m, k = ''Vary''] =
      (if cors_origin (h ''Origin'') \<noteq> ''*'' then [''Origin''] else [])" for m
    by (auto simp: cors_headers_def Let_def split: option.split)
  have origin: "cors_origin (h ''Origin'') =
      (case h ''Origin'' of Some s \<Rightarrow> if s = [] then ''*'' else s | None \<Rightarrow> ''*'')"
    by (simp add: cors_origin_def split: option.split)
  have eqs: "fst (fst (wsgi_app debug tpl env h rq)) = fst (dispatch tpl env rq) \<and>
      snd (wsgi_app debug tpl env h rq) = snd (dispatch tpl env rq)"
    by (simp add: wsgi_app_def Let_def split: prod.split)
  show ?thesis
  proof (cases "debug \<and> outcome_of (fst (dispatch tpl env rq)) = Other_exception")
    case True
    show ?thesis unfolding hd using True eqs by simp
  next
    case False
    show ?thesis unfolding hd using False eqs
      by (simp only: if_False cors_headers_origin vary star origin simp_thms) (auto split: option.split)
  qed
qed

text \<open>
  C22: the preflight test of flask-cors, \<open>m and m in methods\<close> on the upper-cased
  \<open>Access-Control-Request-Method\<close>, holds exactly when that value is non-empty,
  ASCII and, upper-cased, a substring of the serialised method list: a preflight
  gets \<open>Access-Control-Allow-Methods\<close>, always all seven methods, on that
  condition and no other response gets it.
\<close>

theorem cors_preflight_methods:
  "map snd (filter (\<lambda>kv. fst kv = ''Access-Control-Allow-Methods'') (cors_headers h m)) =
     (if m = OPTIONS \<and> (\<exists>s. h ''Access-Control-Request-Method'' = Some s \<and> s \<noteq> [] \<and>
            list_all (\<lambda>c. of_char c < (128::nat)) s \<and> sublist (map ascii_upper s) ''DELETE, GET, HEAD, OPTIONS, PATCH, POST, PUT'')
      then [''DELETE, GET, HEAD, OPTIONS, PATCH, POST, PUT''] else [])"
proof (cases "h ''Access-Control-Request-Method''")
  case None then show ?thesis by (simp add: cors_headers_methods)
next
  case (Some s) then show ?thesis
    by (simp add: cors_headers_methods preflight_method_ok_iff cors_methods_lit)
qed

lemma allow_headers_content_type: "allow_headers_value (Some ''content-type'') = Some ''content-type''"
  by code_simp

lemma preflight_POST: "preflight_method_ok (Some ''POST'')"
  by code_simp

text \<open>
  C18: the preflight a browser sends from another site before posting JSON to the
  chat API is answered by Flask's automatic \<open>OPTIONS\<close> response (allowing \<open>POST\<close>
  and \<open>OPTIONS\<close>) with the origin echoed, the requested header allowed and all
  seven methods advertised, without running the handler.
\<close>

theorem chat_preflight:
  assumes "h ''Origin'' = Some orig" and "orig \<noteq> []" and "orig \<noteq> ''*''"
    and "h ''Access-Control-Request-Method'' = Some ''POST''"
    and "h ''Access-Control-Request-Headers'' = Some ''content-type''"
    and "h ''Access-Control-Request-Private-Network'' = None"
  shows "wsgi_app debug tpl env h \<lparr>rq_method = OPTIONS, rq_path = ''/api/v1/chat'', rq_body = b\<rparr> =
    ((Options_200 [POST, OPTIONS],
      [(''Access-Control-Allow-Origin'', orig), (''Access-Control-Allow-Headers'', ''content-type''),
       (''Access-Control-Allow-Methods'', ''DELETE, GET, HEAD, OPTIONS, PATCH, POST, PUT''), (''Vary'', ''Origin'')]), [])"
  using assms
  by (simp add: wsgi_app_def outcome_of_def dispatch_def url_map_def rule_methods_def cors_headers_def cors_origin_def
      preflight_POST allow_headers_content_type cors_methods_lit)

theorem chat_preflight_witness:
  "wsgi_app True (\<lambda>_. None) \<lparr>stdout = (\<lambda>_. True), api_key = None, provider = (\<lambda>_. Inr [])\<rparr>
     (\<lambda>k. if k = ''Origin'' then Some ''https://example.org''
       else if k = ''Access-Control-Request-Method'' then Some ''POST''
       else if k = ''Access-Control-Request-Headers'' then Some ''content-type'' else None)
     \<lparr>rq_method = OPTIONS, rq_path = ''/api/v1/chat'', rq_body = Malformed_json\<rparr> =
    ((Options_200 [POST, OPTIONS],
      [(''Access-Control-Allow-Origin'', ''https://example.org''), (''Access-Control-Allow-Headers'', ''content-type''),
       (''Access-Control-Allow-Methods'', ''DELETE, GET, HEAD, OPTIONS, PATCH, POST, PUT''), (''Vary'', ''Origin'')]), [])"
  by (rule chat_preflight) simp_all

end
