(* ===== verification/Server.thy ===== *)
theory Server
  imports Cors Startup
begin

text \<open>
  The process \<open>python app.py\<close> serves: \<open>app.run(host='0.0.0.0', port=port,
  debug=True)\<close> (\<open>src/app.py\<close>, line 193) hands every request to \<open>app.wsgi_app\<close>
  in debug mode, with the environment and the client the import built
  (\<open>served_env\<close> of \<open>Startup\<close>).  Werkzeug's development server runs each request
  in a thread of its own; the handler keeps no state between requests, so a request
  is answered as \<open>serve\<close> computes it whatever else runs.
\<close>

section \<open>The served application\<close>

definition serve ::
  "template_store \<Rightarrow> server \<Rightarrow> (event \<Rightarrow> bool) \<Rightarrow> (llm_client \<Rightarrow> chat_message list \<Rightarrow> string py) \<Rightarrow>
     headers \<times> http_request \<Rightarrow> (app_response \<times> (string \<times> string) list) \<times> event list" where
  "serve tpl srv so call hrq =
     wsgi_app True tpl (served_env (srv_env srv) so call (srv_llm srv)) (fst hrq) (snd hrq)"

section \<open>Lemmas\<close>

text \<open>
  C21: in the server \<open>app.py\<close> starts (\<open>debug=True\<close>), a chat request whose
  \<open>messages\<close> is a non-empty string ends in an exception the handler lets escape, so
  it is answered by the debugger's 500 page without any CORS header, whatever the
  request's headers: a browser client on another site cannot read even the status.
\<close>

theorem served_string_messages_no_cors:
  assumes "s \<noteq> []"
  shows "fst (serve tpl srv so call (h, \<lparr>rq_method = POST, rq_path = ''/api/v1/chat'',
            rq_body = Json_body (JObj [(''messages'', JStr s)])\<rparr>)) =
         (Http (Error_response 500 (if so (Log_error TypeError) then AttributeError else UnicodeEncodeError)), [])"
  using assms
  by (simp add: serve_def served_env_def wsgi_app_def Let_def outcome_of_def dispatch_def url_map_def rule_methods_def
      chat_def chat_try_def chat_inputs_def request_json_def alist_of_pairs_def last_content_def
      chat_except_def except_user_message_def flask_uncaught_def py_print_def)

theorem served_string_messages_no_cors_witness:
  "fst (serve (\<lambda>_. None)
          \<lparr>srv_env = (\<lambda>_. None), srv_llm = \<lparr>llm_model = ''deepseek-chat'', llm_api_key = ''k'',
             llm_base_url = ''https://api.deepseek.com''\<rparr>, srv_port = 3001\<rparr>
          (\<lambda>_. True) (\<lambda>_ _. Inr ''ok'')
     (\<lambda>k. if k = ''Origin'' then Some ''https://example.org'' else None,
      \<lparr>rq_method = POST, rq_path = ''/api/v1/chat'', rq_body = Json_body (JObj [(''messages'', JStr ''hi'')])\<rparr>)) =
   (Http (Error_response 500 AttributeError), [])"
  using served_string_messages_no_cors [of "''hi''" "\<lambda>_. None"
      "\<lparr>srv_env = (\<lambda>_. None), srv_llm = \<lparr>llm_model = ''deepseek-chat'', llm_api_key = ''k'',
             llm_base_url = ''https://api.deepseek.com''\<rparr>, srv_port = 3001\<rparr>"
      "\<lambda>_. True" "\<lambda>_ _. Inr ''ok''" "\<lambda>k. if k = ''Origin'' then Some ''https://example.org'' else None"]
  by simp

end
