(* ===== verification/Spec2Isabelle.thy ===== *)
theory Spec2Isabelle
  imports Startup Server Cors
begin

text \<open>
  A verification library for the chat backend of the SupplyGuard assistant, whose
  whole logic is \<open>src/app.py\<close>: the route \<open>POST /api/v1/chat\<close> (\<open>chat()\<close>),
  which validates the JSON body, replies from a keyword table when no API key is set,
  and otherwise sends a prompt (the constant \<open>SYSTEM_PROMPT\<close>, an optional page hint
  and the last ten turns) to a DeepSeek model through LangChain, falling back to the
  keyword table when anything in that path raises.

  \<^bold>\<open>Theories.\<close>
  \<^item> \<open>Prelude\<close>: exceptions as values (\<open>res_bind\<close> on \<open>'e + 'a\<close>), the slice
    \<open>last_n\<close> (\<open>xs[-n:]\<close>), the substring scan \<open>str_contains\<close> (\<open>k in s\<close>) and
    its equivalence with \<open>Sublist.sublist\<close>, \<open>py_join\<close>, and the association-list
    lemmas for dict construction (\<open>alist_of_pairs\<close>).
  \<^item> \<open>PyValue\<close>: the values \<open>request.json\<close> produces (\<open>json\<close> as sent,
    \<open>pyval\<close> decoded by \<open>decode_json\<close>, a repeated key keeping its last value), the
    exceptions \<open>exc\<close>, and the built-ins \<open>chat()\<close> applies: truth value,
    \<open>.get\<close>, \<open>[key]\<close>, \<open>[-1]\<close>, \<open>[i:]\<close>, iteration, \<open>len\<close>,
    \<open>str.lower\<close>, \<open>str()\<close>/\<open>repr()\<close>, \<open>int(s)\<close> (\<open>py_int\<close>: surrounding
    white space, a sign, digits with single underscores between them, at most 4300
    digits), each returning CPython's exception where it raises one.  Invariant:
    decoded dicts have distinct keys (\<open>wf_decode_json\<close>); round trip
    \<open>int(str(i)) = i\<close>.
  \<^item> \<open>Fallback\<close>: \<open>FALLBACK_RESPONSES\<close> (an association list in declaration order,
    the order \<open>dict.items()\<close> iterates), \<open>supply_guard_keywords\<close> and
    \<open>get_fallback_response\<close> (lines 91--113) with its body \<open>fallback_message\<close>.
    Lemmas: when the redirect and the generic sentence are answered (both as
    equivalences), the precedence of the first matching key, the range of answers,
    case insensitivity.
  \<^item> \<open>Prompt\<close>: \<open>SYSTEM_PROMPT\<close> (lines 22--89, line by line), the LangChain
    message classes with their content validation, the page hint, the history loop
    \<open>history_messages\<close> and \<open>build_chat_messages\<close> (lines 147--160).  Lemmas: the
    prompt of a well-formed conversation (system prompt, hint, last ten turns, assistant
    turns as system messages, other roles dropped) and, for any input, that an
    assembled prompt starts with the system prompt and has at most twelve messages.
  \<^item> \<open>Handler\<close>: \<open>chat()\<close> as \<open>chat_try\<close> (the \<open>try\<close> block, lines 125--173,
    split into \<open>chat_inputs\<close>, \<open>last_content\<close> and \<open>chat_llm\<close>),
    \<open>chat_except\<close> (lines 175--187) and \<open>chat\<close>, which composes them as Python does
    and hands an exception the \<open>except\<close> block raises to Flask
    (\<open>flask_uncaught\<close>: 500, or the code of an \<open>HTTPException\<close>).  The process
    state the handler reads is the record \<open>chat_env\<close>: which lines the standard
    output can encode (\<open>stdout\<close>; every line starts with an emoji, and
    \<open>py_print\<close> raises \<open>UnicodeEncodeError\<close> on the others), \<open>DEEPSEEK_API_KEY\<close>,
    and the provider behind \<open>llm.invoke\<close>, a function from the prompt to its text or
    an exception.  A run returns the response and the trace of its effects
    (\<open>event\<close>: the four \<open>print\<close> lines and the provider call), in order.  The
    claims about the spec's branches assume \<open>prints_all\<close>, an output that prints
    every line.
  \<^item> \<open>Startup\<close>: the process around the handler.  \<open>load_dotenv\<close> (line 9) with
    python-dotenv's upward search for \<open>.env\<close> (\<open>find_dotenv_from\<close>, a
    \<open>partial_function\<close> in the option monad whose termination is a theorem) and its
    no-override update (\<open>set_env_entries\<close>); the client \<open>ChatOpenAI(...)\<close>
    (lines 15--19, \<open>init_llm\<close>) with the key resolution of langchain_openai and
    openai; \<open>import_app\<close>; the \<open>__main__\<close> block (lines 189--193, \<open>main\<close>:
    \<open>int(os.getenv('PORT', 3001))\<close>, two prints, the port check of \<open>app.run\<close>);
    \<open>run_app\<close> for \<open>python app.py\<close>; and \<open>served_env\<close>, the \<open>chat_env\<close> a
    started process hands the handler, which is where \<open>Handler\<close> and \<open>Startup\<close>
    compose.
  \<^item> \<open>App\<close>: the web layer.  \<open>url_map\<close> holds the three \<open>@app.route\<close> rules
    (lines 115--123), \<open>rule_methods\<close> adds Flask's automatic \<open>HEAD\<close> and
    \<open>OPTIONS\<close>, and \<open>dispatch\<close> routes a request.  An unknown path gives 404, a
    method the rule lacks gives 405, and automatic \<open>OPTIONS\<close> gets its answer.  Otherwise
    \<open>dispatch\<close> runs the view: \<open>page_view\<close> for \<open>/\<close> and \<open>/demo\<close>, over a
    template store whose missing template raises \<open>TemplateNotFound\<close>, or \<open>chat\<close>.
    \<open>reply_json\<close>/\<open>response_json\<close> are the bodies \<open>jsonify\<close> writes, with
    keys sorted.  \<open>has_type\<close> is an inductive typing judgment of JSON values
    (types \<open>jtype\<close>: scalars, literal choices, arrays, objects with required and
    optional fields), equivalent to the executable \<open>type_check\<close>
    (\<open>has_type_iff\<close>).  It types the spec's interface: \<open>chat_request_type\<close>,
    \<open>chat_reply_type\<close>, \<open>error_body_type\<close>.
  \<^item> \<open>Cors\<close>: the application object (lines 11--12).  \<open>wsgi_app\<close> is Flask's
    \<open>dispatch\<close> followed by the hook \<open>CORS(app)\<close> installs
    (\<open>cors_after_request\<close>, which leaves alone a response that already carries an
    origin header).  How Flask reaches a response (\<open>outcome_of\<close>: a view's
    response, an \<open>HTTPException\<close>, another exception) decides how often the hook
    runs: once for a view's response, twice for an error response (the wrapped
    exception handler, then \<open>finalize_request\<close>), never for the debugger's page that
    answers an escaped exception under \<open>debug=True\<close>.  \<open>cors_headers\<close> is
    flask-cors's \<open>get_cors_headers\<close> with the default options: \<open>cors_origin\<close>
    (\<open>get_cors_origins\<close>), \<open>allow_headers_value\<close> (\<open>get_allow_headers\<close>, with
    \<open>py_split\<close> and \<open>py_strip\<close>), the preflight test \<open>preflight_method_ok\<close> over
    \<open>str.upper\<close> (\<open>py_upper\<close>, whose result may leave Latin-1 and is given as code
    points) and the serialised method list \<open>cors_methods\<close>.  \<open>ascii_upper\<close> is a
    reference reading of the method test, to which the code's test is proved
    equivalent.
  \<^item> \<open>Server\<close>: \<open>serve\<close>, what the process \<open>python app.py\<close> answers to a request:
    \<open>wsgi_app\<close> in debug mode (line 193) in the environment \<open>served_env\<close> that the
    import built, which is where \<open>Startup\<close>, \<open>Cors\<close>, \<open>App\<close> and \<open>Handler\<close>
    compose.
  \<^item> \<open>Spec2Isabelle\<close> (this theory): the spec's contract (\<open>spec_chat\<close>,
    \<open>spec_prompt\<close> on \<open>spec_request\<close>), the abstraction \<open>parse_request\<close> from a
    decoded body to it, the refinement theorem \<open>chat_refines_spec\<close>, the round trip of
    the request encoding, and the comparison of the two redirect sentences.

  \<^bold>\<open>What the theorems show.\<close>  The handler implements the spec's contract on every
  body of the spec's shape (C1, on an output that prints its lines); it answers 400
  exactly for a missing or falsy \<open>messages\<close> (C2); its three non-error branches are as
  the spec says, with the effects in order (C3--C5; the spec's tariff example is a
  lemma of \<open>Handler\<close>); every 200 reply is a fallback text or the provider's own text
  (C6); the provider is called at most once, only with a key and only with an
  assembled prompt (C7, C8), which starts with the system prompt and has at most
  twelve messages (C13); the status is one of 200, 400, 415, 500 (C14); the error
  line of a raising try block is printed before the except block runs, so it is the
  last effect and is kept whether that block answers or raises (C23).  The
  fallback's branches are characterised exactly (C9--C11), and the prompt of a
  well-formed conversation is described turn by turn (C12).  Four theorems record
  where the code leaves the spec: a string \<open>messages\<close> and a non-string content give
  500 (C15, C16), \<open>"context": null\<close> silently disables the provider (C17), a message
  without content gets the redirect sentence (C24); and the two redirect sentences
  of the program differ (\<open>redirect_sentences_differ\<close>).  On an output that cannot
  encode the emoji of its lines, every request but the 400 ends in 500, malformed
  bodies and provider failures included (C20).  In a started process every provider
  call goes through a client holding the DeepSeek key the handler checked (C25),
  while the handler's no-key branch is reachable only with a client built from
  \<open>OPENAI_API_KEY\<close> (C26): without either key the import raises (C27), so the
  spec's "absent credential routes to the fallback" never happens in a process with
  no credential at all.  The \<open>.env\<close> search terminates and finds the nearest file
  (C28), whose entries never override the environment (C29); the port is read back
  from \<open>PORT\<close> (C30) and start-up ends in a port in 0--65535, \<open>ValueError\<close>,
  \<open>OverflowError\<close> or \<open>UnicodeEncodeError\<close> (C31).  At the interface, every JSON
  body the handler writes has the spec's type for its status (C32).  In the web
  layer, the provider is reachable only through \<open>POST /api/v1/chat\<close> (C33), other
  methods on that path get 405 (C34), and the page routes render their template or
  answer 500, with 404 for any other path (C35).  Every response Flask produces keeps
  its status, body and effects and carries the headers of one pass of flask-cors,
  although error responses pass its hook twice: exactly one
  \<open>Access-Control-Allow-Origin\<close>, which echoes any non-empty \<open>Origin\<close> (C19), so a
  browser page of any site may call the chat API; its preflight is answered by
  Flask's automatic \<open>OPTIONS\<close> with the origin echoed and all seven methods
  advertised (C18).  The preflight method test of flask-cors is a substring test on
  the upper-cased method, equivalent to an ASCII substring test of the method list,
  so \<open>get\<close> or \<open>T, P\<close> also pass it (C22).  Under \<open>debug=True\<close>, as line 193
  starts the server, an exception the handler lets escape is answered by Werkzeug's
  debugger page with no CORS header; a string \<open>messages\<close> is such a request (C21).
  Lemmas that are not claims: \<open>int(str(i)) = i\<close> (\<open>py_int_py_int_str\<close>), and every
  request body of the spec's request type is read as a spec request
  (\<open>typed_request_parsed\<close>), so C1 applies to it.

  \<^bold>\<open>Modelling choices.\<close>  Python's \<open>str\<close> is \<open>string\<close> over Isabelle's 256
  characters, read as the code points U+0000--U+00FF; on them \<open>str.lower\<close> and
  \<open>repr\<close> are exact.  A JSON float (\<open>JFloat\<close>, \<open>PFloat\<close>, including
  \<open>NaN\<close> and \<open>Infinity\<close>, which \<open>json.loads\<close> accepts) is given by the
  \<open>repr\<close> of the double it is read as; that string identifies the double, gives its
  truth value (false for \<open>0.0\<close> and \<open>-0.0\<close>) and is what \<open>str()\<close> prints, while the
  rounding of a decimal literal to a double is not modelled.  \<open>json.loads\<close> refuses an integer literal of more than 4300 digits (Python 3.11 and
  later, \<open>json_digits_ok\<close>), which \<open>request.json\<close> turns into a 400.  The
  library versions modelled are Flask 2.3 or later (\<open>request.json\<close> raises 400/415
  and is re-read in the \<open>except\<close> block) and \<open>langchain_core\<close> 0.3 (pydantic 2
  validation of message content), langchain_openai 0.2/0.3 with openai 1.x (an empty
  \<open>SecretStr\<close> key is false and the client then reads \<open>OPENAI_API_KEY\<close>), and
  python-dotenv 1.x (\<open>.env\<close> searched from the directory of \<open>app.py\<close> upwards,
  \<open>override=False\<close>).  A directory is its absolute path as a list of components;
  the \<open>.env\<close> file is given by its entries after parsing and interpolation.  The
  only loop that is not over a finite list of the input is the \<open>.env\<close> search
  (\<open>while last_dir != current_dir\<close>); it is a \<open>partial_function (option)\<close>
  and C32 proves that it returns \<open>Some\<close> on every directory, so no fuel is needed.
  CORS is modelled for flask-cors 5.x and 6.x, whose defaults include
  \<open>allow_private_network=False\<close> (4.0.1 sent \<open>true\<close>, earlier releases no
  private-network header); request headers are a map from the header name to the
  value Werkzeug decodes as Latin-1.

  \<^bold>\<open>Not modelled.\<close>  The headers Flask itself writes (\<open>Content-Type\<close>,
  \<open>Allow\<close>, \<open>Content-Length\<close>): the response constructors carry what they
  determine.  The import statements (lines 1--7) are not modelled: they only bind
  library names, and a missing library would stop the process before line 9.  Also
  not modelled: the static-file route (Flask registers it only when \<open>src/static\<close> exists); Werkzeug's
  redirects for paths with repeated slashes; the parser of \<open>.env\<close> files; the
  network call itself (abstracted as a function of the client and the prompt); the
  werkzeug server loop after the port is bound (its request threads, the debug
  reloader, \<open>FLASK_RUN_FROM_CLI\<close>, a port already in use): the handler keeps no
  state between requests, so a request's answer is \<open>serve\<close> of that request
  whatever else runs, and a provider call that never returns (\<open>llm.invoke\<close> has no
  timeout) leaves its request unanswered, which a function cannot express; the
  standard output's encoding as a function of the locale and
  \<open>PYTHONIOENCODING\<close> (it is a parameter, which lines it can print); and the
  limits of the host (thread count, sockets).

  \<^bold>\<open>Plan for extending the library.\<close>
  (1) Code points beyond U+00FF, where \<open>str.lower\<close> can change the length of a
      string, and lone surrogates, which a UTF-8 output cannot print.
\<close>

section \<open>The contract of the handler\<close>

text \<open>
  The request as the spec's data model describes it (section 3): turns with role
  \<open>user\<close> or \<open>assistant\<close> and a text, and an optional page; the prompt of
  section 4.1 step 4; and the handler's contract of section 4.1, with the provider as a
  function from the prompt to its text or a failure.
\<close>

datatype role = User | Assistant

record spec_request =
  sr_messages :: "(role \<times> string) list"
  sr_page :: "string option"

definition role_name :: "role \<Rightarrow> string" where
  "role_name rl = (case rl of User \<Rightarrow> ''user'' | Assistant \<Rightarrow> ''assistant'')"

definition spec_turn :: "role \<times> string \<Rightarrow> chat_message" where
  "spec_turn t = (case fst t of User \<Rightarrow> HumanMessage (PStr (snd t)) | Assistant \<Rightarrow> SystemMessage (PStr (snd t)))"

definition spec_prompt :: "spec_request \<Rightarrow> chat_message list" where
  "spec_prompt r =
     SystemMessage (PStr SYSTEM_PROMPT) #
     (case sr_page r of None \<Rightarrow> [] | Some p \<Rightarrow> [SystemMessage (PStr (context_message p))]) @
     map spec_turn (last_n 10 (sr_messages r))"

definition spec_chat :: "bool \<Rightarrow> (chat_message list \<Rightarrow> string py) \<Rightarrow> spec_request \<Rightarrow> http_response" where
  "spec_chat configured call r =
     (if sr_messages r = [] then Bad_request_400 ''Messages are required''
      else let user_message = snd (last (sr_messages r)) in
        if \<not> configured then Ok_200 (fallback_reply (fallback_message user_message))
        else (case call (spec_prompt r) of
                Inr text \<Rightarrow> Ok_200 (llm_reply text)
              | Inl _ \<Rightarrow> Ok_200 (fallback_reply (fallback_message user_message))))"

text \<open>
  The abstraction from a decoded body to the spec's request: defined where the body
  has the spec's shape (a dict with a list of turns, each a dict with a role and a
  string content, and an optional context dict with an optional string page); other
  keys are ignored.
\<close>

definition parse_role :: "pyval \<Rightarrow> role option" where
  "parse_role v =
     (if v = PStr ''user'' then Some User else if v = PStr ''assistant'' then Some Assistant else None)"

definition parse_turn :: "pyval \<Rightarrow> (role \<times> string) option" where
  "parse_turn v =
     (case v of
        PDict m \<Rightarrow>
          (case (map_of m ''role'', map_of m ''content'') of
             (Some rv, Some (PStr c)) \<Rightarrow> map_option (\<lambda>rl. (rl, c)) (parse_role rv)
           | _ \<Rightarrow> None)
      | _ \<Rightarrow> None)"

definition parse_page :: "pyval option \<Rightarrow> string option option" where
  "parse_page cv =
     (case cv of
        None \<Rightarrow> Some None
      | Some (PDict c) \<Rightarrow>
          (case map_of c ''currentPage'' of
             None \<Rightarrow> Some None
           | Some (PStr p) \<Rightarrow> Some (Some p)
           | Some _ \<Rightarrow> None)
      | Some _ \<Rightarrow> None)"

definition parse_request :: "pyval \<Rightarrow> spec_request option" where
  "parse_request v =
     (case v of
        PDict kvs \<Rightarrow>
          (case map_of kvs ''messages'' of
             Some (PList ms) \<Rightarrow>
               (case (those (map parse_turn ms), parse_page (map_of kvs ''context'')) of
                  (Some ts, Some page) \<Rightarrow> Some \<lparr>sr_messages = ts, sr_page = page\<rparr>
                | _ \<Rightarrow> None)
           | _ \<Rightarrow> None)
      | _ \<Rightarrow> None)"

definition to_request :: "spec_request \<Rightarrow> chat_request" where
  "to_request r = \<lparr>req_messages = map (\<lambda>t. (role_name (fst t), snd t)) (sr_messages r), req_page = sr_page r\<rparr>"

text \<open>The redirect sentence the system prompt mandates (\<open>src/app.py\<close>, line 77).\<close>

definition prompt_redirect :: string where
  "prompt_redirect = ''I can only help with SupplyGuard platform questions. What would you like to know about our dashboard, suppliers, alerts, or other platform features?''"

section \<open>Refinement\<close>

lemma those_map_Some:
  "those (map f xs) = Some ys \<longleftrightarrow> list_all2 (\<lambda>x y. f x = Some y) xs ys"
proof (induction xs arbitrary: ys)
  case Nil then show ?case by auto
next
  case (Cons x xs)
  then show ?case by (cases ys) (auto split: option.splits)
qed

lemma those_map_all:
  "(\<forall>x\<in>set xs. f x \<noteq> None) \<Longrightarrow> \<exists>ys. those (map f xs) = Some ys"
  by (induction xs) auto

lemma parse_turn_Some:
  "parse_turn v = Some t \<Longrightarrow>
   py_subscript v ''role'' = Inr (PStr (role_name (fst t))) \<and>
   py_subscript v ''content'' = Inr (PStr (snd t)) \<and>
   py_get v ''content'' d = Inr (PStr (snd t))"
  by (auto simp: parse_turn_def parse_role_def role_name_def split: pyval.splits option.splits if_splits)

lemma history_messages_parsed:
  "list_all2 (\<lambda>x y. parse_turn x = Some y) ms ts \<Longrightarrow> history_messages ms = Inr (map spec_turn ts)"
proof (induction ms ts rule: list_all2_induct)
  case Nil then show ?case by simp
next
  case (Cons m ms t ts)
  with parse_turn_Some [OF Cons(1)] show ?case
    by (cases "fst t") (simp_all add: role_name_def spec_turn_def)
qed

lemma context_messages_parsed:
  assumes "parse_page cv = Some page" and "page \<noteq> Some []"
  shows "context_messages (case cv of None \<Rightarrow> PDict [] | Some v \<Rightarrow> v) =
     Inr (case page of None \<Rightarrow> [] | Some p \<Rightarrow> [SystemMessage (PStr (context_message p))])"
  using assms
  by (auto simp: parse_page_def context_messages_def split: option.splits pyval.splits)

lemma parse_request_Some:
  assumes "parse_request v = Some r"
  obtains kvs ms where "v = PDict kvs" "map_of kvs ''messages'' = Some (PList ms)"
    "list_all2 (\<lambda>x y. parse_turn x = Some y) ms (sr_messages r)"
    "parse_page (map_of kvs ''context'') = Some (sr_page r)"
  using assms
  by (auto simp: parse_request_def those_map_Some split: pyval.splits option.splits)

lemma build_chat_messages_parsed:
  assumes "list_all2 (\<lambda>x y. parse_turn x = Some y) ms (sr_messages r)"
    and "parse_page cv = Some (sr_page r)" and "sr_page r \<noteq> Some []"
  shows "build_chat_messages (case cv of None \<Rightarrow> PDict [] | Some v \<Rightarrow> v) (PList ms) = Inr (spec_prompt r)"
proof -
  have "list_all2 (\<lambda>x y. parse_turn x = Some y) (last_n 10 ms) (last_n 10 (sr_messages r))"
    using assms(1) by (simp add: last_n_def list_all2_lengthD list_all2_dropI)
  then have "history_messages (last_n 10 ms) = Inr (map spec_turn (last_n 10 (sr_messages r)))"
    by (rule history_messages_parsed)
  then show ?thesis
    using context_messages_parsed [OF assms(2,3)]
    by (simp add: build_chat_messages_def py_slice_from_neg_list [of 10, simplified] spec_prompt_def)
qed

text \<open>
  C1: refinement: on a standard output that can print the handler's lines, every
  request body that \<open>json.loads\<close> accepts and that has the spec's shape and a page that is not the empty string is
  answered as the spec's contract says, with the provider's outcome on the spec's
  prompt.
\<close>

theorem chat_refines_spec:
  assumes "parse_request (decode_json j) = Some r" and "sr_page r \<noteq> Some []" and "prints_all env"
    and "json_digits_ok j"
  shows "fst (chat env (Json_body j)) = spec_chat (api_key_configured (api_key env)) (provider env) r"
proof -
  from assms(1) obtain kvs ms where v: "decode_json j = PDict kvs"
    and m: "map_of kvs ''messages'' = Some (PList ms)"
    and ts: "list_all2 (\<lambda>x y. parse_turn x = Some y) ms (sr_messages r)"
    and pg: "parse_page (map_of kvs ''context'') = Some (sr_page r)"
    by (rule parse_request_Some)
  let ?cv = "case map_of kvs ''context'' of None \<Rightarrow> PDict [] | Some v \<Rightarrow> v"
  have inputs: "chat_inputs (Json_body j) = Inr (PList ms, ?cv)"
    using v m assms(4) by (simp add: chat_inputs_def request_json_def split: option.split)
  have len: "length ms = length (sr_messages r)"
    using ts by (rule list_all2_lengthD)
  show ?thesis
  proof (cases "sr_messages r = []")
    case True
    with len inputs show ?thesis by (simp add: chat_def chat_try_def spec_chat_def)
  next
    case False
    with len have ne: "ms \<noteq> []" by auto
    have lt: "parse_turn (last ms) = Some (last (sr_messages r))"
      using ts ne False by (simp add: last_conv_nth list_all2_conv_all_nth len)
    have lc: "last_content (PList ms) = Inr (PStr (snd (last (sr_messages r))))"
      using ne parse_turn_Some [OF lt] by (simp add: last_content_def)
    have ex: "chat_except (Json_body j) = Inr (Ok_200 (fallback_reply (fallback_message (snd (last (sr_messages r))))))"
      using v m ne parse_turn_Some [OF lt] assms(4)
      by (simp add: chat_except_def except_user_message_def request_json_def get_fallback_response_def)
    have bm: "build_chat_messages ?cv (PList ms) = Inr (spec_prompt r)"
      by (rule build_chat_messages_parsed [OF ts pg assms(2)])
    show ?thesis
      using False ne inputs lc ex bm assms(3)
      by (simp add: chat_def chat_try_def chat_llm_def spec_chat_def get_fallback_response_def Let_def
          split: sum.split)
  qed
qed

lemma parse_role_name [simp]: "parse_role (PStr (role_name rl)) = Some rl"
  by (cases rl) (simp_all add: parse_role_def role_name_def)

text \<open>
  Round trip: encoding a spec-level request as the JSON body a client sends and
  reading it back gives the request; so the refinement covers every spec request.
\<close>

theorem parse_encode_request: "parse_request (decode_json (encode_request (to_request r))) = Some r"
proof -
  have "those (map parse_turn (map turn_value (map (\<lambda>t. (role_name (fst t), snd t)) (sr_messages r))))
        = Some (sr_messages r)"
    by (simp add: those_map_Some list_all2_conv_all_nth parse_turn_def turn_value_def)
  then show ?thesis
    by (cases "sr_page r")
       (simp_all add: decode_encode_request to_request_def parse_request_def parse_page_def)
qed

section \<open>The typed interface\<close>

lemma typed_turn_parsed:
  assumes "has_type m chat_turn_type"
  shows "parse_turn (decode_json m) \<noteq> None"
proof -
  from assms obtain fs where m: "m = JObj fs"
    by (auto simp: chat_turn_type_def elim: has_type_TObjE)
  with assms have h: "has_type (JObj fs) chat_turn_type" by simp
  then have d: "distinct (map fst fs)" by (simp add: chat_turn_type_def has_type_JObj_distinct)
  from has_type_field_required [OF h [unfolded chat_turn_type_def], of "''role''"] obtain rv
    where rv: "map_of fs ''role'' = Some rv" "has_type rv (TEnum [JStr ''user'', JStr ''assistant''])" by auto
  from has_type_field_required [OF h [unfolded chat_turn_type_def], of "''content''"] obtain cv
    where cv: "map_of fs ''content'' = Some cv" "has_type cv TStr" by auto
  from rv(2) have "rv = JStr ''user'' \<or> rv = JStr ''assistant''" by (auto elim: has_type_TEnumE)
  moreover from cv(2) obtain c where "cv = JStr c" by (auto elim: has_type_TStrE)
  moreover have "decode_json m = PDict (map (\<lambda>(k, v). (k, decode_json v)) fs)"
    unfolding m by (rule decode_json_obj_distinct [OF d])
  ultimately show ?thesis
    using rv(1) cv(1) by (auto simp: parse_turn_def parse_role_def map_of_decoded)
qed

lemma typed_context_parsed:
  assumes "has_type cv chat_context_type"
  shows "parse_page (Some (decode_json cv)) \<noteq> None"
proof -
  from assms obtain fs where cv: "cv = JObj fs"
    by (auto simp: chat_context_type_def elim: has_type_TObjE)
  with assms have h: "has_type (JObj fs) (TObj [(''currentPage'', TStr, False)])"
    by (simp add: chat_context_type_def)
  have "decode_json cv = PDict (map (\<lambda>(k, v). (k, decode_json v)) fs)"
    unfolding cv by (rule decode_json_obj_distinct [OF has_type_JObj_distinct [OF h]])
  moreover have "map_of fs ''currentPage'' = None \<or> (\<exists>p. map_of fs ''currentPage'' = Some (JStr p))"
  proof (cases "map_of fs ''currentPage''")
    case (Some pv)
    with has_type_field [where r = False, OF h _ Some] have "has_type pv TStr" by simp
    with Some show ?thesis by (auto elim: has_type_TStrE)
  qed simp
  ultimately show ?thesis by (auto simp: parse_page_def map_of_decoded)
qed

text \<open>
  The request type of the spec's interface (section 6) is accepted by the handler's
  reading of the body: every JSON body of that type decodes to a value that
  \<open>parse_request\<close> maps to a spec-level request, so the refinement theorem C1 covers
  every typed request whose page is not empty.
\<close>

theorem typed_request_parsed:
  assumes "has_type j chat_request_type"
  shows "\<exists>r. parse_request (decode_json j) = Some r"
proof -
  from assms obtain fs where j: "j = JObj fs"
    by (auto simp: chat_request_type_def elim: has_type_TObjE)
  with assms have h:
    "has_type (JObj fs) (TObj [(''messages'', TArr chat_turn_type, True), (''context'', chat_context_type, False)])"
    by (simp add: chat_request_type_def)
  have dec: "decode_json j = PDict (map (\<lambda>(k, v). (k, decode_json v)) fs)"
    unfolding j by (rule decode_json_obj_distinct [OF has_type_JObj_distinct [OF h]])
  from has_type_field_required [OF h, of "''messages''"] obtain mv
    where mv: "map_of fs ''messages'' = Some mv" "has_type mv (TArr chat_turn_type)" by auto
  from mv(2) obtain ms where ms: "mv = JArr ms" "\<forall>m\<in>set ms. has_type m chat_turn_type"
    by (auto elim: has_type_TArrE)
  from ms(2) obtain ts where ts: "those (map parse_turn (map decode_json ms)) = Some ts"
    using those_map_all [of "map decode_json ms" parse_turn] typed_turn_parsed by auto
  obtain page where page: "parse_page (map_option decode_json (map_of fs ''context'')) = Some page"
  proof (cases "map_of fs ''context''")
    case None
    then show ?thesis using that by (simp add: parse_page_def)
  next
    case (Some cv)
    with has_type_field [where r = False, OF h _ Some] have "has_type cv chat_context_type" by simp
    with Some that typed_context_parsed show ?thesis by fastforce
  qed
  show ?thesis using mv(1) ms(1) ts page by (simp add: dec parse_request_def map_of_decoded)
qed

section \<open>The two redirect sentences\<close>

lemma system_prompt_has_redirect: "sublist prompt_redirect SYSTEM_PROMPT"
proof -
  let ?nl = "[CHR 0x0A]"
  have l: "SYSTEM_PROMPT_lines ! 54 = ''- If asked about external topics, respond: '' @ [CHR 0x22] @ prompt_redirect @ [CHR 0x22]"
    by (simp add: SYSTEM_PROMPT_lines_def prompt_redirect_def)
  have len: "54 < length SYSTEM_PROMPT_lines"
    by (simp add: SYSTEM_PROMPT_lines_def)
  have s1: "sublist prompt_redirect (SYSTEM_PROMPT_lines ! 54 @ ?nl)"
    unfolding l by (metis append.assoc sublist_appendI)
  have s2: "sublist (SYSTEM_PROMPT_lines ! 54 @ ?nl) (concat (map (\<lambda>l. l @ ?nl) SYSTEM_PROMPT_lines))"
    by (rule concat_map_nth_sublist [OF len])
  have s3: "sublist (concat (map (\<lambda>l. l @ ?nl) SYSTEM_PROMPT_lines)) SYSTEM_PROMPT"
    unfolding SYSTEM_PROMPT_def by (rule sublist_Cons_right [THEN iffD2, OF disjI2, OF sublist_order.order_refl])
  from s1 s2 s3 show ?thesis by (meson sublist_order.order_trans)
qed
text \<open>
  The system prompt tells the model to answer out-of-scope questions with a fixed
  redirect sentence, and the keyword fallback answers them with a different sentence
  (it adds "reports,"), so the same question gets two different redirects depending on
  whether the provider is reachable.
\<close>

theorem redirect_sentences_differ:
  "sublist prompt_redirect SYSTEM_PROMPT \<and> \<not> sublist fallback_redirect prompt_redirect
   \<and> prompt_redirect \<noteq> fallback_redirect"
proof -
  have "\<not> sublist fallback_redirect prompt_redirect"
    by (rule notI, drule sublist_length_le) (simp add: fallback_redirect_def prompt_redirect_def)
  then show ?thesis
    using system_prompt_has_redirect
    by (auto simp: fallback_redirect_def prompt_redirect_def)
qed

subsection \<open>Witnesses\<close>

theorem chat_refines_spec_witness:
  "fst (chat \<lparr>stdout = (\<lambda>_. True), api_key = Some ''k'', provider = (\<lambda>_. Inr ''See the Alerts page.'')\<rparr>
          (Json_body (JObj [(''messages'', JArr [JObj [(''role'', JStr ''user''), (''content'', JStr ''hi'')]]),
                            (''context'', JObj [(''currentPage'', JStr ''Alerts'')])])))
   = spec_chat True (\<lambda>_. Inr ''See the Alerts page.'')
       \<lparr>sr_messages = [(User, ''hi'')], sr_page = Some ''Alerts''\<rparr>"
proof -
  let ?j = "JObj [(''messages'', JArr [JObj [(''role'', JStr ''user''), (''content'', JStr ''hi'')]]),
                  (''context'', JObj [(''currentPage'', JStr ''Alerts'')])]"
  have p: "parse_request (decode_json ?j) = Some \<lparr>sr_messages = [(User, ''hi'')], sr_page = Some ''Alerts''\<rparr>"
    by (simp add: alist_of_pairs_def parse_request_def parse_turn_def parse_role_def parse_page_def)
  show ?thesis
    using chat_refines_spec [OF p, of "\<lparr>stdout = (\<lambda>_. True), api_key = Some ''k'', provider = (\<lambda>_. Inr ''See the Alerts page.'')\<rparr>"]
    by (simp add: api_key_configured_def)
qed

theorem typed_request_parsed_witness:
  "\<exists>r. parse_request (decode_json (JObj [(''messages'', JArr [JObj [(''role'', JStr ''user''), (''content'', JStr ''hi'')]]),
      (''context'', JObj [(''currentPage'', JStr ''Alerts'')])])) = Some r"
  by (rule typed_request_parsed)
     (simp add: has_type_iff chat_request_type_def chat_turn_type_def chat_context_type_def)

end
